theory Spec2Isabelle
  imports Main "HOL-Library.Word" "HOL-Library.Monad_Syntax"
begin

unbundle bit_operations_syntax

section \<open>Types, variables and the intermediate tree\<close>

text \<open>
  The part of ANGLE's type description that \<^verbatim>\<open>RewritePixelLocalStorage.cpp\<close> reads and
  writes. The enumerations list the enumerators the pass names, and a few of the others so
  that every \<^verbatim>\<open>default:\<close> branch of the source is reachable.
\<close>

datatype TBasicType =
    EbtVoid | EbtFloat | EbtInt | EbtUInt | EbtBool
  | EbtSampler2D
  | EbtImage2D | EbtIImage2D | EbtUImage2D
  | EbtPixelLocalANGLE | EbtIPixelLocalANGLE | EbtUPixelLocalANGLE

datatype TPrecision = EbpUndefined | EbpLow | EbpMedium | EbpHigh

datatype TQualifier =
    EvqTemporary | EvqGlobal | EvqConst | EvqUniform
  | EvqFragmentOut | EvqFragmentInOut | EvqFragCoord | EvqParamIn

datatype TLayoutImageInternalFormat =
    EiifUnspecified | EiifRGBA32F | EiifRGBA8 | EiifRGBA8I | EiifRGBA8UI
  | EiifR32F | EiifR32I | EiifR32UI

record TLayoutQualifier =
  location :: int
  locationsSpecified :: nat
  binding :: int
  imageInternalFormat :: TLayoutImageInternalFormat
  rasterOrdered :: bool
  noncoherent :: bool

record TMemoryQualifier =
  readonly :: bool
  writeonly :: bool
  coherent :: bool
  restrictQualifier :: bool
  volatileQualifier :: bool

record TType =
  basicType :: TBasicType
  precision :: TPrecision
  qualifier :: TQualifier
  primarySize :: nat
  isArray :: bool
  layoutQualifier :: TLayoutQualifier
  memoryQualifier :: TMemoryQualifier

datatype SymbolType = BuiltIn | UserDefined | AngleInternal | Empty

record TVariable =
  uniqueId :: nat
  name :: string
  symbolType :: SymbolType
  extensions :: "nat list"
  getType :: TType

text \<open>\<^verbatim>\<open>TLayoutQualifier::Create()\<close> and \<^verbatim>\<open>TMemoryQualifier::Create()\<close>: nothing specified.\<close>

definition TLayoutQualifier_Create :: TLayoutQualifier where
  "TLayoutQualifier_Create =
     \<lparr>location = -1, locationsSpecified = 0, binding = -1,
      imageInternalFormat = EiifUnspecified, rasterOrdered = False, noncoherent = False\<rparr>"

definition TMemoryQualifier_Create :: TMemoryQualifier where
  "TMemoryQualifier_Create =
     \<lparr>readonly = False, writeonly = False, coherent = False,
      restrictQualifier = False, volatileQualifier = False\<rparr>"

text \<open>
  The two \<^verbatim>\<open>TType\<close> constructors the pass calls:
  \<^verbatim>\<open>TType(basicType, precision, qualifier, primarySize)\<close> and
  \<^verbatim>\<open>TType(basicType, primarySize)\<close>, the latter with undefined precision and the global
  qualifier.
\<close>

definition TType_new :: "TBasicType \<Rightarrow> TPrecision \<Rightarrow> TQualifier \<Rightarrow> nat \<Rightarrow> TType" where
  "TType_new t p q ps =
     \<lparr>basicType = t, precision = p, qualifier = q, primarySize = ps, isArray = False,
      layoutQualifier = TLayoutQualifier_Create, memoryQualifier = TMemoryQualifier_Create\<rparr>"

definition TType_basic :: "TBasicType \<Rightarrow> nat \<Rightarrow> TType" where
  "TType_basic t ps = TType_new t EbpUndefined EvqGlobal ps"

definition IsPixelLocal :: "TBasicType \<Rightarrow> bool" where
  "IsPixelLocal t = (t = EbtPixelLocalANGLE \<or> t = EbtIPixelLocalANGLE \<or> t = EbtUPixelLocalANGLE)"

text \<open>
  Operators. A call of a built-in function keeps the function's name, and a constructor
  the type it constructs (ANGLE stores both in the aggregate node).
\<close>

datatype TOperator =
    EOpPixelLocalLoadANGLE | EOpPixelLocalStoreANGLE
  | EOpCallBuiltInFunction string
  | EOpCallFunctionInAST string
  | EOpConstruct TType
  | EOpAssign | EOpInitialize
  | EOpBitShiftLeft | EOpBitShiftRight | EOpBitwiseOr | EOpBitwiseAnd | EOpBitwiseAndAssign
  | EOpAdd | EOpSub | EOpMul | EOpComma | EOpLessThan | EOpNegative

definition BuiltInGroup_IsPixelLocal :: "TOperator \<Rightarrow> bool" where
  "BuiltInGroup_IsPixelLocal op = (op = EOpPixelLocalLoadANGLE \<or> op = EOpPixelLocalStoreANGLE)"

text \<open>
  Constants: a signed, an unsigned or a floating constant. The source writes the floating
  constants 0 and 1 only, so a floating constant is kept as the integer it denotes.
\<close>

datatype TConstantUnion = iConst int | uConst nat | fConst int

text \<open>
  The node classes whose visit functions the pass leaves at the traverser's default
  (always descend): their children are kept in traversal order.
\<close>

datatype TNodeClass = Unary TOperator | Ternary | IfElse | Switch | Case | Loop | Branch

datatype TIntermNode =
    TIntermSymbol TVariable
  | TIntermConstantUnion "TConstantUnion list"
  | TIntermSwizzle TIntermNode "nat list"
  | TIntermBinary TOperator TIntermNode TIntermNode
  | TIntermAggregate TOperator "TIntermNode list"
  | TIntermDeclaration "TIntermNode list"
  | TIntermBlock "TIntermNode list"
  | TIntermFunctionDefinition string TIntermNode
  | TIntermOther TNodeClass "TIntermNode list"

type_synonym TIntermSequence = "TIntermNode list"

text \<open>
  \<^verbatim>\<open>getAsSymbolNode()\<close> is null on every node that is not a symbol. The type of a typed node
  is needed for the declarator of a declaration only: a symbol has its variable's type, an
  initialisation the type of its left operand as a temporary; other nodes are no
  declarators.
\<close>

fun getAsSymbolNode :: "TIntermNode \<Rightarrow> TVariable option" where
  "getAsSymbolNode (TIntermSymbol v) = Some v"
| "getAsSymbolNode _ = None"

fun getTypeOfDeclarator :: "TIntermNode \<Rightarrow> TType option" where
  "getTypeOfDeclarator (TIntermSymbol v) = Some (getType v)"
| "getTypeOfDeclarator (TIntermBinary op (TIntermSymbol v) r) =
     (if op = EOpInitialize then Some ((getType v)\<lparr>qualifier := EvqTemporary\<rparr>) else None)"
| "getTypeOfDeclarator _ = None"

subsection \<open>Node construction helpers\<close>

text \<open>
  Modelled from the spec: the helpers of \<^verbatim>\<open>tree_util/IntermNode_util\<close> and the symbol table
  are not among the sources. The symbol table is the counter of unique identifiers; a
  temporary variable is an unnamed internal variable with the next identifier; the other
  helpers build the node their name says (the spec's "synthesizing built-in calls").
\<close>

type_synonym TSymbolTable = nat

definition CreateTempVariable :: "TSymbolTable \<Rightarrow> TType \<Rightarrow> TVariable \<times> TSymbolTable" where
  "CreateTempVariable symbolTable ty =
     (\<lparr>uniqueId = symbolTable, name = [], symbolType = AngleInternal, extensions = [],
       getType = ty\<rparr>, Suc symbolTable)"

definition CreateTempDeclarationNode :: "TVariable \<Rightarrow> TIntermNode" where
  "CreateTempDeclarationNode v = TIntermDeclaration [TIntermSymbol v]"

definition CreateTempInitDeclarationNode :: "TVariable \<Rightarrow> TIntermNode \<Rightarrow> TIntermNode" where
  "CreateTempInitDeclarationNode v init =
     TIntermDeclaration [TIntermBinary EOpInitialize (TIntermSymbol v) init]"

definition CreateTempAssignmentNode :: "TVariable \<Rightarrow> TIntermNode \<Rightarrow> TIntermNode" where
  "CreateTempAssignmentNode v rhs = TIntermBinary EOpAssign (TIntermSymbol v) rhs"

definition CreateIndexNode :: "int \<Rightarrow> TIntermNode" where
  "CreateIndexNode i = TIntermConstantUnion [iConst i]"

definition CreateUIntNode :: "nat \<Rightarrow> TIntermNode" where
  "CreateUIntNode u = TIntermConstantUnion [uConst u]"

definition CreateUVecNode :: "nat list \<Rightarrow> nat \<Rightarrow> TPrecision \<Rightarrow> TIntermNode" where
  "CreateUVecNode values n p = TIntermConstantUnion (map uConst (take n values))"

definition CreateFloatNode :: "int \<Rightarrow> TPrecision \<Rightarrow> TIntermNode" where
  "CreateFloatNode f p = TIntermConstantUnion [fConst f]"

definition CreateSwizzle :: "TIntermNode \<Rightarrow> nat list \<Rightarrow> TIntermNode" where
  "CreateSwizzle n offsets = TIntermSwizzle n offsets"

definition CreateBuiltInFunctionCallNode ::
  "string \<Rightarrow> TIntermSequence \<Rightarrow> TSymbolTable \<Rightarrow> int \<Rightarrow> TIntermNode" where
  "CreateBuiltInFunctionCallNode fname args symbolTable shaderVersion =
     TIntermAggregate (EOpCallBuiltInFunction fname) args"

definition CreateConstructor :: "TType \<Rightarrow> TIntermSequence \<Rightarrow> TIntermNode" where
  "CreateConstructor ty args = TIntermAggregate (EOpConstruct ty) args"

definition kESSLInternalBackendBuiltIns :: int where
  "kESSLInternalBackendBuiltIns = 0"

definition gl_FragCoord :: TVariable where
  "gl_FragCoord =
     \<lparr>uniqueId = 0, name = ''gl_FragCoord'', symbolType = BuiltIn, extensions = [],
      getType = TType_new EbtFloat EbpMedium EvqFragCoord 4\<rparr>"

definition ReferenceBuiltInVariable :: "string \<Rightarrow> TSymbolTable \<Rightarrow> int \<Rightarrow> TIntermNode option" where
  "ReferenceBuiltInVariable vname symbolTable shaderVersion =
     (if vname = ''gl_FragCoord'' then Some (TIntermSymbol gl_FragCoord) else None)"

text \<open>
  \<^verbatim>\<open>TIntermBlock::insertStatement\<close> and the range insertion of \<^verbatim>\<open>std::vector\<close>: the position
  must lie inside the sequence or at its end.
\<close>

definition insertStatements ::
  "nat \<Rightarrow> TIntermSequence \<Rightarrow> TIntermSequence \<Rightarrow> TIntermSequence option" where
  "insertStatements pos stmts sequence =
     (if pos \<le> length sequence then Some (take pos sequence @ stmts @ drop pos sequence)
      else None)"

definition insertStatement ::
  "nat \<Rightarrow> TIntermNode \<Rightarrow> TIntermSequence \<Rightarrow> TIntermSequence option" where
  "insertStatement pos stmt sequence = insertStatements pos [stmt] sequence"

section \<open>Configuration and compiler\<close>

text \<open>
  Modelled from the spec: the enumerations of \<^verbatim>\<open>ShaderLang.h\<close> are not among the sources.
  They hold the enumerators the pass names; \<^verbatim>\<open>InvalidEnum\<close> stands for every other value
  (the \<^verbatim>\<open>default:\<close> branches).
\<close>

datatype ShPixelLocalStorageType =
    PLS_NotSupported | ImageStoreR32PackedFormats | ImageStoreNativeFormats | FramebufferFetch

datatype ShFragmentSynchronizationType =
    NotSupported
  | FragmentShaderInterlock_NV_GL
  | FragmentShaderOrdering_INTEL_GL
  | FragmentShaderInterlock_ARB_GL
  | RasterizerOrderViews_D3D
  | InvalidEnum

record ShPixelLocalStorageOptions =
  plsType :: ShPixelLocalStorageType
  fragmentSynchronizationType :: ShFragmentSynchronizationType

record ShCompileOptions =
  pls :: ShPixelLocalStorageOptions
  passHighpToPackUnormSnormBuiltins :: bool

text \<open>
  The compiler, as far as the pass touches it: the resource limit it reads and the flag
  \<^verbatim>\<open>specifyEarlyFragmentTests()\<close> sets.
\<close>

record TCompiler =
  MaxCombinedDrawBuffersAndPixelLocalStoragePlanes :: int
  isEarlyFragmentTestsSpecified :: bool

definition specifyEarlyFragmentTests :: "TCompiler \<Rightarrow> TCompiler" where
  "specifyEarlyFragmentTests compiler = compiler\<lparr>isEarlyFragmentTestsSpecified := True\<rparr>"

section \<open>The pass\<close>

fun DataTypeOfPLSType :: "TBasicType \<Rightarrow> TBasicType option" where
  "DataTypeOfPLSType EbtPixelLocalANGLE = Some EbtFloat"
| "DataTypeOfPLSType EbtIPixelLocalANGLE = Some EbtInt"
| "DataTypeOfPLSType EbtUPixelLocalANGLE = Some EbtUInt"
| "DataTypeOfPLSType _ = None"

fun DataTypeOfImageType :: "TBasicType \<Rightarrow> TBasicType option" where
  "DataTypeOfImageType EbtImage2D = Some EbtFloat"
| "DataTypeOfImageType EbtIImage2D = Some EbtInt"
| "DataTypeOfImageType EbtUImage2D = Some EbtUInt"
| "DataTypeOfImageType _ = None"

subsection \<open>PLSBackingStoreMap\<close>

text \<open>
  A \<^verbatim>\<open>std::map<int, T>\<close>: the entries, kept in ascending order of their binding. A failed
  \<^verbatim>\<open>ASSERT\<close> or \<^verbatim>\<open>UNREACHABLE\<close> is the result \<open>None\<close>, here and below. The member
  \<^verbatim>\<open>find\<close> is \<open>findStore\<close> here.
\<close>

type_synonym 'a PLSBackingStoreMap = "(int \<times> 'a) list"

definition insertNew ::
  "'a PLSBackingStoreMap \<Rightarrow> TVariable \<Rightarrow> 'a \<Rightarrow> 'a PLSBackingStoreMap option" where
  "insertNew mMap plsSymbol backingStore =
     (if \<not> IsPixelLocal (basicType (getType plsSymbol)) then None
      else let b = binding (layoutQualifier (getType plsSymbol)) in
        if b < 0 then None
        else if b \<in> fst ` set mMap then None
        else Some (insort_key fst (b, backingStore) mMap))"

definition findStore :: "'a PLSBackingStoreMap \<Rightarrow> TVariable \<Rightarrow> 'a option" where
  "findStore mMap plsSymbol =
     (if \<not> IsPixelLocal (basicType (getType plsSymbol)) then None
      else let b = binding (layoutQualifier (getType plsSymbol)) in
        if b < 0 then None else map_of mMap b)"

definition bindingOrderedMap :: "'a PLSBackingStoreMap \<Rightarrow> (int \<times> 'a) list" where
  "bindingOrderedMap mMap = mMap"

subsection \<open>The traverser and its queues\<close>

datatype TraverserClass = RewritePLSToImagesTraverser | RewritePLSToFramebufferFetchTraverser

record PLSAttachment =
  fragmentVar :: TVariable
  accessVar :: TVariable

text \<open>
  One record holds the members of the base class and of both subclasses; \<open>mClass\<close> is the
  dynamic class of the object, on which the virtual functions dispatch. The members of
  \<^verbatim>\<open>TIntermTraverser\<close> are reduced to what this pass uses of them: the replacement queued for
  the node being visited, and the statements queued for insertion before and after the
  statement of the enclosing block that is being traversed. Variables are compared by
  value where the source compares their addresses.
\<close>

record RewritePLSTraverser =
  mClass :: TraverserClass
  mCompiler :: TCompiler
  mCompileOptions :: ShCompileOptions
  mShaderVersion :: int
  mSymbolTable :: TSymbolTable
  mGlobalPixelCoord :: "TVariable option"
  mImages :: "TVariable PLSBackingStoreMap"
  mPLSAttachments :: "PLSAttachment PLSBackingStoreMap"
  mRewrittenOutputs :: "TVariable \<rightharpoonup> TVariable"
  mReplacement :: "TIntermNode option"
  mInsertionsBefore :: TIntermSequence
  mInsertionsAfter :: TIntermSequence

definition RewritePLSTraverser_new ::
  "TraverserClass \<Rightarrow> TCompiler \<Rightarrow> TSymbolTable \<Rightarrow> ShCompileOptions \<Rightarrow> int \<Rightarrow> RewritePLSTraverser" where
  "RewritePLSTraverser_new cls compiler symbolTable compileOptions shaderVersion =
     \<lparr>mClass = cls, mCompiler = compiler, mCompileOptions = compileOptions,
      mShaderVersion = shaderVersion, mSymbolTable = symbolTable, mGlobalPixelCoord = None,
      mImages = [], mPLSAttachments = [], mRewrittenOutputs = Map.empty,
      mReplacement = None, mInsertionsBefore = [], mInsertionsAfter = []\<rparr>"

text \<open>
  Modelled from the spec: \<^verbatim>\<open>TIntermTraverser\<close> (\<^verbatim>\<open>tree_util/IntermTraverse\<close>) is not among
  the sources. The spec gives it "a deferred node-replacement queue applied after traversal
  completes, and statement-insertion primitives that insert before/after the node
  currently being visited", with "the relative order of queued replacements and inserted
  statements within one parent block preserved exactly as requested". Every replacement
  of this pass drops the original node.
\<close>

definition queueReplacement :: "TIntermNode \<Rightarrow> RewritePLSTraverser \<Rightarrow> RewritePLSTraverser" where
  "queueReplacement replacement t = t\<lparr>mReplacement := Some replacement\<rparr>"

definition insertStatementsInParentBlock ::
  "TIntermSequence \<Rightarrow> TIntermSequence \<Rightarrow> RewritePLSTraverser \<Rightarrow> RewritePLSTraverser" where
  "insertStatementsInParentBlock insertionsBefore insertionsAfter t =
     t\<lparr>mInsertionsBefore := mInsertionsBefore t @ insertionsBefore,
       mInsertionsAfter := mInsertionsAfter t @ insertionsAfter\<rparr>"

definition insertStatementInParentBlock :: "TIntermNode \<Rightarrow> RewritePLSTraverser \<Rightarrow> RewritePLSTraverser" where
  "insertStatementInParentBlock statement t = insertStatementsInParentBlock [statement] [] t"

definition takeReplacement ::
  "TIntermNode \<Rightarrow> RewritePLSTraverser \<Rightarrow> TIntermNode \<times> RewritePLSTraverser" where
  "takeReplacement original t =
     (case mReplacement t of
        None \<Rightarrow> (original, t)
      | Some replacement \<Rightarrow> (replacement, t\<lparr>mReplacement := None\<rparr>))"

definition ensureGlobalPixelCoordDeclared :: "RewritePLSTraverser \<Rightarrow> RewritePLSTraverser" where
  "ensureGlobalPixelCoordDeclared t =
     (case mGlobalPixelCoord t of
        Some pc \<Rightarrow> t
      | None \<Rightarrow>
          let coordType = TType_new EbtInt EbpHigh EvqGlobal 2;
              (pc, symbolTable) = CreateTempVariable (mSymbolTable t) coordType
          in insertStatementInParentBlock (CreateTempDeclarationNode pc)
               (t\<lparr>mSymbolTable := symbolTable, mGlobalPixelCoord := Some pc\<rparr>))"

subsection \<open>RewritePLSToImagesTraverser\<close>

definition needsR32Packing :: "RewritePLSTraverser \<Rightarrow> bool" where
  "needsR32Packing t = (plsType (pls (mCompileOptions t)) = ImageStoreR32PackedFormats)"

definition createPLSImageReplacement :: "RewritePLSTraverser \<Rightarrow> TVariable \<Rightarrow> TVariable option" where
  "createPLSImageReplacement t plsSymbol =
     (if \<not> IsPixelLocal (basicType (getType plsSymbol)) then None
      else
        let imageType = getType plsSymbol;
            lq = layoutQualifier imageType;
            fmt = imageInternalFormat lq
        in do {
          (imageType, lq) \<leftarrow>
            (if fmt = EiifRGBA8 then
               (if needsR32Packing t
                then Some (imageType\<lparr>precision := EbpHigh, basicType := EbtUImage2D\<rparr>,
                           lq\<lparr>imageInternalFormat := EiifR32UI\<rparr>)
                else Some (imageType\<lparr>basicType := EbtImage2D\<rparr>, lq))
             else if fmt = EiifRGBA8I then
               (if needsR32Packing t
                then Some (imageType\<lparr>precision := EbpHigh, basicType := EbtIImage2D\<rparr>,
                           lq\<lparr>imageInternalFormat := EiifR32I\<rparr>)
                else Some (imageType\<lparr>basicType := EbtIImage2D\<rparr>, lq))
             else if fmt = EiifRGBA8UI then
               (if needsR32Packing t
                then Some (imageType\<lparr>precision := EbpHigh, basicType := EbtUImage2D\<rparr>,
                           lq\<lparr>imageInternalFormat := EiifR32UI\<rparr>)
                else Some (imageType\<lparr>basicType := EbtUImage2D\<rparr>, lq))
             else if fmt = EiifR32F then Some (imageType\<lparr>basicType := EbtImage2D\<rparr>, lq)
             else if fmt = EiifR32UI then Some (imageType\<lparr>basicType := EbtUImage2D\<rparr>, lq)
             else None);
          let lq = lq\<lparr>rasterOrdered :=
                 (fragmentSynchronizationType (pls (mCompileOptions t)) = RasterizerOrderViews_D3D)\<rparr>;
              imageType = imageType\<lparr>layoutQualifier := lq\<rparr>;
              mq = \<lparr>readonly = False, writeonly = False, coherent = True,
                    restrictQualifier = True, volatileQualifier = False\<rparr>;
              imageType = imageType\<lparr>memoryQualifier := mq\<rparr>
          in Some \<lparr>uniqueId = uniqueId plsSymbol, name = name plsSymbol,
                    symbolType = symbolType plsSymbol, extensions = extensions plsSymbol,
                    getType = imageType\<rparr>
        })"

definition unpackImageDataIfNecessary ::
  "RewritePLSTraverser \<Rightarrow> TIntermNode \<Rightarrow> TVariable \<Rightarrow> TVariable \<Rightarrow> TIntermNode option" where
  "unpackImageDataIfNecessary t data plsSymbol image2D =
     (let plsFormat = imageInternalFormat (layoutQualifier (getType plsSymbol));
          imageFormat = imageInternalFormat (layoutQualifier (getType image2D))
      in if plsFormat = imageFormat then Some data
         else if \<not> needsR32Packing t then None
         else if plsFormat = EiifRGBA8 then
           Some (CreateBuiltInFunctionCallNode ''unpackUnorm4x8'' [CreateSwizzle data [0]]
                   (mSymbolTable t) (mShaderVersion t))
         else if plsFormat = EiifRGBA8I \<or> plsFormat = EiifRGBA8UI then
           (let shifts = [24, 16, 8, 0];
                data = CreateSwizzle data [0, 0, 0, 0];
                data = TIntermBinary EOpBitShiftLeft data (CreateUVecNode shifts 4 EbpHigh);
                data = TIntermBinary EOpBitShiftRight data (CreateUIntNode 24)
            in Some data)
         else None)"

definition RewritePLSToImagesTraverser_visitPLSLoad ::
  "TVariable \<Rightarrow> RewritePLSTraverser \<Rightarrow> RewritePLSTraverser option" where
  "RewritePLSToImagesTraverser_visitPLSLoad plsSymbol t = do {
     image2D \<leftarrow> findStore (mImages t) plsSymbol;
     pc \<leftarrow> mGlobalPixelCoord t;
     let pls = CreateBuiltInFunctionCallNode ''imageLoad''
                 [TIntermSymbol image2D, TIntermSymbol pc] (mSymbolTable t) (mShaderVersion t);
     pls \<leftarrow> unpackImageDataIfNecessary t pls plsSymbol image2D;
     Some (queueReplacement pls t)
   }"

definition shiftComponent :: "TVariable \<Rightarrow> nat \<Rightarrow> TIntermNode" where
  "shiftComponent plsVar componentIdx =
     TIntermBinary EOpBitShiftLeft (CreateSwizzle (TIntermSymbol plsVar) [componentIdx])
       (CreateUIntNode (componentIdx * 8))"

definition clampAndPackPLSDataIfNecessary ::
  "TVariable \<Rightarrow> TVariable \<Rightarrow> TVariable \<Rightarrow> RewritePLSTraverser \<Rightarrow>
     (TIntermNode \<times> RewritePLSTraverser) option" where
  "clampAndPackPLSDataIfNecessary plsVar plsSymbol image2D t =
     (let plsFormat = imageInternalFormat (layoutQualifier (getType plsSymbol));
          t1 = (if plsFormat = EiifRGBA8I then
                  insertStatementInParentBlock
                    (CreateTempAssignmentNode plsVar
                       (CreateBuiltInFunctionCallNode ''clamp''
                          [TIntermSymbol plsVar, CreateIndexNode (- 128), CreateIndexNode 127]
                          (mSymbolTable t) (mShaderVersion t))) t
                else if plsFormat = EiifRGBA8UI then
                  insertStatementInParentBlock
                    (CreateTempAssignmentNode plsVar
                       (CreateBuiltInFunctionCallNode ''min''
                          [TIntermSymbol plsVar, CreateUIntNode 255]
                          (mSymbolTable t) (mShaderVersion t))) t
                else t);
          result = TIntermSymbol plsVar;
          imageFormat = imageInternalFormat (layoutQualifier (getType image2D))
      in if plsFormat = imageFormat then Some (result, t1)
         else if \<not> needsR32Packing t1 then None
         else do {
           (result, t2) \<leftarrow>
             (if plsFormat = EiifRGBA8 then
                (let (result, t2) =
                   (if passHighpToPackUnormSnormBuiltins (mCompileOptions t1) then
                      (let highpType = TType_new EbtFloat EbpHigh EvqTemporary 4;
                           (workaroundHighpVar, symbolTable) =
                              CreateTempVariable (mSymbolTable t1) highpType
                       in (TIntermSymbol workaroundHighpVar,
                           insertStatementInParentBlock
                             (CreateTempInitDeclarationNode workaroundHighpVar result)
                             (t1\<lparr>mSymbolTable := symbolTable\<rparr>)))
                    else (result, t1))
                 in Some (CreateBuiltInFunctionCallNode ''packUnorm4x8'' [result]
                            (mSymbolTable t2) (mShaderVersion t2), t2))
              else if plsFormat = EiifRGBA8I \<or> plsFormat = EiifRGBA8UI then
                (let t2 = (if plsFormat = EiifRGBA8I then
                             insertStatementInParentBlock
                               (TIntermBinary EOpBitwiseAndAssign (TIntermSymbol plsVar)
                                  (CreateIndexNode 255)) t1
                           else t1);
                     result = CreateSwizzle result [0];
                     result = TIntermBinary EOpBitwiseOr result (shiftComponent plsVar 1);
                     result = TIntermBinary EOpBitwiseOr result (shiftComponent plsVar 2);
                     result = TIntermBinary EOpBitwiseOr result (shiftComponent plsVar 3)
                 in Some (result, t2))
              else None);
           dataType \<leftarrow> DataTypeOfImageType (basicType (getType image2D));
           Some (CreateConstructor (TType_basic dataType 4) [result], t2)
         })"

definition RewritePLSToImagesTraverser_visitPLSStore ::
  "TVariable \<Rightarrow> TVariable \<Rightarrow> RewritePLSTraverser \<Rightarrow> RewritePLSTraverser option" where
  "RewritePLSToImagesTraverser_visitPLSStore plsSymbol val t = do {
     image2D \<leftarrow> findStore (mImages t) plsSymbol;
     (packedData, t1) \<leftarrow> clampAndPackPLSDataIfNecessary val plsSymbol image2D t;
     let t2 = insertStatementsInParentBlock
                [CreateBuiltInFunctionCallNode ''memoryBarrierImage'' []
                   (mSymbolTable t1) (mShaderVersion t1)]
                [CreateBuiltInFunctionCallNode ''memoryBarrierImage'' []
                   (mSymbolTable t1) (mShaderVersion t1)] t1;
     pc \<leftarrow> mGlobalPixelCoord t2;
     Some (queueReplacement
             (CreateBuiltInFunctionCallNode ''imageStore''
                [TIntermSymbol image2D, TIntermSymbol pc, packedData]
                (mSymbolTable t2) (mShaderVersion t2)) t2)
   }"

definition RewritePLSToImagesTraverser_visitPLSDeclaration ::
  "TVariable \<Rightarrow> RewritePLSTraverser \<Rightarrow> RewritePLSTraverser option" where
  "RewritePLSToImagesTraverser_visitPLSDeclaration plsSymbol t = do {
     let t1 = ensureGlobalPixelCoordDeclared t;
     image2D \<leftarrow> createPLSImageReplacement t1 plsSymbol;
     images \<leftarrow> insertNew (mImages t1) plsSymbol image2D;
     Some (queueReplacement (TIntermDeclaration [TIntermSymbol image2D])
             (t1\<lparr>mImages := images\<rparr>))
   }"

definition RewritePLSToImagesTraverser_injectSetupCode ::
  "TCompiler \<Rightarrow> TSymbolTable \<Rightarrow> ShCompileOptions \<Rightarrow> TIntermSequence \<Rightarrow> nat \<Rightarrow>
     (TCompiler \<times> TIntermSequence) option" where
  "RewritePLSToImagesTraverser_injectSetupCode compiler symbolTable compileOptions mainBody
       plsBeginPosition =
     (let compiler = specifyEarlyFragmentTests compiler in
      case fragmentSynchronizationType (pls compileOptions) of
        RasterizerOrderViews_D3D \<Rightarrow> Some (compiler, mainBody)
      | NotSupported \<Rightarrow> Some (compiler, mainBody)
      | FragmentShaderInterlock_NV_GL \<Rightarrow>
          map_option (Pair compiler)
            (insertStatement plsBeginPosition
               (CreateBuiltInFunctionCallNode ''beginInvocationInterlockNV'' [] symbolTable
                  kESSLInternalBackendBuiltIns) mainBody)
      | FragmentShaderOrdering_INTEL_GL \<Rightarrow>
          map_option (Pair compiler)
            (insertStatement plsBeginPosition
               (CreateBuiltInFunctionCallNode ''beginFragmentShaderOrderingINTEL'' [] symbolTable
                  kESSLInternalBackendBuiltIns) mainBody)
      | FragmentShaderInterlock_ARB_GL \<Rightarrow>
          map_option (Pair compiler)
            (insertStatement plsBeginPosition
               (CreateBuiltInFunctionCallNode ''beginInvocationInterlockARB'' [] symbolTable
                  kESSLInternalBackendBuiltIns) mainBody)
      | InvalidEnum \<Rightarrow> None)"

definition RewritePLSToImagesTraverser_injectFinalizeCode ::
  "TCompiler \<Rightarrow> TSymbolTable \<Rightarrow> ShCompileOptions \<Rightarrow> TIntermSequence \<Rightarrow> nat \<Rightarrow>
     TIntermSequence option" where
  "RewritePLSToImagesTraverser_injectFinalizeCode compiler symbolTable compileOptions mainBody
       plsEndPosition =
     (case fragmentSynchronizationType (pls compileOptions) of
        RasterizerOrderViews_D3D \<Rightarrow> Some mainBody
      | FragmentShaderOrdering_INTEL_GL \<Rightarrow> Some mainBody
      | NotSupported \<Rightarrow> Some mainBody
      | FragmentShaderInterlock_NV_GL \<Rightarrow>
          insertStatement plsEndPosition
            (CreateBuiltInFunctionCallNode ''endInvocationInterlockNV'' [] symbolTable
               kESSLInternalBackendBuiltIns) mainBody
      | FragmentShaderInterlock_ARB_GL \<Rightarrow>
          insertStatement plsEndPosition
            (CreateBuiltInFunctionCallNode ''endInvocationInterlockARB'' [] symbolTable
               kESSLInternalBackendBuiltIns) mainBody
      | InvalidEnum \<Rightarrow> None)"

subsection \<open>RewritePLSToFramebufferFetchTraverser\<close>

text \<open>
  The subtraction of two C++ \<^verbatim>\<open>int\<close>s, 32 bits wide in two's complement: the result wraps
  around where the mathematical difference does not fit.
\<close>

definition intSub :: "int \<Rightarrow> int \<Rightarrow> int" where
  "intSub a b = sint (word_of_int a - word_of_int b :: 32 word)"

text \<open>
  The constructor of \<^verbatim>\<open>PLSAttachment\<close>. The assignment of the location is the source's
  \<^verbatim>\<open>MaxCombinedDrawBuffersAndPixelLocalStoragePlanes - binding - 1\<close>, two subtractions of
  C++ \<^verbatim>\<open>int\<close>s.
\<close>

definition PLSAttachment_new ::
  "TCompiler \<Rightarrow> TSymbolTable \<Rightarrow> ShCompileOptions \<Rightarrow> TVariable \<Rightarrow>
     (PLSAttachment \<times> TSymbolTable) option" where
  "PLSAttachment_new compiler symbolTable compileOptions plsVar =
     (let plsType = getType plsVar;
          fmt = imageInternalFormat (layoutQualifier plsType)
      in do {
        accessVarType \<leftarrow>
          (if fmt = EiifRGBA8 then Some (TType_basic EbtFloat 4)
           else if fmt = EiifRGBA8I then Some (TType_basic EbtInt 4)
           else if fmt = EiifRGBA8UI then Some (TType_basic EbtUInt 4)
           else if fmt = EiifR32F then Some (TType_basic EbtFloat 1)
           else if fmt = EiifR32UI then Some (TType_basic EbtUInt 1)
           else None);
        let accessVarType = accessVarType\<lparr>precision := precision plsType\<rparr>;
            (accessVar, symbolTable) = CreateTempVariable symbolTable accessVarType;
            fragmentVarType = TType_basic (basicType accessVarType) 4;
            fragmentVarType = fragmentVarType\<lparr>precision := precision plsType\<rparr>;
            fragmentVarType = fragmentVarType\<lparr>qualifier := EvqFragmentInOut\<rparr>;
            lq = TLayoutQualifier_Create;
            lq = lq\<lparr>location :=
                   intSub (intSub (MaxCombinedDrawBuffersAndPixelLocalStoragePlanes compiler)
                             (binding (layoutQualifier plsType))) 1\<rparr>;
            lq = lq\<lparr>locationsSpecified := 1\<rparr>;
            lq = (if fragmentSynchronizationType (pls compileOptions) = NotSupported
                  then lq\<lparr>noncoherent := True\<rparr> else lq);
            fragmentVarType = fragmentVarType\<lparr>layoutQualifier := lq\<rparr>;
            fragmentVar = \<lparr>uniqueId = uniqueId plsVar, name = name plsVar,
                            symbolType = symbolType plsVar, extensions = extensions plsVar,
                            getType = fragmentVarType\<rparr>
        in Some (\<lparr>fragmentVar = fragmentVar, accessVar = accessVar\<rparr>, symbolTable)
      })"

definition expandAccessVar :: "PLSAttachment \<Rightarrow> TIntermNode option" where
  "expandAccessVar attachment =
     (let expanded = TIntermSymbol (accessVar attachment) in
      if primarySize (getType (accessVar attachment)) = 1 then
        (if basicType (getType (accessVar attachment)) = EbtFloat then
           Some (CreateConstructor (TType_basic EbtFloat 4)
                   [expanded, CreateFloatNode 0 EbpHigh, CreateFloatNode 0 EbpHigh,
                    CreateFloatNode 1 EbpHigh])
         else if basicType (getType (accessVar attachment)) = EbtUInt then
           Some (CreateConstructor (TType_basic EbtUInt 4)
                   [expanded, CreateUIntNode 0, CreateUIntNode 0, CreateUIntNode 1])
         else None)
      else Some expanded)"

text \<open>\<^verbatim>\<open>std::vector::resize\<close> on the offsets \<open>{0, 1, 2, 3}\<close>: cut, or filled up with zeros.\<close>

definition resize :: "nat list \<Rightarrow> nat \<Rightarrow> nat list" where
  "resize xs n = take n xs @ replicate (n - length xs) 0"

definition swizzle :: "PLSAttachment \<Rightarrow> TVariable \<Rightarrow> TIntermNode option" where
  "swizzle attachment var =
     (let swizzled = TIntermSymbol var in
      if primarySize (getType var) \<noteq> primarySize (getType (accessVar attachment)) then
        (if \<not> primarySize (getType var) > primarySize (getType (accessVar attachment)) then None
         else let swizzleOffsets = resize [0, 1, 2, 3]
                    (primarySize (getType (accessVar attachment)))
              in Some (TIntermSwizzle swizzled swizzleOffsets))
      else Some swizzled)"

definition swizzleFragmentVar :: "PLSAttachment \<Rightarrow> TIntermNode option" where
  "swizzleFragmentVar attachment = swizzle attachment (fragmentVar attachment)"

definition RewritePLSToFramebufferFetchTraverser_visitPLSDeclaration ::
  "TVariable \<Rightarrow> RewritePLSTraverser \<Rightarrow> RewritePLSTraverser option" where
  "RewritePLSToFramebufferFetchTraverser_visitPLSDeclaration plsSymbol t = do {
     (attachment, symbolTable) \<leftarrow>
        PLSAttachment_new (mCompiler t) (mSymbolTable t) (mCompileOptions t) plsSymbol;
     attachments \<leftarrow> insertNew (mPLSAttachments t) plsSymbol attachment;
     let t1 = t\<lparr>mSymbolTable := symbolTable, mPLSAttachments := attachments\<rparr>;
     let t2 = insertStatementInParentBlock
                (TIntermDeclaration [TIntermSymbol (fragmentVar attachment)]) t1;
     Some (queueReplacement (CreateTempDeclarationNode (accessVar attachment)) t2)
   }"

definition RewritePLSToFramebufferFetchTraverser_visitPLSLoad ::
  "TVariable \<Rightarrow> RewritePLSTraverser \<Rightarrow> RewritePLSTraverser option" where
  "RewritePLSToFramebufferFetchTraverser_visitPLSLoad plsSymbol t = do {
     attachment \<leftarrow> findStore (mPLSAttachments t) plsSymbol;
     expanded \<leftarrow> expandAccessVar attachment;
     Some (queueReplacement expanded t)
   }"

definition RewritePLSToFramebufferFetchTraverser_visitPLSStore ::
  "TVariable \<Rightarrow> TVariable \<Rightarrow> RewritePLSTraverser \<Rightarrow> RewritePLSTraverser option" where
  "RewritePLSToFramebufferFetchTraverser_visitPLSStore plsSymbol val t = do {
     attachment \<leftarrow> findStore (mPLSAttachments t) plsSymbol;
     swizzled \<leftarrow> swizzle attachment val;
     Some (queueReplacement (CreateTempAssignmentNode (accessVar attachment) swizzled) t)
   }"

definition RewritePLSToFramebufferFetchTraverser_visitSymbol ::
  "TVariable \<Rightarrow> RewritePLSTraverser \<Rightarrow> RewritePLSTraverser" where
  "RewritePLSToFramebufferFetchTraverser_visitSymbol var t =
     (case mRewrittenOutputs t var of
        Some varWithLocation \<Rightarrow> queueReplacement (TIntermSymbol varWithLocation) t
      | None \<Rightarrow> t)"

fun plsPreloads :: "(int \<times> PLSAttachment) list \<Rightarrow> TIntermSequence option" where
  "plsPreloads [] = Some []"
| "plsPreloads (entry # entries) = do {
     let attachment = snd entry;
     fragment \<leftarrow> swizzleFragmentVar attachment;
     rest \<leftarrow> plsPreloads entries;
     Some (CreateTempAssignmentNode (accessVar attachment) fragment # rest)
   }"

fun plsWrites :: "(int \<times> PLSAttachment) list \<Rightarrow> TIntermSequence option" where
  "plsWrites [] = Some []"
| "plsWrites (entry # entries) = do {
     let attachment = snd entry;
     fragment \<leftarrow> swizzleFragmentVar attachment;
     rest \<leftarrow> plsWrites entries;
     Some (TIntermBinary EOpAssign fragment (TIntermSymbol (accessVar attachment)) # rest)
   }"

definition RewritePLSToFramebufferFetchTraverser_injectSetupCode ::
  "RewritePLSTraverser \<Rightarrow> TCompiler \<Rightarrow> TSymbolTable \<Rightarrow> ShCompileOptions \<Rightarrow>
     TIntermSequence \<Rightarrow> nat \<Rightarrow> (TCompiler \<times> TIntermSequence) option" where
  "RewritePLSToFramebufferFetchTraverser_injectSetupCode t compiler symbolTable compileOptions
       mainBody plsBeginPosition = do {
     preloads \<leftarrow> plsPreloads (bindingOrderedMap (mPLSAttachments t));
     mainBody \<leftarrow> insertStatements plsBeginPosition preloads mainBody;
     Some (compiler, mainBody)
   }"

definition RewritePLSToFramebufferFetchTraverser_injectFinalizeCode ::
  "RewritePLSTraverser \<Rightarrow> TCompiler \<Rightarrow> TSymbolTable \<Rightarrow> ShCompileOptions \<Rightarrow>
     TIntermSequence \<Rightarrow> nat \<Rightarrow> TIntermSequence option" where
  "RewritePLSToFramebufferFetchTraverser_injectFinalizeCode t compiler symbolTable compileOptions
       mainBody plsEndPosition = do {
     writes \<leftarrow> plsWrites (bindingOrderedMap (mPLSAttachments t));
     insertStatements plsEndPosition writes mainBody
   }"

subsection \<open>RewritePLSTraverser: the virtual functions and the visit functions\<close>

definition visitPLSDeclaration :: "TVariable \<Rightarrow> RewritePLSTraverser \<Rightarrow> RewritePLSTraverser option" where
  "visitPLSDeclaration plsSymbol t =
     (case mClass t of
        RewritePLSToImagesTraverser \<Rightarrow> RewritePLSToImagesTraverser_visitPLSDeclaration plsSymbol t
      | RewritePLSToFramebufferFetchTraverser \<Rightarrow>
          RewritePLSToFramebufferFetchTraverser_visitPLSDeclaration plsSymbol t)"

definition visitPLSLoad :: "TVariable \<Rightarrow> RewritePLSTraverser \<Rightarrow> RewritePLSTraverser option" where
  "visitPLSLoad plsSymbol t =
     (case mClass t of
        RewritePLSToImagesTraverser \<Rightarrow> RewritePLSToImagesTraverser_visitPLSLoad plsSymbol t
      | RewritePLSToFramebufferFetchTraverser \<Rightarrow>
          RewritePLSToFramebufferFetchTraverser_visitPLSLoad plsSymbol t)"

definition visitPLSStore ::
  "TVariable \<Rightarrow> TVariable \<Rightarrow> RewritePLSTraverser \<Rightarrow> RewritePLSTraverser option" where
  "visitPLSStore plsSymbol val t =
     (case mClass t of
        RewritePLSToImagesTraverser \<Rightarrow> RewritePLSToImagesTraverser_visitPLSStore plsSymbol val t
      | RewritePLSToFramebufferFetchTraverser \<Rightarrow>
          RewritePLSToFramebufferFetchTraverser_visitPLSStore plsSymbol val t)"

definition visitSymbol :: "TVariable \<Rightarrow> RewritePLSTraverser \<Rightarrow> RewritePLSTraverser" where
  "visitSymbol var t =
     (case mClass t of
        RewritePLSToImagesTraverser \<Rightarrow> t
      | RewritePLSToFramebufferFetchTraverser \<Rightarrow>
          RewritePLSToFramebufferFetchTraverser_visitSymbol var t)"

definition injectSetupCode ::
  "RewritePLSTraverser \<Rightarrow> TCompiler \<Rightarrow> TSymbolTable \<Rightarrow> ShCompileOptions \<Rightarrow>
     TIntermSequence \<Rightarrow> nat \<Rightarrow> (TCompiler \<times> TIntermSequence) option" where
  "injectSetupCode t compiler symbolTable compileOptions mainBody plsBeginPosition =
     (case mClass t of
        RewritePLSToImagesTraverser \<Rightarrow>
          RewritePLSToImagesTraverser_injectSetupCode compiler symbolTable compileOptions
            mainBody plsBeginPosition
      | RewritePLSToFramebufferFetchTraverser \<Rightarrow>
          RewritePLSToFramebufferFetchTraverser_injectSetupCode t compiler symbolTable
            compileOptions mainBody plsBeginPosition)"

definition injectFinalizeCode ::
  "RewritePLSTraverser \<Rightarrow> TCompiler \<Rightarrow> TSymbolTable \<Rightarrow> ShCompileOptions \<Rightarrow>
     TIntermSequence \<Rightarrow> nat \<Rightarrow> TIntermSequence option" where
  "injectFinalizeCode t compiler symbolTable compileOptions mainBody plsEndPosition =
     (case mClass t of
        RewritePLSToImagesTraverser \<Rightarrow>
          RewritePLSToImagesTraverser_injectFinalizeCode compiler symbolTable compileOptions
            mainBody plsEndPosition
      | RewritePLSToFramebufferFetchTraverser \<Rightarrow>
          RewritePLSToFramebufferFetchTraverser_injectFinalizeCode t compiler symbolTable
            compileOptions mainBody plsEndPosition)"

text \<open>
  \<^verbatim>\<open>RewritePLSTraverser::visitDeclaration\<close>, on the sequence of the declaration. The result
  is the traverser with the flag the source returns (whether to descend).
\<close>

definition RewritePLSTraverser_visitDeclaration ::
  "TIntermSequence \<Rightarrow> RewritePLSTraverser \<Rightarrow> (bool \<times> RewritePLSTraverser) option" where
  "RewritePLSTraverser_visitDeclaration sequence t =
     (case sequence of
        [] \<Rightarrow> None
      | declVariable # others \<Rightarrow> do {
          declType \<leftarrow> getTypeOfDeclarator declVariable;
          if \<not> IsPixelLocal (basicType declType) then Some (True, t)
          else if isArray declType then None
          else if qualifier declType \<noteq> EvqUniform then None
          else do {
            plsSymbol \<leftarrow> getAsSymbolNode declVariable;
            t1 \<leftarrow> visitPLSDeclaration plsSymbol t;
            Some (False, t1)
          }
        })"

definition RewritePLSToFramebufferFetchTraverser_visitDeclaration ::
  "TIntermSequence \<Rightarrow> RewritePLSTraverser \<Rightarrow> (bool \<times> RewritePLSTraverser) option" where
  "RewritePLSToFramebufferFetchTraverser_visitDeclaration sequence t = do {
     (visit, t1) \<leftarrow> RewritePLSTraverser_visitDeclaration sequence t;
     if \<not> visit then Some (False, t1)
     else do {
       declType \<leftarrow> getTypeOfDeclarator (hd sequence);
       if qualifier declType = EvqFragmentOut \<or> qualifier declType = EvqFragmentInOut then
         (let lq = layoutQualifier declType in
          if location lq < 0 then
            (if locationsSpecified lq \<noteq> 0 then None
             else
               let lq = lq\<lparr>location := 0\<rparr>;
                   lq = lq\<lparr>locationsSpecified := 1\<rparr>;
                   typeWithLocation = declType\<lparr>layoutQualifier := lq\<rparr>
               in do {
                 var \<leftarrow> getAsSymbolNode (hd sequence);
                 let varWithLocation =
                       \<lparr>uniqueId = uniqueId var, name = name var, symbolType = symbolType var,
                        extensions = extensions var, getType = typeWithLocation\<rparr>;
                 let t2 = queueReplacement
                            (TIntermDeclaration [TIntermSymbol varWithLocation]) t1;
                 Some (False, t2\<lparr>mRewrittenOutputs := (mRewrittenOutputs t2)(var \<mapsto> varWithLocation)\<rparr>)
               })
          else Some (True, t1))
       else Some (True, t1)
     }
   }"

definition visitDeclaration ::
  "TIntermSequence \<Rightarrow> RewritePLSTraverser \<Rightarrow> (bool \<times> RewritePLSTraverser) option" where
  "visitDeclaration sequence t =
     (case mClass t of
        RewritePLSToImagesTraverser \<Rightarrow> RewritePLSTraverser_visitDeclaration sequence t
      | RewritePLSToFramebufferFetchTraverser \<Rightarrow>
          RewritePLSToFramebufferFetchTraverser_visitDeclaration sequence t)"

subsection \<open>The traversal\<close>

text \<open>
  Modelled from the spec: the traversal of \<^verbatim>\<open>TIntermTraverser\<close> is not among the sources.
  It is the spec's "pre-order visitation with a boolean recurse-into-children decision per
  node": the visit function of the node runs first and its children are traversed, in
  order, when it returns true. The queues are applied as \<^verbatim>\<open>updateTree\<close> applies them
  after the traversal: a node with a queued replacement becomes the replacement, and the
  statements queued while a statement of a block is traversed are placed before and after
  that statement, in the order of the requests.

  \<^verbatim>\<open>RewritePLSTraverser::visitAggregate\<close> is part of the recursion, because it traverses
  the declaration it has just created (\<^verbatim>\<open>valueDecl->traverse(this)\<close>). The measure
  \<open>weight\<close> only serves the termination proof.
\<close>

fun weight :: "TIntermNode \<Rightarrow> nat" where
  "weight (TIntermSymbol v) = 1"
| "weight (TIntermConstantUnion c) = 1"
| "weight (TIntermSwizzle n offsets) = 1 + weight n"
| "weight (TIntermBinary op l r) = 1 + weight l + weight r"
| "weight (TIntermAggregate op args) = 6 + sum_list (map weight args)"
| "weight (TIntermDeclaration sequence) = 2 + sum_list (map weight sequence)"
| "weight (TIntermBlock sequence) = 2 + sum_list (map weight sequence)"
| "weight (TIntermFunctionDefinition f body) = 1 + weight body"
| "weight (TIntermOther c sequence) = 2 + sum_list (map weight sequence)"

lemma weight_pos: "0 < weight n"
  by (cases n) auto

lemma weight_nth: "i < length xs \<Longrightarrow> weight (xs ! i) \<le> sum_list (map weight xs)"
  by (induction xs arbitrary: i) (auto simp: nth_Cons split: nat.splits dest: le_trans trans_le_add2)

function (sequential)
  traverse :: "TIntermNode \<Rightarrow> RewritePLSTraverser \<Rightarrow> (TIntermNode \<times> RewritePLSTraverser) option"
  and traverseSequence :: "TIntermSequence \<Rightarrow> RewritePLSTraverser \<Rightarrow> (TIntermSequence \<times> RewritePLSTraverser) option"
  and traverseBlockSequence :: "TIntermSequence \<Rightarrow> RewritePLSTraverser \<Rightarrow> (TIntermSequence \<times> RewritePLSTraverser) option"
  and visitAggregate :: "TOperator \<Rightarrow> TIntermSequence \<Rightarrow> RewritePLSTraverser \<Rightarrow> (bool \<times> RewritePLSTraverser) option"
where
  "traverse (TIntermSymbol v) t =
     Some (takeReplacement (TIntermSymbol v) (visitSymbol v (t\<lparr>mReplacement := None\<rparr>)))"
| "traverse (TIntermConstantUnion c) t = Some (TIntermConstantUnion c, t)"
| "traverse (TIntermSwizzle n offsets) t = do {
     (n', t1) \<leftarrow> traverse n t;
     Some (TIntermSwizzle n' offsets, t1)
   }"
| "traverse (TIntermBinary op l r) t = do {
     (l', t1) \<leftarrow> traverse l t;
     (r', t2) \<leftarrow> traverse r t1;
     Some (TIntermBinary op l' r', t2)
   }"
| "traverse (TIntermAggregate op args) t = do {
     (visit, t1) \<leftarrow> visitAggregate op args (t\<lparr>mReplacement := None\<rparr>);
     if visit then do {
       (args', t2) \<leftarrow> traverseSequence args t1;
       Some (TIntermAggregate op args', t2)
     } else Some (takeReplacement (TIntermAggregate op args) t1)
   }"
| "traverse (TIntermDeclaration sequence) t = do {
     (visit, t1) \<leftarrow> visitDeclaration sequence (t\<lparr>mReplacement := None\<rparr>);
     if visit then do {
       (sequence', t2) \<leftarrow> traverseSequence sequence t1;
       Some (TIntermDeclaration sequence', t2)
     } else Some (takeReplacement (TIntermDeclaration sequence) t1)
   }"
| "traverse (TIntermBlock sequence) t = do {
     (sequence', t1) \<leftarrow> traverseBlockSequence sequence t;
     Some (TIntermBlock sequence',
           t1\<lparr>mInsertionsBefore := mInsertionsBefore t, mInsertionsAfter := mInsertionsAfter t\<rparr>)
   }"
| "traverse (TIntermFunctionDefinition f body) t = do {
     (body', t1) \<leftarrow> traverse body t;
     Some (TIntermFunctionDefinition f body', t1)
   }"
| "traverse (TIntermOther c sequence) t = do {
     (sequence', t1) \<leftarrow> traverseSequence sequence t;
     Some (TIntermOther c sequence', t1)
   }"
| "traverseSequence [] t = Some ([], t)"
| "traverseSequence (child # children) t = do {
     (child', t1) \<leftarrow> traverse child t;
     (children', t2) \<leftarrow> traverseSequence children t1;
     Some (child' # children', t2)
   }"
| "traverseBlockSequence [] t = Some ([], t)"
| "traverseBlockSequence (child # children) t = do {
     (child', t1) \<leftarrow> traverse child (t\<lparr>mInsertionsBefore := [], mInsertionsAfter := []\<rparr>);
     (children', t2) \<leftarrow> traverseBlockSequence children t1;
     Some (mInsertionsBefore t1 @ [child'] @ mInsertionsAfter t1 @ children', t2)
   }"
| "visitAggregate op args t =
     (if \<not> BuiltInGroup_IsPixelLocal op then Some (True, t)
      else if \<not> length args \<ge> 1 then None
      else do {
        plsSymbol \<leftarrow> getAsSymbolNode (args ! 0);
        if op = EOpPixelLocalLoadANGLE then do {
          t1 \<leftarrow> visitPLSLoad plsSymbol t;
          Some (False, t1)
        }
        else if op = EOpPixelLocalStoreANGLE then
          (if \<not> length args > 1 then None
           else do {
             valueBasicType \<leftarrow> DataTypeOfPLSType (basicType (getType plsSymbol));
             let valueType = TType_new valueBasicType (precision (getType plsSymbol)) EvqTemporary 4;
             let valueVar = fst (CreateTempVariable (mSymbolTable t) valueType);
             let valueDecl = CreateTempInitDeclarationNode valueVar (args ! 1);
             (valueDecl', t1) \<leftarrow>
                traverse valueDecl
                  (t\<lparr>mSymbolTable := snd (CreateTempVariable (mSymbolTable t) valueType)\<rparr>);
             let t2 = insertStatementInParentBlock valueDecl' t1;
             t3 \<leftarrow> visitPLSStore plsSymbol valueVar t2;
             Some (False, t3)
           })
        else Some (True, t)
      })"
  by pat_completeness auto

termination
  apply (relation "measure (\<lambda>x. case x of
      Inl (Inl (n, t)) \<Rightarrow> weight n
    | Inl (Inr (ns, t)) \<Rightarrow> 1 + sum_list (map weight ns)
    | Inr (Inl (ns, t)) \<Rightarrow> 1 + sum_list (map weight ns)
    | Inr (Inr (op, ns, t)) \<Rightarrow> 5 + sum_list (map weight ns))")
  apply (auto simp: CreateTempInitDeclarationNode_def weight_pos intro!: le_imp_less_Suc weight_nth)
  done

subsection \<open>RewritePixelLocalStorage\<close>

text \<open>
  The collaborators the spec leaves outside the pass: the monomorphization of functions
  that take pixel local storage arguments, which rewrites the tree and may fail, and the
  validation of the tree, by which \<^verbatim>\<open>updateTree\<close> and the pass itself decide their result.
\<close>

record Collaborators =
  MonomorphizeUnsupportedFunctions :: "TIntermNode \<Rightarrow> bool \<times> TIntermNode"
  validateAST :: "TIntermNode \<Rightarrow> bool"

text \<open>
  Modelled from the spec: \<^verbatim>\<open>FindMainBody\<close> (\<^verbatim>\<open>tree_util/FindMain\<close>) is not among the
  sources; it "locates the program entry body", the body of the first definition of
  \<open>main\<close> among the children of the root. The source keeps a pointer to that block and
  changes the block through it; \<open>setMainBody\<close> writes the changed statements back.
\<close>

fun FindMainBody_in :: "TIntermSequence \<Rightarrow> TIntermSequence option" where
  "FindMainBody_in [] = None"
| "FindMainBody_in (TIntermFunctionDefinition f (TIntermBlock body) # rest) =
     (if f = ''main'' then Some body else FindMainBody_in rest)"
| "FindMainBody_in (n # rest) = FindMainBody_in rest"

fun FindMainBody :: "TIntermNode \<Rightarrow> TIntermSequence option" where
  "FindMainBody (TIntermBlock sequence) = FindMainBody_in sequence"
| "FindMainBody _ = None"

fun setMainBody_in :: "TIntermSequence \<Rightarrow> TIntermSequence \<Rightarrow> TIntermSequence" where
  "setMainBody_in body [] = []"
| "setMainBody_in body (TIntermFunctionDefinition f (TIntermBlock old) # rest) =
     (if f = ''main'' then TIntermFunctionDefinition f (TIntermBlock body) # rest
      else TIntermFunctionDefinition f (TIntermBlock old) # setMainBody_in body rest)"
| "setMainBody_in body (n # rest) = n # setMainBody_in body rest"

fun setMainBody :: "TIntermSequence \<Rightarrow> TIntermNode \<Rightarrow> TIntermNode" where
  "setMainBody body (TIntermBlock sequence) = TIntermBlock (setMainBody_in body sequence)"
| "setMainBody body n = n"

text \<open>
  The statement \<^verbatim>\<open>pixelCoord = ivec2(floor(gl_FragCoord.xy))\<close> the pass builds at its end.
\<close>

definition initGlobalPixelCoord :: "TVariable \<Rightarrow> TSymbolTable \<Rightarrow> int \<Rightarrow> TIntermNode option" where
  "initGlobalPixelCoord pc symbolTable shaderVersion = do {
     exp \<leftarrow> ReferenceBuiltInVariable ''gl_FragCoord'' symbolTable shaderVersion;
     let exp = CreateSwizzle exp [0, 1];
     let exp = CreateBuiltInFunctionCallNode ''floor'' [exp] symbolTable shaderVersion;
     let exp = CreateConstructor (TType_basic EbtInt 2) [exp];
     Some (CreateTempAssignmentNode pc exp)
   }"

text \<open>
  The result is \<open>None\<close> when an assertion fails, and otherwise the value the source
  returns, with the compiler and the tree as the pass leaves them.
\<close>

definition RewritePixelLocalStorage ::
  "Collaborators \<Rightarrow> TCompiler \<Rightarrow> TIntermNode \<Rightarrow> TSymbolTable \<Rightarrow> ShCompileOptions \<Rightarrow> int \<Rightarrow>
     (bool \<times> TCompiler \<times> TIntermNode) option" where
  "RewritePixelLocalStorage ext compiler root symbolTable compileOptions shaderVersion =
     (let (monomorphized, root) = MonomorphizeUnsupportedFunctions ext root in
      if \<not> monomorphized then Some (False, compiler, root)
      else do {
        traverser \<leftarrow>
          (case plsType (pls compileOptions) of
             ImageStoreR32PackedFormats \<Rightarrow>
               Some (RewritePLSTraverser_new RewritePLSToImagesTraverser compiler symbolTable
                       compileOptions shaderVersion)
           | ImageStoreNativeFormats \<Rightarrow>
               Some (RewritePLSTraverser_new RewritePLSToImagesTraverser compiler symbolTable
                       compileOptions shaderVersion)
           | FramebufferFetch \<Rightarrow>
               Some (RewritePLSTraverser_new RewritePLSToFramebufferFetchTraverser compiler
                       symbolTable compileOptions shaderVersion)
           | PLS_NotSupported \<Rightarrow> None);
        (root, traverser) \<leftarrow> traverse root traverser;
        if \<not> validateAST ext root then Some (False, compiler, root)
        else do {
          mainBody \<leftarrow> FindMainBody root;
          (compiler, mainBody) \<leftarrow>
             injectSetupCode traverser compiler (mSymbolTable traverser) compileOptions mainBody 0;
          mainBody \<leftarrow>
             injectFinalizeCode traverser compiler (mSymbolTable traverser) compileOptions
               mainBody (length mainBody);
          mainBody \<leftarrow>
            (case mGlobalPixelCoord traverser of
               None \<Rightarrow> Some mainBody
             | Some pc \<Rightarrow> do {
                 exp \<leftarrow> initGlobalPixelCoord pc (mSymbolTable traverser) shaderVersion;
                 insertStatement 0 exp mainBody
               });
          let root = setMainBody mainBody root;
          Some (validateAST ext root, compiler, root)
        }
      })"

section \<open>The meaning of the operations the image strategy emits\<close>

text \<open>
  The claims about clamping and packing speak of the values the emitted statements
  compute. This section gives the integer operations of the shading language the meaning
  the ESSL 3.10 specification gives them, on 32-bit words (a highp integer is exactly 32
  bits, two's complement): a signed or an unsigned vector is the list of its components.
  One pixel is considered, so the coordinate of an image access is not evaluated. What
  the hardware does with a component when it writes it to a 4x8-bit integer format is
  the parameter \<open>conv\<close>; a single-channel 32-bit format keeps the first component as it is
  and reads the others as 0, 0, 1.
\<close>

datatype Value = IVec "32 word list" | UVec "32 word list"

record Machine =
  vars :: "TVariable \<rightharpoonup> Value"
  texels :: "TVariable \<rightharpoonup> 32 word list"

definition componentwise ::
  "(32 word \<Rightarrow> 32 word \<Rightarrow> 32 word) \<Rightarrow> 32 word list \<Rightarrow> 32 word list \<Rightarrow> 32 word list option" where
  "componentwise f xs ys =
     (if length ys = 1 then Some (map (\<lambda>x. f x (hd ys)) xs)
      else if length xs = 1 then Some (map (f (hd xs)) ys)
      else if length xs = length ys then Some (map2 f xs ys)
      else None)"

definition smin :: "32 word \<Rightarrow> 32 word \<Rightarrow> 32 word" where
  "smin x y = (if y <s x then y else x)"

definition smax :: "32 word \<Rightarrow> 32 word \<Rightarrow> 32 word" where
  "smax x y = (if x <s y then y else x)"

definition umin :: "32 word \<Rightarrow> 32 word \<Rightarrow> 32 word" where
  "umin x y = (if y < x then y else x)"

definition umax :: "32 word \<Rightarrow> 32 word \<Rightarrow> 32 word" where
  "umax x y = (if x < y then y else x)"

definition shiftLeft :: "32 word \<Rightarrow> 32 word \<Rightarrow> 32 word" where
  "shiftLeft x s = push_bit (unat s) x"

definition shiftRightArithmetic :: "32 word \<Rightarrow> 32 word \<Rightarrow> 32 word" where
  "shiftRightArithmetic x s = signed_drop_bit (unat s) x"

definition shiftRightLogical :: "32 word \<Rightarrow> 32 word \<Rightarrow> 32 word" where
  "shiftRightLogical x s = drop_bit (unat s) x"

fun constValue :: "TConstantUnion list \<Rightarrow> Value option" where
  "constValue [] = None"
| "constValue (iConst i # cs) =
     (case cs of [] \<Rightarrow> Some (IVec [word_of_int i])
      | _ \<Rightarrow> (case constValue cs of Some (IVec xs) \<Rightarrow> Some (IVec (word_of_int i # xs)) | _ \<Rightarrow> None))"
| "constValue (uConst u # cs) =
     (case cs of [] \<Rightarrow> Some (UVec [of_nat u])
      | _ \<Rightarrow> (case constValue cs of Some (UVec xs) \<Rightarrow> Some (UVec (of_nat u # xs)) | _ \<Rightarrow> None))"
| "constValue (fConst f # cs) = None"

definition evalBinary :: "TOperator \<Rightarrow> Value \<Rightarrow> Value \<Rightarrow> Value option" where
  "evalBinary op x y =
     (case (x, y) of
        (IVec xs, UVec ys) \<Rightarrow>
          (if op = EOpBitShiftLeft then map_option IVec (componentwise shiftLeft xs ys)
           else if op = EOpBitShiftRight then
             map_option IVec (componentwise shiftRightArithmetic xs ys)
           else None)
      | (UVec xs, UVec ys) \<Rightarrow>
          (if op = EOpBitShiftLeft then map_option UVec (componentwise shiftLeft xs ys)
           else if op = EOpBitShiftRight then map_option UVec (componentwise shiftRightLogical xs ys)
           else if op = EOpBitwiseOr then map_option UVec (componentwise (OR) xs ys)
           else if op = EOpBitwiseAnd then map_option UVec (componentwise (AND) xs ys)
           else None)
      | (IVec xs, IVec ys) \<Rightarrow>
          (if op = EOpBitwiseOr then map_option IVec (componentwise (OR) xs ys)
           else if op = EOpBitwiseAnd then map_option IVec (componentwise (AND) xs ys)
           else None)
      | _ \<Rightarrow> None)"

definition evalBuiltIn :: "string \<Rightarrow> Value option list \<Rightarrow> Value option" where
  "evalBuiltIn f args =
     (if f = ''clamp'' then
        (case args of
           [Some (IVec xs), Some (IVec lo), Some (IVec hi)] \<Rightarrow>
             (case componentwise smax xs lo of
                Some ys \<Rightarrow> map_option IVec (componentwise smin ys hi)
              | None \<Rightarrow> None)
         | [Some (UVec xs), Some (UVec lo), Some (UVec hi)] \<Rightarrow>
             (case componentwise umax xs lo of
                Some ys \<Rightarrow> map_option UVec (componentwise umin ys hi)
              | None \<Rightarrow> None)
         | _ \<Rightarrow> None)
      else if f = ''min'' then
        (case args of
           [Some (IVec xs), Some (IVec ys)] \<Rightarrow> map_option IVec (componentwise smin xs ys)
         | [Some (UVec xs), Some (UVec ys)] \<Rightarrow> map_option UVec (componentwise umin xs ys)
         | _ \<Rightarrow> None)
      else None)"

text \<open>
  A constructor from a single scalar fills every component with it; between the signed and
  the unsigned integers it keeps the bits.
\<close>

definition evalConstruct :: "TType \<Rightarrow> Value option list \<Rightarrow> Value option" where
  "evalConstruct ty args =
     (case args of
        [Some v] \<Rightarrow>
          (let xs = (case v of IVec xs \<Rightarrow> xs | UVec xs \<Rightarrow> xs);
               ys = (if length xs = 1 then replicate (primarySize ty) (hd xs) else xs)
           in if length ys \<noteq> primarySize ty then None
              else if basicType ty = EbtInt then Some (IVec ys)
              else if basicType ty = EbtUInt then Some (UVec ys)
              else None)
      | _ \<Rightarrow> None)"

definition loadTexel :: "Machine \<Rightarrow> TVariable \<Rightarrow> Value option" where
  "loadTexel m img =
     (case texels m img of
        None \<Rightarrow> None
      | Some texel \<Rightarrow>
          (case DataTypeOfImageType (basicType (getType img)) of
             Some EbtInt \<Rightarrow> Some (IVec texel)
           | Some EbtUInt \<Rightarrow> Some (UVec texel)
           | _ \<Rightarrow> None))"

fun evalExpr :: "Machine \<Rightarrow> TIntermNode \<Rightarrow> Value option" where
  "evalExpr m (TIntermSymbol v) = vars m v"
| "evalExpr m (TIntermConstantUnion cs) = constValue cs"
| "evalExpr m (TIntermSwizzle e offsets) =
     (case evalExpr m e of
        Some (IVec xs) \<Rightarrow>
          (if list_all (\<lambda>i. i < length xs) offsets then Some (IVec (map (nth xs) offsets))
           else None)
      | Some (UVec xs) \<Rightarrow>
          (if list_all (\<lambda>i. i < length xs) offsets then Some (UVec (map (nth xs) offsets))
           else None)
      | None \<Rightarrow> None)"
| "evalExpr m (TIntermBinary op a b) =
     (case evalExpr m a of
        None \<Rightarrow> None
      | Some x \<Rightarrow> (case evalExpr m b of None \<Rightarrow> None | Some y \<Rightarrow> evalBinary op x y))"
| "evalExpr m (TIntermAggregate op args) =
     (case op of
        EOpCallBuiltInFunction f \<Rightarrow>
          (if f = ''imageLoad'' then
             (case args of
                [img, coord] \<Rightarrow>
                  (case getAsSymbolNode img of Some i \<Rightarrow> loadTexel m i | None \<Rightarrow> None)
              | _ \<Rightarrow> None)
           else evalBuiltIn f (map (evalExpr m) args))
      | EOpConstruct ty \<Rightarrow> evalConstruct ty (map (evalExpr m) args)
      | _ \<Rightarrow> None)"
| "evalExpr m _ = None"

definition storeTexel ::
  "(TLayoutImageInternalFormat \<Rightarrow> 32 word \<Rightarrow> 32 word) \<Rightarrow> TVariable \<Rightarrow> Value \<Rightarrow>
     32 word list option" where
  "storeTexel conv img v =
     (let fmt = imageInternalFormat (layoutQualifier (getType img));
          xs = (case v of IVec xs \<Rightarrow> xs | UVec xs \<Rightarrow> xs)
      in if length xs \<noteq> 4 then None
         else if fmt = EiifR32I \<or> fmt = EiifR32UI then Some [hd xs, 0, 0, 1]
         else if fmt = EiifRGBA8I \<or> fmt = EiifRGBA8UI then Some (map (conv fmt) xs)
         else None)"

definition assign :: "TIntermNode \<Rightarrow> Value option \<Rightarrow> Machine \<Rightarrow> Machine option" where
  "assign target v m =
     (case (getAsSymbolNode target, v) of
        (Some var, Some x) \<Rightarrow> Some (m\<lparr>vars := (vars m)(var \<mapsto> x)\<rparr>)
      | _ \<Rightarrow> None)"

fun execStmt ::
  "(TLayoutImageInternalFormat \<Rightarrow> 32 word \<Rightarrow> 32 word) \<Rightarrow> TIntermNode \<Rightarrow> Machine \<Rightarrow>
     Machine option" where
  "execStmt conv (TIntermDeclaration sequence) m =
     (case sequence of
        [TIntermBinary op l r] \<Rightarrow>
          (if op = EOpInitialize then assign l (evalExpr m r) m else None)
      | _ \<Rightarrow> None)"
| "execStmt conv (TIntermBinary op l r) m =
     (if op = EOpAssign then assign l (evalExpr m r) m
      else if op = EOpBitwiseAndAssign then
        assign l (evalExpr m (TIntermBinary EOpBitwiseAnd l r)) m
      else None)"
| "execStmt conv (TIntermAggregate op args) m =
     (if op = EOpCallBuiltInFunction ''memoryBarrierImage'' then Some m
      else if op = EOpCallBuiltInFunction ''imageStore'' then
        (case args of
           [img, coord, data] \<Rightarrow>
             (case (getAsSymbolNode img, evalExpr m data) of
                (Some i, Some v) \<Rightarrow>
                  (case storeTexel conv i v of
                     Some texel \<Rightarrow> Some (m\<lparr>texels := (texels m)(i \<mapsto> texel)\<rparr>)
                   | None \<Rightarrow> None)
              | _ \<Rightarrow> None)
         | _ \<Rightarrow> None)
      else None)"
| "execStmt conv _ m = None"

fun execStmts ::
  "(TLayoutImageInternalFormat \<Rightarrow> 32 word \<Rightarrow> 32 word) \<Rightarrow> TIntermSequence \<Rightarrow> Machine \<Rightarrow>
     Machine option" where
  "execStmts conv [] m = Some m"
| "execStmts conv (s # ss) m =
     (case execStmt conv s m of None \<Rightarrow> None | Some m1 \<Rightarrow> execStmts conv ss m1)"


subsection \<open>The statements of a store and the value of a load\<close>

text \<open>
  Names for what \<^verbatim>\<open>clampAndPackPLSDataIfNecessary\<close> and \<^verbatim>\<open>unpackImageDataIfNecessary\<close>
  build for the two 4x8-bit integer formats, as the source's comments write them:
  \<^verbatim>\<open>plsVar = clamp(plsVar, -128, 127)\<close>, \<^verbatim>\<open>plsVar = min(plsVar, 255)\<close>, \<^verbatim>\<open>plsVar &= 0xff\<close>,
  \<^verbatim>\<open>r | (g << 8) | (b << 16) | (a << 24)\<close> and \<^verbatim>\<open>data.rrrr << uvec4(24, 16, 8, 0) >> 24u\<close>.
  The lemmas below show that the hooks build exactly these.
\<close>

definition clampStatement :: "TVariable \<Rightarrow> TIntermNode" where
  "clampStatement plsVar =
     TIntermBinary EOpAssign (TIntermSymbol plsVar)
       (TIntermAggregate (EOpCallBuiltInFunction ''clamp'')
          [TIntermSymbol plsVar, TIntermConstantUnion [iConst (- 128)],
           TIntermConstantUnion [iConst 127]])"

definition minStatement :: "TVariable \<Rightarrow> TIntermNode" where
  "minStatement plsVar =
     TIntermBinary EOpAssign (TIntermSymbol plsVar)
       (TIntermAggregate (EOpCallBuiltInFunction ''min'')
          [TIntermSymbol plsVar, TIntermConstantUnion [uConst 255]])"

definition maskStatement :: "TVariable \<Rightarrow> TIntermNode" where
  "maskStatement plsVar =
     TIntermBinary EOpBitwiseAndAssign (TIntermSymbol plsVar) (TIntermConstantUnion [iConst 255])"

definition packExpression :: "TVariable \<Rightarrow> TIntermNode" where
  "packExpression plsVar =
     TIntermBinary EOpBitwiseOr
       (TIntermBinary EOpBitwiseOr
          (TIntermBinary EOpBitwiseOr (TIntermSwizzle (TIntermSymbol plsVar) [0])
             (shiftComponent plsVar 1))
          (shiftComponent plsVar 2))
       (shiftComponent plsVar 3)"

definition unpackExpression :: "TIntermNode \<Rightarrow> TIntermNode" where
  "unpackExpression data =
     TIntermBinary EOpBitShiftRight
       (TIntermBinary EOpBitShiftLeft (TIntermSwizzle data [0, 0, 0, 0])
          (TIntermConstantUnion [uConst 24, uConst 16, uConst 8, uConst 0]))
       (TIntermConstantUnion [uConst 24])"

definition memoryBarrierImage :: TIntermNode where
  "memoryBarrierImage = TIntermAggregate (EOpCallBuiltInFunction ''memoryBarrierImage'') []"

text \<open>The clamps of the two formats, on one component.\<close>

definition clampS8 :: "32 word \<Rightarrow> 32 word" where
  "clampS8 x = smin (smax x (- 128)) 127"

definition clampU8 :: "32 word \<Rightarrow> 32 word" where
  "clampU8 x = umin x 255"

text \<open>
  A store followed by a load of the same binding, under the image strategy: the store
  hook runs on the traverser \<open>t\<close>, the statements it queued since \<open>t\<close> are executed around
  its replacement of the store, in their order, and the replacement the load hook queues is
  evaluated in the machine they leave.
\<close>

definition storeThenLoad ::
  "(TLayoutImageInternalFormat \<Rightarrow> 32 word \<Rightarrow> 32 word) \<Rightarrow> RewritePLSTraverser \<Rightarrow> TVariable \<Rightarrow>
     TVariable \<Rightarrow> Machine \<Rightarrow> Value option" where
  "storeThenLoad conv t plsSymbol val m = do {
     t1 \<leftarrow> RewritePLSToImagesTraverser_visitPLSStore plsSymbol val t;
     store \<leftarrow> mReplacement t1;
     m1 \<leftarrow> execStmts conv
            (drop (length (mInsertionsBefore t)) (mInsertionsBefore t1) @ [store] @
             drop (length (mInsertionsAfter t)) (mInsertionsAfter t1)) m;
     t2 \<leftarrow> RewritePLSToImagesTraverser_visitPLSLoad plsSymbol t;
     load \<leftarrow> mReplacement t2;
     evalExpr m1 load
   }"

section \<open>Properties of trees\<close>

text \<open>
  The nodes of a tree, the node itself first and then those of its children, in the order
  of the traversal.
\<close>

fun subnodes :: "TIntermNode \<Rightarrow> TIntermNode list" where
  "subnodes (TIntermSymbol v) = [TIntermSymbol v]"
| "subnodes (TIntermConstantUnion c) = [TIntermConstantUnion c]"
| "subnodes (TIntermSwizzle n offsets) = TIntermSwizzle n offsets # subnodes n"
| "subnodes (TIntermBinary op l r) = TIntermBinary op l r # subnodes l @ subnodes r"
| "subnodes (TIntermAggregate op args) = TIntermAggregate op args # concat (map subnodes args)"
| "subnodes (TIntermDeclaration sequence) =
     TIntermDeclaration sequence # concat (map subnodes sequence)"
| "subnodes (TIntermBlock sequence) = TIntermBlock sequence # concat (map subnodes sequence)"
| "subnodes (TIntermFunctionDefinition f body) = TIntermFunctionDefinition f body # subnodes body"
| "subnodes (TIntermOther c sequence) = TIntermOther c sequence # concat (map subnodes sequence)"

definition nodeCount :: "(TIntermNode \<Rightarrow> bool) \<Rightarrow> TIntermNode \<Rightarrow> nat" where
  "nodeCount P n = length (filter P (subnodes n))"

definition nodeCountIn :: "(TIntermNode \<Rightarrow> bool) \<Rightarrow> TIntermSequence \<Rightarrow> nat" where
  "nodeCountIn P ns = sum_list (map (nodeCount P) ns)"

text \<open>
  A pixel local storage operation is a call of \<^verbatim>\<open>pixelLocalLoadANGLE\<close> or
  \<^verbatim>\<open>pixelLocalStoreANGLE\<close>; a pixel local storage declarator is a declarator whose type is
  one of the pixel local storage types.
\<close>

fun isPLSOperation :: "TIntermNode \<Rightarrow> bool" where
  "isPLSOperation (TIntermAggregate op args) = BuiltInGroup_IsPixelLocal op"
| "isPLSOperation _ = False"

definition plsOperations :: "TIntermNode \<Rightarrow> TIntermNode list" where
  "plsOperations n = filter isPLSOperation (subnodes n)"

definition isPLSDeclarator :: "TIntermNode \<Rightarrow> bool" where
  "isPLSDeclarator d =
     (case getTypeOfDeclarator d of
        Some ty \<Rightarrow> IsPixelLocal (basicType ty)
      | None \<Rightarrow> False)"

fun plsDeclarators :: "TIntermNode \<Rightarrow> TIntermNode list" where
  "plsDeclarators (TIntermDeclaration sequence) = filter isPLSDeclarator sequence"
| "plsDeclarators _ = []"

definition plsDeclarations :: "TIntermNode \<Rightarrow> TIntermNode list" where
  "plsDeclarations n = concat (map plsDeclarators (subnodes n))"

definition plsBindings :: "TIntermNode \<Rightarrow> int list" where
  "plsBindings n =
     map (\<lambda>d. case getTypeOfDeclarator d of
                 Some ty \<Rightarrow> binding (layoutQualifier ty)
               | None \<Rightarrow> - 1)
       (plsDeclarations n)"

text \<open>
  The declarations of a variable, and the references to it: the symbol nodes of the
  variable.
\<close>

definition declares :: "(TVariable \<Rightarrow> bool) \<Rightarrow> TIntermNode \<Rightarrow> bool" where
  "declares K n =
     (case n of
        TIntermDeclaration sequence \<Rightarrow>
          (case sequence of
             [TIntermSymbol v] \<Rightarrow> K v
           | _ \<Rightarrow> False)
      | _ \<Rightarrow> False)"

definition isReference :: "TVariable \<Rightarrow> TIntermNode \<Rightarrow> bool" where
  "isReference v n = (n = TIntermSymbol v)"

text \<open>
  The trees the pass is given: every declaration declares one variable (ANGLE separates
  declarations before), \<^verbatim>\<open>pixelLocalLoadANGLE\<close> has one argument and
  \<^verbatim>\<open>pixelLocalStoreANGLE\<close> has two.
\<close>

fun wellFormedNode :: "TIntermNode \<Rightarrow> bool" where
  "wellFormedNode (TIntermDeclaration sequence) = (length sequence = 1)"
| "wellFormedNode (TIntermAggregate op args) =
     (if op = EOpPixelLocalLoadANGLE then length args = 1
      else if op = EOpPixelLocalStoreANGLE then length args = 2
      else True)"
| "wellFormedNode _ = True"

definition wellFormed :: "TIntermNode \<Rightarrow> bool" where
  "wellFormed n = list_all wellFormedNode (subnodes n)"

text \<open>
  The code the hooks emit: expressions without pixel local storage operations, and
  declarations of initialised temporaries.
\<close>

fun emittedNode :: "TIntermNode \<Rightarrow> bool" where
  "emittedNode (TIntermAggregate op args) = (\<not> BuiltInGroup_IsPixelLocal op)"
| "emittedNode (TIntermDeclaration [TIntermBinary op (TIntermSymbol v) e]) =
     (op = EOpInitialize \<and> \<not> IsPixelLocal (basicType (getType v)))"
| "emittedNode (TIntermDeclaration sequence) = False"
| "emittedNode (TIntermBlock sequence) = False"
| "emittedNode (TIntermFunctionDefinition f body) = False"
| "emittedNode (TIntermOther c sequence) = False"
| "emittedNode _ = True"

definition emitted :: "TIntermNode \<Rightarrow> bool" where
  "emitted n = list_all emittedNode (subnodes n)"

definition plsFree :: "TIntermNode \<Rightarrow> bool" where
  "plsFree n = (plsOperations n = [] \<and> plsDeclarations n = [])"

text \<open>
  The first declarator of every declaration is a symbol or the initialisation of a symbol,
  the declarators \<^verbatim>\<open>visitDeclaration\<close> can read the type of.
\<close>

fun typedNode :: "TIntermNode \<Rightarrow> bool" where
  "typedNode (TIntermDeclaration sequence) =
     (sequence \<noteq> [] \<and> getTypeOfDeclarator (hd sequence) \<noteq> None)"
| "typedNode _ = True"

definition typedDeclarations :: "TIntermNode \<Rightarrow> bool" where
  "typedDeclarations n = list_all typedNode (subnodes n)"


section \<open>Properties of the traverser\<close>

text \<open>What no visit function changes: the class of the traverser and its configuration.\<close>

definition sameConfig :: "RewritePLSTraverser \<Rightarrow> RewritePLSTraverser \<Rightarrow> bool" where
  "sameConfig t t' =
     (mClass t' = mClass t \<and> mCompiler t' = mCompiler t \<and>
      mCompileOptions t' = mCompileOptions t \<and> mShaderVersion t' = mShaderVersion t)"

text \<open>
  What the hooks of the operations do: they queue statements for the enclosing block and
  create temporaries, and leave the rest of the traverser alone (the queued replacement
  apart).
\<close>

definition onlyInserts ::
  "RewritePLSTraverser \<Rightarrow> RewritePLSTraverser \<Rightarrow> TIntermSequence \<Rightarrow> TIntermSequence \<Rightarrow> bool" where
  "onlyInserts t t' bs as =
     (sameConfig t t' \<and> mGlobalPixelCoord t' = mGlobalPixelCoord t \<and> mImages t' = mImages t \<and>
      mPLSAttachments t' = mPLSAttachments t \<and> mRewrittenOutputs t' = mRewrittenOutputs t \<and>
      mSymbolTable t \<le> mSymbolTable t' \<and>
      mInsertionsBefore t' = mInsertionsBefore t @ bs \<and>
      mInsertionsAfter t' = mInsertionsAfter t @ as)"

text \<open>
  The variable a symbol node is rewritten to: the relocated output, under the framebuffer
  fetch strategy, when the variable is an output that has been relocated.
\<close>

definition currentVariable :: "RewritePLSTraverser \<Rightarrow> TVariable \<Rightarrow> TVariable" where
  "currentVariable t v =
     (case mClass t of
        RewritePLSToImagesTraverser \<Rightarrow> v
      | RewritePLSToFramebufferFetchTraverser \<Rightarrow>
          (case mRewrittenOutputs t v of
             Some varWithLocation \<Rightarrow> varWithLocation
           | None \<Rightarrow> v))"

text \<open>
  A traverser that holds nothing of pixel local storage type among the statements it has
  queued, the outputs it has relocated and the variables of its attachments; and a node
  that has been lowered from another.
\<close>

definition cleanState :: "RewritePLSTraverser \<Rightarrow> bool" where
  "cleanState t =
     (list_all plsFree (mInsertionsBefore t) \<and> list_all plsFree (mInsertionsAfter t) \<and>
      (\<forall>v w. mRewrittenOutputs t v = Some w \<longrightarrow> \<not> IsPixelLocal (basicType (getType w))) \<and>
      (\<forall>a \<in> snd ` set (mPLSAttachments t). \<not> IsPixelLocal (basicType (getType (accessVar a)))))"

definition lowering :: "TIntermNode \<Rightarrow> TIntermNode \<Rightarrow> bool" where
  "lowering n n' =
     (plsFree n' \<and>
      (\<forall>v'. n' = TIntermSymbol v' \<longrightarrow> IsPixelLocal (basicType (getType v')) \<longrightarrow>
            n = TIntermSymbol v') \<and>
      (isPLSDeclarator n' \<longrightarrow> isPLSDeclarator n))"

text \<open>
  The variable \<^verbatim>\<open>visitDeclaration\<close> of the framebuffer fetch traverser builds for an output
  without location: the same variable, at location 0.
\<close>

definition relocated :: "TVariable \<Rightarrow> TVariable" where
  "relocated var =
     \<lparr>uniqueId = uniqueId var, name = name var, symbolType = symbolType var,
      extensions = extensions var,
      getType = (getType var)\<lparr>layoutQualifier :=
                  (layoutQualifier (getType var))\<lparr>location := 0, locationsSpecified := 1\<rparr>\<rparr>\<rparr>"






text \<open>
  The statements the image strategy puts at the start and at the end of the body of main,
  by synchronization mechanism.
\<close>

definition imageSetupStatements :: "ShFragmentSynchronizationType \<Rightarrow> TIntermSequence" where
  "imageSetupStatements sync =
     (case sync of
        FragmentShaderInterlock_NV_GL \<Rightarrow>
          [TIntermAggregate (EOpCallBuiltInFunction ''beginInvocationInterlockNV'') []]
      | FragmentShaderOrdering_INTEL_GL \<Rightarrow>
          [TIntermAggregate (EOpCallBuiltInFunction ''beginFragmentShaderOrderingINTEL'') []]
      | FragmentShaderInterlock_ARB_GL \<Rightarrow>
          [TIntermAggregate (EOpCallBuiltInFunction ''beginInvocationInterlockARB'') []]
      | _ \<Rightarrow> [])"

definition imageFinalizeStatements :: "ShFragmentSynchronizationType \<Rightarrow> TIntermSequence" where
  "imageFinalizeStatements sync =
     (case sync of
        FragmentShaderInterlock_NV_GL \<Rightarrow>
          [TIntermAggregate (EOpCallBuiltInFunction ''endInvocationInterlockNV'') []]
      | FragmentShaderInterlock_ARB_GL \<Rightarrow>
          [TIntermAggregate (EOpCallBuiltInFunction ''endInvocationInterlockARB'') []]
      | _ \<Rightarrow> [])"

text \<open>The class of traverser the pass creates for a type of pixel local storage.\<close>

definition traverserClass :: "ShPixelLocalStorageType \<Rightarrow> TraverserClass option" where
  "traverserClass ty =
     (case ty of
        ImageStoreR32PackedFormats \<Rightarrow> Some RewritePLSToImagesTraverser
      | ImageStoreNativeFormats \<Rightarrow> Some RewritePLSToImagesTraverser
      | FramebufferFetch \<Rightarrow> Some RewritePLSToFramebufferFetchTraverser
      | PLS_NotSupported \<Rightarrow> None)"


text \<open>
  The bindings of the backing stores a traverser has registered, and the relation between
  two traversers of which the second has registered the bindings \<open>bs\<close> in addition.
\<close>

definition registryKeys :: "RewritePLSTraverser \<Rightarrow> int list" where
  "registryKeys t =
     (case mClass t of
        RewritePLSToImagesTraverser \<Rightarrow> map fst (mImages t)
      | RewritePLSToFramebufferFetchTraverser \<Rightarrow> map fst (mPLSAttachments t))"

definition registered :: "RewritePLSTraverser \<Rightarrow> int list \<Rightarrow> RewritePLSTraverser \<Rightarrow> bool" where
  "registered t bs t' =
     (mClass t' = mClass t \<and>
      set (registryKeys t') = set (registryKeys t) \<union> set bs \<and>
      length (registryKeys t') = length (registryKeys t) + length bs \<and>
      (sorted (registryKeys t) \<and> distinct (registryKeys t) \<longrightarrow>
         sorted (registryKeys t') \<and> distinct (registryKeys t')))"




text \<open>
  The relation between two traversers of which the second has visited the pixel local
  storage declarations with the bindings \<open>ds\<close> since the first: under the framebuffer fetch strategy the
  global pixel coordinate is as it was; under the image strategy it is kept once it
  exists, and otherwise exists exactly when \<open>ds\<close> is not empty, as a temporary of the type
  \<^verbatim>\<open>highp ivec2\<close> whose identifier is not below the symbol table of the first.
\<close>

definition coordStep :: "RewritePLSTraverser \<Rightarrow> int list \<Rightarrow> RewritePLSTraverser \<Rightarrow> bool" where
  "coordStep t ds t' =
     (mClass t' = mClass t \<and> mSymbolTable t \<le> mSymbolTable t' \<and>
      (case mClass t of
         RewritePLSToFramebufferFetchTraverser \<Rightarrow> mGlobalPixelCoord t' = mGlobalPixelCoord t
       | RewritePLSToImagesTraverser \<Rightarrow>
           (case mGlobalPixelCoord t of
              Some pc \<Rightarrow> mGlobalPixelCoord t' = Some pc
            | None \<Rightarrow>
                if ds = [] then mGlobalPixelCoord t' = None
                else \<exists>s. mSymbolTable t \<le> s \<and> s < mSymbolTable t' \<and>
                       mGlobalPixelCoord t' =
                         Some \<lparr>uniqueId = s, name = [], symbolType = AngleInternal,
                               extensions = [],
                               getType = TType_new EbtInt EbpHigh EvqGlobal 2\<rparr>)))"




section \<open>Example inputs\<close>

text \<open>Concrete variables, options and programs on which the theorems below are instantiated.\<close>

definition examplePLS :: "nat \<Rightarrow> string \<Rightarrow> TBasicType \<Rightarrow> int \<Rightarrow> TLayoutImageInternalFormat \<Rightarrow> TVariable" where
  "examplePLS uid nm ty b fmt =
     \<lparr>uniqueId = uid, name = nm, symbolType = UserDefined, extensions = [],
      getType = (TType_new ty EbpHigh EvqUniform 1)
        \<lparr>layoutQualifier := TLayoutQualifier_Create\<lparr>binding := b, imageInternalFormat := fmt\<rparr>\<rparr>\<rparr>"

definition exampleCompiler :: TCompiler where
  "exampleCompiler =
     \<lparr>MaxCombinedDrawBuffersAndPixelLocalStoragePlanes = 8, isEarlyFragmentTestsSpecified = False\<rparr>"

definition exampleOptions ::
  "ShPixelLocalStorageType \<Rightarrow> ShFragmentSynchronizationType \<Rightarrow> ShCompileOptions" where
  "exampleOptions ty sync =
     \<lparr>pls = \<lparr>plsType = ty, fragmentSynchronizationType = sync\<rparr>,
      passHighpToPackUnormSnormBuiltins = False\<rparr>"

definition exampleImagesTraverser :: "ShPixelLocalStorageType \<Rightarrow> RewritePLSTraverser" where
  "exampleImagesTraverser ty =
     RewritePLSTraverser_new RewritePLSToImagesTraverser exampleCompiler 100
       (exampleOptions ty FragmentShaderInterlock_NV_GL) 310"

definition exampleValue :: "TBasicType \<Rightarrow> TVariable" where
  "exampleValue ty =
     \<lparr>uniqueId = 50, name = [], symbolType = AngleInternal, extensions = [],
      getType = TType_new ty EbpHigh EvqTemporary 4\<rparr>"

definition exampleMachine :: "TVariable \<Rightarrow> Value \<Rightarrow> Machine" where
  "exampleMachine var v = \<lparr>vars = Map.empty(var \<mapsto> v), texels = Map.empty\<rparr>"

definition exampleCollaborators :: Collaborators where
  "exampleCollaborators =
     \<lparr>MonomorphizeUnsupportedFunctions = (\<lambda>root. (True, root)), validateAST = (\<lambda>root. True)\<rparr>"

definition exampleColor :: TVariable where
  "exampleColor =
     \<lparr>uniqueId = 20, name = ''color'', symbolType = UserDefined, extensions = [],
      getType = TType_new EbtFloat EbpMedium EvqFragmentOut 4\<rparr>"

text \<open>A program without pixel local storage: \<^verbatim>\<open>out vec4 color; void main() { color = 1.0; }\<close>.\<close>

definition examplePlainProgram :: TIntermNode where
  "examplePlainProgram =
     TIntermBlock
       [TIntermDeclaration [TIntermSymbol exampleColor],
        TIntermFunctionDefinition ''main''
          (TIntermBlock
             [TIntermBinary EOpAssign (TIntermSymbol exampleColor)
                (TIntermConstantUnion [fConst 1])])]"




section \<open>Packing four 8-bit channels into a 32-bit word\<close>

text \<open>
  Facts about 32-bit words: a word whose signed value lies in the 8-bit range repeats its
  bit 7 above, a word up to 255 has no bit above 7, and shifting the packed word left and
  then right by 24 gives back each channel.
\<close>

lemma in_range_bits:
  fixes a :: "32 word"
  assumes "- 128 \<le> sint a" "sint a \<le> 127" "7 \<le> k" "k < 32"
  shows "bit a k = bit a 7"
proof -
  have "signed_take_bit 7 (sint a) = sint a"
    using assms by (simp add: signed_take_bit_int_eq_self_iff)
  then have "bit (sint a) k = bit (signed_take_bit 7 (sint a)) k" by simp
  also have "\<dots> = bit (sint a) 7"
    using assms by (simp add: bit_signed_take_bit_iff min_def)
  finally show ?thesis using assms by (simp add: bit_sint_iff)
qed

lemma small_bits:
  fixes a :: "32 word"
  assumes "a \<le> 255" "bit a k"
  shows "k < 8"
proof -
  have "a < 2 ^ 8" using assms by (simp add: word_less_nat_alt word_le_nat_alt)
  then have "a AND mask 8 = a" by (rule less_mask_eq)
  then have "take_bit 8 a = a" by (simp add: take_bit_eq_mask)
  then have "bit a k = bit (take_bit 8 a) k" by simp
  then show ?thesis using assms by (simp add: bit_take_bit_iff)
qed

lemma bit_255: "bit (255 :: 32 word) n \<longleftrightarrow> n < 8"
proof -
  have "bit (mask 8 :: 32 word) n \<longleftrightarrow> n < 8"
    by (auto simp: bit_mask_iff)
  moreover have "(mask 8 :: 32 word) = 255" by (simp add: mask_eq_exp_minus_1)
  ultimately show ?thesis by simp
qed

text \<open>The bits of the packed word: bit \<open>n\<close> is bit \<open>n mod 8\<close> of channel \<open>n div 8\<close>.\<close>

lemma bit_pack:
  fixes r g b a :: "32 word"
  assumes "\<And>k. bit r k \<Longrightarrow> k < 8" "\<And>k. bit g k \<Longrightarrow> k < 8"
          "\<And>k. bit b k \<Longrightarrow> k < 8" "\<And>k. bit a k \<Longrightarrow> k < 8"
  shows "bit (((r OR push_bit 8 g) OR push_bit 16 b) OR push_bit 24 a) n \<longleftrightarrow>
           (if n < 8 then bit r n
            else if n < 16 then bit g (n - 8)
            else if n < 24 then bit b (n - 16)
            else n < 32 \<and> bit a (n - 24))"
proof -
  have r: "\<not> bit r k" if "8 \<le> k" for k using assms(1) [of k] that by auto
  have g: "\<not> bit g k" if "8 \<le> k" for k using assms(2) [of k] that by auto
  have b: "\<not> bit b k" if "8 \<le> k" for k using assms(3) [of k] that by auto
  consider "n < 8" | "8 \<le> n" "n < 16" | "16 \<le> n" "n < 24" | "24 \<le> n" "n < 32" | "32 \<le> n"
    by linarith
  then show ?thesis
  proof cases
    case 1 then show ?thesis by (simp add: bit_or_iff bit_push_bit_iff)
  next
    case 2 then show ?thesis by (simp add: bit_or_iff bit_push_bit_iff r)
  next
    case 3 then show ?thesis by (simp add: bit_or_iff bit_push_bit_iff r g)
  next
    case 4 then show ?thesis by (simp add: bit_or_iff bit_push_bit_iff r g b)
  next
    case 5
    then have "\<not> bit x n" for x :: "32 word" using bit_imp_le_length [of x n] by auto
    with 5 show ?thesis by simp
  qed
qed

lemma mask_small: "bit ((x :: 32 word) AND 255) k \<Longrightarrow> k < 8"
  using bit_255 [of k] by (simp add: bit_and_iff)

lemma bit_sdrop_push:
  fixes w :: "32 word"
  assumes "s \<le> 24" "n < 32"
  shows "bit (signed_drop_bit 24 (push_bit s w)) n \<longleftrightarrow>
           bit w ((if n < 8 then 24 + n else 31) - s)"
  using assms by (simp add: bit_signed_drop_bit_iff bit_push_bit_iff)

lemma bit_drop_push:
  fixes w :: "32 word"
  assumes "s \<le> 24" "n < 32"
  shows "bit (drop_bit 24 (push_bit s w)) n \<longleftrightarrow> n < 8 \<and> bit w (24 + n - s)"
  using assms by (auto simp: bit_drop_bit_eq bit_push_bit_iff dest: bit_imp_le_length)


lemma unpack_signed:
  fixes r g b a :: "32 word"
  assumes "- 128 \<le> sint r" "sint r \<le> 127" "- 128 \<le> sint g" "sint g \<le> 127"
          "- 128 \<le> sint b" "sint b \<le> 127" "- 128 \<le> sint a" "sint a \<le> 127"
  defines "w \<equiv> (((r AND 255) OR shiftLeft (g AND 255) 8) OR shiftLeft (b AND 255) 16)
                   OR shiftLeft (a AND 255) 24"
  shows "shiftRightArithmetic (shiftLeft w 24) 24 = r"
    and "shiftRightArithmetic (shiftLeft w 16) 24 = g"
    and "shiftRightArithmetic (shiftLeft w 8) 24 = b"
    and "shiftRightArithmetic (shiftLeft w 0) 24 = a"
proof -
  have w: "w = (((r AND 255) OR push_bit 8 (g AND 255)) OR push_bit 16 (b AND 255))
                  OR push_bit 24 (a AND 255)"
    by (simp add: w_def shiftLeft_def)
  have bw: "bit w n \<longleftrightarrow>
           (if n < 8 then bit (r AND 255) n
            else if n < 16 then bit (g AND 255) (n - 8)
            else if n < 24 then bit (b AND 255) (n - 16)
            else n < 32 \<and> bit (a AND 255) (n - 24))" for n
    unfolding w by (rule bit_pack) (erule mask_small)+
  have m: "bit (x AND 255) k \<longleftrightarrow> bit x k \<and> k < 8" for x :: "32 word" and k
    using bit_255 [of k] by (simp add: bit_and_iff)
  have hi: "bit x n = bit x 7" if "- 128 \<le> sint x" "sint x \<le> 127" "7 \<le> n" "n < 32"
    for x :: "32 word" and n
    using in_range_bits [OF that] .
  have 1: "signed_drop_bit 24 (push_bit 24 w) = r"
  proof (rule bit_word_eqI)
    fix n assume "n < LENGTH(32)"
    then have n: "n < 32" by simp
    show "bit (signed_drop_bit 24 (push_bit 24 w)) n \<longleftrightarrow> bit r n"
    proof (cases "n < 8")
      case True then show ?thesis using n by (simp add: bit_sdrop_push bw m)
    next
      case False
      then show ?thesis using n hi [OF assms(1,2), of n] by (simp add: bit_sdrop_push bw m)
    qed
  qed
  have 2: "signed_drop_bit 24 (push_bit 16 w) = g"
  proof (rule bit_word_eqI)
    fix n assume "n < LENGTH(32)"
    then have n: "n < 32" by simp
    show "bit (signed_drop_bit 24 (push_bit 16 w)) n \<longleftrightarrow> bit g n"
    proof (cases "n < 8")
      case True then show ?thesis using n by (simp add: bit_sdrop_push bw m)
    next
      case False
      then show ?thesis using n hi [OF assms(3,4), of n] by (simp add: bit_sdrop_push bw m)
    qed
  qed
  have 3: "signed_drop_bit 24 (push_bit 8 w) = b"
  proof (rule bit_word_eqI)
    fix n assume "n < LENGTH(32)"
    then have n: "n < 32" by simp
    show "bit (signed_drop_bit 24 (push_bit 8 w)) n \<longleftrightarrow> bit b n"
    proof (cases "n < 8")
      case True then show ?thesis using n by (simp add: bit_sdrop_push bw m)
    next
      case False
      then show ?thesis using n hi [OF assms(5,6), of n] by (simp add: bit_sdrop_push bw m)
    qed
  qed
  have 4: "signed_drop_bit 24 (push_bit 0 w) = a"
  proof (rule bit_word_eqI)
    fix n assume "n < LENGTH(32)"
    then have n: "n < 32" by simp
    show "bit (signed_drop_bit 24 (push_bit 0 w)) n \<longleftrightarrow> bit a n"
    proof (cases "n < 8")
      case True then show ?thesis using n by (simp add: bit_sdrop_push bw m del: push_bit_0_id)
    next
      case False
      then show ?thesis using n hi [OF assms(7,8), of n]
        by (simp add: bit_sdrop_push bw m del: push_bit_0_id)
    qed
  qed
  show "shiftRightArithmetic (shiftLeft w 24) 24 = r"
    using 1 by (simp add: shiftLeft_def shiftRightArithmetic_def)
  show "shiftRightArithmetic (shiftLeft w 16) 24 = g"
    using 2 by (simp add: shiftLeft_def shiftRightArithmetic_def)
  show "shiftRightArithmetic (shiftLeft w 8) 24 = b"
    using 3 by (simp add: shiftLeft_def shiftRightArithmetic_def)
  show "shiftRightArithmetic (shiftLeft w 0) 24 = a"
    using 4 by (simp add: shiftLeft_def shiftRightArithmetic_def)
qed

lemma unpack_unsigned:
  fixes r g b a :: "32 word"
  assumes "r \<le> 255" "g \<le> 255" "b \<le> 255" "a \<le> 255"
  defines "w \<equiv> ((r OR shiftLeft g 8) OR shiftLeft b 16) OR shiftLeft a 24"
  shows "shiftRightLogical (shiftLeft w 24) 24 = r"
    and "shiftRightLogical (shiftLeft w 16) 24 = g"
    and "shiftRightLogical (shiftLeft w 8) 24 = b"
    and "shiftRightLogical (shiftLeft w 0) 24 = a"
proof -
  have w: "w = ((r OR push_bit 8 g) OR push_bit 16 b) OR push_bit 24 a"
    by (simp add: w_def shiftLeft_def)
  have bw: "bit w n \<longleftrightarrow>
           (if n < 8 then bit r n
            else if n < 16 then bit g (n - 8)
            else if n < 24 then bit b (n - 16)
            else n < 32 \<and> bit a (n - 24))" for n
    unfolding w
    by (rule bit_pack)
       (erule small_bits [OF assms(1)] small_bits [OF assms(2)] small_bits [OF assms(3)]
          small_bits [OF assms(4)])+
  have 1: "drop_bit 24 (push_bit 24 w) = r"
  proof (rule bit_word_eqI)
    fix n assume "n < LENGTH(32)"
    then have n: "n < 32" by simp
    show "bit (drop_bit 24 (push_bit 24 w)) n \<longleftrightarrow> bit r n"
      using n small_bits [OF assms(1), of n] by (auto simp: bit_drop_push bw)
  qed
  have 2: "drop_bit 24 (push_bit 16 w) = g"
  proof (rule bit_word_eqI)
    fix n assume "n < LENGTH(32)"
    then have n: "n < 32" by simp
    show "bit (drop_bit 24 (push_bit 16 w)) n \<longleftrightarrow> bit g n"
      using n small_bits [OF assms(2), of n] by (auto simp: bit_drop_push bw)
  qed
  have 3: "drop_bit 24 (push_bit 8 w) = b"
  proof (rule bit_word_eqI)
    fix n assume "n < LENGTH(32)"
    then have n: "n < 32" by simp
    show "bit (drop_bit 24 (push_bit 8 w)) n \<longleftrightarrow> bit b n"
      using n small_bits [OF assms(3), of n] by (auto simp: bit_drop_push bw)
  qed
  have 4: "drop_bit 24 (push_bit 0 w) = a"
  proof (rule bit_word_eqI)
    fix n assume "n < LENGTH(32)"
    then have n: "n < 32" by simp
    show "bit (drop_bit 24 (push_bit 0 w)) n \<longleftrightarrow> bit a n"
      using n small_bits [OF assms(4), of n] by (auto simp: bit_drop_bit_eq bw)
  qed
  show "shiftRightLogical (shiftLeft w 24) 24 = r"
    using 1 by (simp add: shiftLeft_def shiftRightLogical_def)
  show "shiftRightLogical (shiftLeft w 16) 24 = g"
    using 2 by (simp add: shiftLeft_def shiftRightLogical_def)
  show "shiftRightLogical (shiftLeft w 8) 24 = b"
    using 3 by (simp add: shiftLeft_def shiftRightLogical_def)
  show "shiftRightLogical (shiftLeft w 0) 24 = a"
    using 4 by (simp add: shiftLeft_def shiftRightLogical_def)
qed

lemma sint_clamp:
  "sint (smin (smax x (- 128)) 127) = max (- 128) (min 127 (sint x))"
  by (simp add: smin_def smax_def word_sless_alt)

lemma unat_umin_255: "unat (umin x 255) = min 255 (unat x)"
  by (simp add: umin_def word_less_nat_alt)

lemma umin_255_le: "umin x 255 \<le> 255"
  by (simp add: umin_def not_less)

section \<open>The hooks of the image strategy on the 4x8-bit integer formats\<close>

lemma createPLSImageReplacement_RGBA8I:
  assumes "createPLSImageReplacement t p = Some img"
      and "imageInternalFormat (layoutQualifier (getType p)) = EiifRGBA8I"
  shows "basicType (getType img) = EbtIImage2D"
    and "imageInternalFormat (layoutQualifier (getType img)) =
           (if needsR32Packing t then EiifR32I else EiifRGBA8I)"
  using assms
  by (auto simp: createPLSImageReplacement_def Let_def split: if_splits)

lemma createPLSImageReplacement_RGBA8UI:
  assumes "createPLSImageReplacement t p = Some img"
      and "imageInternalFormat (layoutQualifier (getType p)) = EiifRGBA8UI"
  shows "basicType (getType img) = EbtUImage2D"
    and "imageInternalFormat (layoutQualifier (getType img)) =
           (if needsR32Packing t then EiifR32UI else EiifRGBA8UI)"
  using assms
  by (auto simp: createPLSImageReplacement_def Let_def split: if_splits)

lemma clampS8_range: "- 128 \<le> sint (clampS8 x)" "sint (clampS8 x) \<le> 127"
  by (simp_all add: clampS8_def sint_clamp)

lemma clampS8_id: "- 128 \<le> sint x \<Longrightarrow> sint x \<le> 127 \<Longrightarrow> clampS8 x = x"
  by (simp add: clampS8_def smin_def smax_def word_sless_alt)

lemma clampU8_le: "clampU8 x \<le> 255"
  by (simp add: clampU8_def umin_255_le)

lemma clampU8_id: "x \<le> 255 \<Longrightarrow> clampU8 x = x"
  by (auto simp: clampU8_def umin_def)

lemmas sem_defs =
  evalBinary_def evalBuiltIn_def evalConstruct_def componentwise_def assign_def
  loadTexel_def storeTexel_def

lemma replicate_4: "replicate 4 x = [x, x, x, x]"
  by (simp add: eval_nat_numeral)

lemma needsR32Packing_insert:
  "needsR32Packing (insertStatementInParentBlock s t) = needsR32Packing t"
  by (simp add: needsR32Packing_def insertStatementInParentBlock_def insertStatementsInParentBlock_def)

text \<open>What the hooks build, in each of the four cases.\<close>

lemma clampAndPack_signed_packed:
  assumes "needsR32Packing t"
      and "imageInternalFormat (layoutQualifier (getType p)) = EiifRGBA8I"
      and "basicType (getType img) = EbtIImage2D"
      and "imageInternalFormat (layoutQualifier (getType img)) = EiifR32I"
  shows "clampAndPackPLSDataIfNecessary val p img t =
     Some (TIntermAggregate (EOpConstruct (TType_basic EbtInt 4)) [packExpression val],
           t\<lparr>mInsertionsBefore := mInsertionsBefore t @ [clampStatement val, maskStatement val]\<rparr>)"
  using assms
  by (simp add: clampAndPackPLSDataIfNecessary_def Let_def CreateConstructor_def
        CreateSwizzle_def CreateTempAssignmentNode_def CreateBuiltInFunctionCallNode_def
        CreateIndexNode_def needsR32Packing_insert packExpression_def clampStatement_def
        maskStatement_def)
     (simp add: insertStatementInParentBlock_def insertStatementsInParentBlock_def)

lemma clampAndPack_unsigned_packed:
  assumes "needsR32Packing t"
      and "imageInternalFormat (layoutQualifier (getType p)) = EiifRGBA8UI"
      and "basicType (getType img) = EbtUImage2D"
      and "imageInternalFormat (layoutQualifier (getType img)) = EiifR32UI"
  shows "clampAndPackPLSDataIfNecessary val p img t =
     Some (TIntermAggregate (EOpConstruct (TType_basic EbtUInt 4)) [packExpression val],
           t\<lparr>mInsertionsBefore := mInsertionsBefore t @ [minStatement val]\<rparr>)"
  using assms
  by (simp add: clampAndPackPLSDataIfNecessary_def Let_def CreateConstructor_def
        CreateSwizzle_def CreateTempAssignmentNode_def CreateBuiltInFunctionCallNode_def
        CreateUIntNode_def needsR32Packing_insert packExpression_def minStatement_def)
     (simp add: insertStatementInParentBlock_def insertStatementsInParentBlock_def)

lemma clampAndPack_signed_native:
  assumes "imageInternalFormat (layoutQualifier (getType p)) = EiifRGBA8I"
      and "imageInternalFormat (layoutQualifier (getType img)) = EiifRGBA8I"
  shows "clampAndPackPLSDataIfNecessary val p img t =
     Some (TIntermSymbol val,
           t\<lparr>mInsertionsBefore := mInsertionsBefore t @ [clampStatement val]\<rparr>)"
  using assms
  by (simp add: clampAndPackPLSDataIfNecessary_def Let_def clampStatement_def
        CreateTempAssignmentNode_def CreateBuiltInFunctionCallNode_def CreateIndexNode_def
        insertStatementInParentBlock_def insertStatementsInParentBlock_def)

lemma clampAndPack_unsigned_native:
  assumes "imageInternalFormat (layoutQualifier (getType p)) = EiifRGBA8UI"
      and "imageInternalFormat (layoutQualifier (getType img)) = EiifRGBA8UI"
  shows "clampAndPackPLSDataIfNecessary val p img t =
     Some (TIntermSymbol val,
           t\<lparr>mInsertionsBefore := mInsertionsBefore t @ [minStatement val]\<rparr>)"
  using assms
  by (simp add: clampAndPackPLSDataIfNecessary_def Let_def minStatement_def
        CreateTempAssignmentNode_def CreateBuiltInFunctionCallNode_def CreateUIntNode_def
        insertStatementInParentBlock_def insertStatementsInParentBlock_def)

lemma unpack_packed:
  assumes "needsR32Packing t"
      and "imageInternalFormat (layoutQualifier (getType p)) = EiifRGBA8I
           \<or> imageInternalFormat (layoutQualifier (getType p)) = EiifRGBA8UI"
      and "imageInternalFormat (layoutQualifier (getType img)) = EiifR32I
           \<or> imageInternalFormat (layoutQualifier (getType img)) = EiifR32UI"
  shows "unpackImageDataIfNecessary t data p img = Some (unpackExpression data)"
  using assms
  by (auto simp: unpackImageDataIfNecessary_def Let_def CreateSwizzle_def CreateUVecNode_def
        CreateUIntNode_def unpackExpression_def)

lemma unpack_native:
  assumes "imageInternalFormat (layoutQualifier (getType img)) =
           imageInternalFormat (layoutQualifier (getType p))"
  shows "unpackImageDataIfNecessary t data p img = Some data"
  using assms by (simp add: unpackImageDataIfNecessary_def)

text \<open>What the built statements and expressions compute.\<close>

lemma exec_clampStatement:
  assumes "vars m val = Some (IVec [r, g, b, a])"
  shows "execStmt conv (clampStatement val) m =
         Some (m\<lparr>vars := (vars m)(val \<mapsto> IVec [clampS8 r, clampS8 g, clampS8 b, clampS8 a])\<rparr>)"
  using assms by (simp add: clampStatement_def sem_defs clampS8_def)

lemma exec_minStatement:
  assumes "vars m val = Some (UVec [r, g, b, a])"
  shows "execStmt conv (minStatement val) m =
         Some (m\<lparr>vars := (vars m)(val \<mapsto> UVec [clampU8 r, clampU8 g, clampU8 b, clampU8 a])\<rparr>)"
  using assms by (simp add: minStatement_def sem_defs clampU8_def)

lemma exec_maskStatement:
  assumes "vars m val = Some (IVec [r, g, b, a])"
  shows "execStmt conv (maskStatement val) m =
         Some (m\<lparr>vars := (vars m)(val \<mapsto> IVec [r AND 255, g AND 255, b AND 255, a AND 255])\<rparr>)"
  using assms by (simp add: maskStatement_def sem_defs)

lemma eval_pack_signed:
  assumes "vars m val = Some (IVec [r, g, b, a])"
  shows "evalExpr m (TIntermAggregate (EOpConstruct (TType_basic EbtInt 4)) [packExpression val]) =
         Some (IVec (replicate 4 (((r OR shiftLeft g 8) OR shiftLeft b 16) OR shiftLeft a 24)))"
  using assms
  by (simp add: packExpression_def sem_defs shiftComponent_def CreateSwizzle_def
        CreateUIntNode_def TType_basic_def TType_new_def)

lemma eval_pack_unsigned:
  assumes "vars m val = Some (UVec [r, g, b, a])"
  shows "evalExpr m (TIntermAggregate (EOpConstruct (TType_basic EbtUInt 4)) [packExpression val]) =
         Some (UVec (replicate 4 (((r OR shiftLeft g 8) OR shiftLeft b 16) OR shiftLeft a 24)))"
  using assms
  by (simp add: packExpression_def sem_defs shiftComponent_def CreateSwizzle_def
        CreateUIntNode_def TType_basic_def TType_new_def)

lemma eval_unpack_signed:
  assumes "evalExpr m data = Some (IVec [w, x, y, z])"
  shows "evalExpr m (unpackExpression data) =
         Some (IVec [shiftRightArithmetic (shiftLeft w 24) 24,
                     shiftRightArithmetic (shiftLeft w 16) 24,
                     shiftRightArithmetic (shiftLeft w 8) 24,
                     shiftRightArithmetic (shiftLeft w 0) 24])"
  using assms by (simp add: unpackExpression_def sem_defs)

lemma eval_unpack_unsigned:
  assumes "evalExpr m data = Some (UVec [w, x, y, z])"
  shows "evalExpr m (unpackExpression data) =
         Some (UVec [shiftRightLogical (shiftLeft w 24) 24,
                     shiftRightLogical (shiftLeft w 16) 24,
                     shiftRightLogical (shiftLeft w 8) 24,
                     shiftRightLogical (shiftLeft w 0) 24])"
  using assms by (simp add: unpackExpression_def sem_defs)

text \<open>The clamped, masked and packed channels come back from the unpacking.\<close>

lemma pack_unpack_signed:
  assumes v: "vars m val = Some (IVec [r, g, b, a])"
  shows "\<exists>m1 w. execStmts conv [clampStatement val, maskStatement val] m = Some m1
           \<and> texels m1 = texels m
           \<and> evalExpr m1 (TIntermAggregate (EOpConstruct (TType_basic EbtInt 4))
                [packExpression val]) = Some (IVec [w, w, w, w])
           \<and> (\<forall>m2 x y z. evalExpr m2 data = Some (IVec [w, x, y, z]) \<longrightarrow>
                 evalExpr m2 (unpackExpression data) =
                   Some (IVec [clampS8 r, clampS8 g, clampS8 b, clampS8 a]))"
proof -
  let ?m0 = "m\<lparr>vars := (vars m)(val \<mapsto> IVec [clampS8 r, clampS8 g, clampS8 b, clampS8 a])\<rparr>"
  let ?m1 = "?m0\<lparr>vars := (vars ?m0)(val \<mapsto>
               IVec [clampS8 r AND 255, clampS8 g AND 255, clampS8 b AND 255, clampS8 a AND 255])\<rparr>"
  let ?w = "(((clampS8 r AND 255) OR shiftLeft (clampS8 g AND 255) 8)
              OR shiftLeft (clampS8 b AND 255) 16) OR shiftLeft (clampS8 a AND 255) 24"
  have v0: "vars ?m0 val = Some (IVec [clampS8 r, clampS8 g, clampS8 b, clampS8 a])" by simp
  have v1: "vars ?m1 val = Some (IVec [clampS8 r AND 255, clampS8 g AND 255,
                                       clampS8 b AND 255, clampS8 a AND 255])" by simp
  have e: "execStmts conv [clampStatement val, maskStatement val] m = Some ?m1"
    by (simp only: execStmts.simps exec_clampStatement [OF v] exec_maskStatement [OF v0]
          option.case)
  have p: "evalExpr ?m1 (TIntermAggregate (EOpConstruct (TType_basic EbtInt 4))
             [packExpression val]) = Some (IVec [?w, ?w, ?w, ?w])"
    by (simp only: eval_pack_signed [OF v1] replicate_4)
  have u: "evalExpr m2 (unpackExpression data) =
             Some (IVec [clampS8 r, clampS8 g, clampS8 b, clampS8 a])"
    if "evalExpr m2 data = Some (IVec [?w, x, y, z])" for m2 x y z
    by (simp only: eval_unpack_signed [OF that]
          unpack_signed [OF clampS8_range clampS8_range clampS8_range clampS8_range])
  have t: "texels ?m1 = texels m" by simp
  from e t p u show ?thesis by blast
qed

lemma pack_unpack_unsigned:
  assumes v: "vars m val = Some (UVec [r, g, b, a])"
  shows "\<exists>m1 w. execStmts conv [minStatement val] m = Some m1
           \<and> texels m1 = texels m
           \<and> evalExpr m1 (TIntermAggregate (EOpConstruct (TType_basic EbtUInt 4))
                [packExpression val]) = Some (UVec [w, w, w, w])
           \<and> (\<forall>m2 x y z. evalExpr m2 data = Some (UVec [w, x, y, z]) \<longrightarrow>
                 evalExpr m2 (unpackExpression data) =
                   Some (UVec [clampU8 r, clampU8 g, clampU8 b, clampU8 a]))"
proof -
  let ?m1 = "m\<lparr>vars := (vars m)(val \<mapsto> UVec [clampU8 r, clampU8 g, clampU8 b, clampU8 a])\<rparr>"
  let ?w = "((clampU8 r OR shiftLeft (clampU8 g) 8) OR shiftLeft (clampU8 b) 16)
              OR shiftLeft (clampU8 a) 24"
  have v1: "vars ?m1 val = Some (UVec [clampU8 r, clampU8 g, clampU8 b, clampU8 a])" by simp
  have e: "execStmts conv [minStatement val] m = Some ?m1"
    by (simp only: execStmts.simps exec_minStatement [OF v] option.case)
  have p: "evalExpr ?m1 (TIntermAggregate (EOpConstruct (TType_basic EbtUInt 4))
             [packExpression val]) = Some (UVec [?w, ?w, ?w, ?w])"
    by (simp only: eval_pack_unsigned [OF v1] replicate_4)
  have u: "evalExpr m2 (unpackExpression data) =
             Some (UVec [clampU8 r, clampU8 g, clampU8 b, clampU8 a])"
    if "evalExpr m2 data = Some (UVec [?w, x, y, z])" for m2 x y z
    by (simp only: eval_unpack_unsigned [OF that]
          unpack_unsigned [OF clampU8_le clampU8_le clampU8_le clampU8_le])
  have t: "texels ?m1 = texels m" by simp
  from e t p u show ?thesis by blast
qed

lemma map_of_insort_key:
  "k \<notin> fst ` set xs \<Longrightarrow> map_of (insort_key fst (k, v) xs) k = Some v"
  by (induction xs) auto

lemma findStore_insertNew:
  "insertNew mMap p store = Some mMap' \<Longrightarrow> findStore mMap' p = Some store"
  by (auto simp: insertNew_def findStore_def Let_def map_of_insort_key split: if_splits)

lemma createPLSImageReplacement_options:
  assumes "mCompileOptions t' = mCompileOptions t"
  shows "createPLSImageReplacement t' p = createPLSImageReplacement t p"
  unfolding createPLSImageReplacement_def needsR32Packing_def assms by (rule refl)

lemma ensureGlobalPixelCoordDeclared_Some:
  "\<exists>pc. mGlobalPixelCoord (ensureGlobalPixelCoordDeclared t) = Some pc"
  by (cases "mGlobalPixelCoord t")
     (simp_all add: ensureGlobalPixelCoordDeclared_def Let_def CreateTempVariable_def
        insertStatementInParentBlock_def insertStatementsInParentBlock_def)

lemma ensureGlobalPixelCoordDeclared_options:
  "mCompileOptions (ensureGlobalPixelCoordDeclared t) = mCompileOptions t"
  by (cases "mGlobalPixelCoord t")
     (simp_all add: ensureGlobalPixelCoordDeclared_def Let_def CreateTempVariable_def
        insertStatementInParentBlock_def insertStatementsInParentBlock_def)

lemma images_visitPLSDeclaration_registers:
  assumes "RewritePLSToImagesTraverser_visitPLSDeclaration p t0 = Some t"
  shows "\<exists>img pc. findStore (mImages t) p = Some img
           \<and> createPLSImageReplacement t p = Some img
           \<and> mGlobalPixelCoord t = Some pc
           \<and> mCompileOptions t = mCompileOptions t0"
proof -
  let ?t1 = "ensureGlobalPixelCoordDeclared t0"
  from assms obtain img images where
    c: "createPLSImageReplacement ?t1 p = Some img" and
    i: "insertNew (mImages ?t1) p img = Some images" and
    t: "t = queueReplacement (TIntermDeclaration [TIntermSymbol img]) (?t1\<lparr>mImages := images\<rparr>)"
    by (auto simp: RewritePLSToImagesTraverser_visitPLSDeclaration_def Let_def
          split: Option.bind_splits)
  obtain pc where pc: "mGlobalPixelCoord ?t1 = Some pc"
    using ensureGlobalPixelCoordDeclared_Some by blast
  have o: "mCompileOptions t = mCompileOptions t0"
    by (simp add: t queueReplacement_def ensureGlobalPixelCoordDeclared_options)
  have "findStore (mImages t) p = Some img"
    using findStore_insertNew [OF i] by (simp add: t queueReplacement_def)
  moreover have "createPLSImageReplacement t p = Some img"
    using c createPLSImageReplacement_options [of t ?t1 p] o
    by (simp only: ensureGlobalPixelCoordDeclared_options)
  moreover have "mGlobalPixelCoord t = Some pc"
    using pc by (simp add: t queueReplacement_def)
  ultimately show ?thesis using o by blast
qed

lemma execStmts_append:
  "execStmts conv (xs @ ys) m =
     (case execStmts conv xs m of None \<Rightarrow> None | Some m1 \<Rightarrow> execStmts conv ys m1)"
  by (induction xs arbitrary: m) (auto split: option.splits)

lemma exec_memoryBarrierImage: "execStmt conv memoryBarrierImage m = Some m"
  by (simp add: memoryBarrierImage_def)

lemma exec_imageStore:
  assumes "evalExpr m packed = Some v" "storeTexel conv img v = Some texel"
  shows "execStmt conv (TIntermAggregate (EOpCallBuiltInFunction ''imageStore'')
           [TIntermSymbol img, coord, packed]) m = Some (m\<lparr>texels := (texels m)(img \<mapsto> texel)\<rparr>)"
  using assms by simp

lemma storeThenLoad_general:
  assumes fs: "findStore (mImages t) p = Some img"
      and pc: "mGlobalPixelCoord t = Some pc"
      and cp: "clampAndPackPLSDataIfNecessary val p img t =
                 Some (packed, t\<lparr>mInsertionsBefore := mInsertionsBefore t @ pre\<rparr>)"
      and up: "unpackImageDataIfNecessary t
                 (TIntermAggregate (EOpCallBuiltInFunction ''imageLoad'')
                    [TIntermSymbol img, TIntermSymbol pc]) p img = Some unpacked"
      and ex: "execStmts conv pre m = Some m1"
      and pk: "evalExpr m1 packed = Some v"
      and st: "storeTexel conv img v = Some texel"
  shows "storeThenLoad conv t p val m =
           evalExpr (m1\<lparr>texels := (texels m1)(img \<mapsto> texel)\<rparr>) unpacked"
proof -
  let ?store = "TIntermAggregate (EOpCallBuiltInFunction ''imageStore'')
                  [TIntermSymbol img, TIntermSymbol pc, packed]"
  let ?t1 = "t\<lparr>mInsertionsBefore := mInsertionsBefore t @ pre @ [memoryBarrierImage],
                mInsertionsAfter := mInsertionsAfter t @ [memoryBarrierImage],
                mReplacement := Some ?store\<rparr>"
  have s: "RewritePLSToImagesTraverser_visitPLSStore p val t = Some ?t1"
    by (simp add: RewritePLSToImagesTraverser_visitPLSStore_def fs cp pc
          insertStatementsInParentBlock_def queueReplacement_def
          CreateBuiltInFunctionCallNode_def memoryBarrierImage_def)
  have l: "RewritePLSToImagesTraverser_visitPLSLoad p t = Some (t\<lparr>mReplacement := Some unpacked\<rparr>)"
    using up
    by (simp add: RewritePLSToImagesTraverser_visitPLSLoad_def fs pc queueReplacement_def
          CreateBuiltInFunctionCallNode_def)
  have e: "execStmts conv ((pre @ [memoryBarrierImage]) @ [?store] @ [memoryBarrierImage]) m =
             Some (m1\<lparr>texels := (texels m1)(img \<mapsto> texel)\<rparr>)"
    by (simp only: execStmts_append ex execStmts.simps exec_memoryBarrierImage
          exec_imageStore [OF pk st] option.case)
  show ?thesis
    using e by (simp add: storeThenLoad_def s l)
qed

lemma storeThenLoad_signed_packed:
  assumes fs: "findStore (mImages t) p = Some img"
      and pc: "mGlobalPixelCoord t = Some pc"
      and img: "createPLSImageReplacement t p = Some img"
      and fmt: "imageInternalFormat (layoutQualifier (getType p)) = EiifRGBA8I"
      and pk: "needsR32Packing t"
      and v: "vars m val = Some (IVec [r, g, b, a])"
  shows "storeThenLoad conv t p val m = Some (IVec [clampS8 r, clampS8 g, clampS8 b, clampS8 a])"
proof -
  let ?load = "TIntermAggregate (EOpCallBuiltInFunction ''imageLoad'')
                 [TIntermSymbol img, TIntermSymbol pc]"
  note i = createPLSImageReplacement_RGBA8I [OF img fmt]
  have ifmt: "imageInternalFormat (layoutQualifier (getType img)) = EiifR32I"
    using i(2) pk by simp
  note cp = clampAndPack_signed_packed [OF pk fmt i(1) ifmt, of val]
  have up: "unpackImageDataIfNecessary t ?load p img = Some (unpackExpression ?load)"
    by (rule unpack_packed [OF pk]) (simp_all add: fmt ifmt)
  from pack_unpack_signed [OF v, of conv ?load] obtain m1 w where
    e: "execStmts conv [clampStatement val, maskStatement val] m = Some m1" and
    q: "evalExpr m1 (TIntermAggregate (EOpConstruct (TType_basic EbtInt 4))
                [packExpression val]) = Some (IVec [w, w, w, w])" and
    u: "\<forall>m2 x y z. evalExpr m2 ?load = Some (IVec [w, x, y, z]) \<longrightarrow>
                 evalExpr m2 (unpackExpression ?load) =
                   Some (IVec [clampS8 r, clampS8 g, clampS8 b, clampS8 a])"
    by blast
  have st: "storeTexel conv img (IVec [w, w, w, w]) = Some [w, 0, 0, 1]"
    by (simp add: storeTexel_def ifmt)
  have ld: "evalExpr (m1\<lparr>texels := (texels m1)(img \<mapsto> [w, 0, 0, 1])\<rparr>) ?load =
              Some (IVec [w, 0, 0, 1])"
    by (simp add: loadTexel_def i(1))
  show ?thesis
    using storeThenLoad_general [OF fs pc cp up e q st] u ld by simp
qed

lemma storeThenLoad_unsigned_packed:
  assumes fs: "findStore (mImages t) p = Some img"
      and pc: "mGlobalPixelCoord t = Some pc"
      and img: "createPLSImageReplacement t p = Some img"
      and fmt: "imageInternalFormat (layoutQualifier (getType p)) = EiifRGBA8UI"
      and pk: "needsR32Packing t"
      and v: "vars m val = Some (UVec [r, g, b, a])"
  shows "storeThenLoad conv t p val m = Some (UVec [clampU8 r, clampU8 g, clampU8 b, clampU8 a])"
proof -
  let ?load = "TIntermAggregate (EOpCallBuiltInFunction ''imageLoad'')
                 [TIntermSymbol img, TIntermSymbol pc]"
  note i = createPLSImageReplacement_RGBA8UI [OF img fmt]
  have ifmt: "imageInternalFormat (layoutQualifier (getType img)) = EiifR32UI"
    using i(2) pk by simp
  note cp = clampAndPack_unsigned_packed [OF pk fmt i(1) ifmt, of val]
  have up: "unpackImageDataIfNecessary t ?load p img = Some (unpackExpression ?load)"
    by (rule unpack_packed [OF pk]) (simp_all add: fmt ifmt)
  from pack_unpack_unsigned [OF v, of conv ?load] obtain m1 w where
    e: "execStmts conv [minStatement val] m = Some m1" and
    q: "evalExpr m1 (TIntermAggregate (EOpConstruct (TType_basic EbtUInt 4))
                [packExpression val]) = Some (UVec [w, w, w, w])" and
    u: "\<forall>m2 x y z. evalExpr m2 ?load = Some (UVec [w, x, y, z]) \<longrightarrow>
                 evalExpr m2 (unpackExpression ?load) =
                   Some (UVec [clampU8 r, clampU8 g, clampU8 b, clampU8 a])"
    by blast
  have st: "storeTexel conv img (UVec [w, w, w, w]) = Some [w, 0, 0, 1]"
    by (simp add: storeTexel_def ifmt)
  have ld: "evalExpr (m1\<lparr>texels := (texels m1)(img \<mapsto> [w, 0, 0, 1])\<rparr>) ?load =
              Some (UVec [w, 0, 0, 1])"
    by (simp add: loadTexel_def i(1))
  show ?thesis
    using storeThenLoad_general [OF fs pc cp up e q st] u ld by simp
qed

lemma storeThenLoad_signed_native:
  assumes fs: "findStore (mImages t) p = Some img"
      and pc: "mGlobalPixelCoord t = Some pc"
      and img: "createPLSImageReplacement t p = Some img"
      and fmt: "imageInternalFormat (layoutQualifier (getType p)) = EiifRGBA8I"
      and pk: "\<not> needsR32Packing t"
      and v: "vars m val = Some (IVec [r, g, b, a])"
      and hw: "\<And>x. - 128 \<le> sint x \<Longrightarrow> sint x \<le> 127 \<Longrightarrow> conv EiifRGBA8I x = x"
  shows "storeThenLoad conv t p val m = Some (IVec [clampS8 r, clampS8 g, clampS8 b, clampS8 a])"
proof -
  let ?load = "TIntermAggregate (EOpCallBuiltInFunction ''imageLoad'')
                 [TIntermSymbol img, TIntermSymbol pc]"
  let ?ys = "[clampS8 r, clampS8 g, clampS8 b, clampS8 a]"
  let ?m1 = "m\<lparr>vars := (vars m)(val \<mapsto> IVec ?ys)\<rparr>"
  note i = createPLSImageReplacement_RGBA8I [OF img fmt]
  have ifmt: "imageInternalFormat (layoutQualifier (getType img)) = EiifRGBA8I"
    using i(2) pk by simp
  note cp = clampAndPack_signed_native [OF fmt ifmt, of val t]
  have up: "unpackImageDataIfNecessary t ?load p img = Some ?load"
    by (rule unpack_native) (simp add: fmt ifmt)
  have e: "execStmts conv [clampStatement val] m = Some ?m1"
    by (simp only: execStmts.simps exec_clampStatement [OF v] option.case)
  have q: "evalExpr ?m1 (TIntermSymbol val) = Some (IVec ?ys)" by simp
  have st: "storeTexel conv img (IVec ?ys) = Some ?ys"
    by (simp add: storeTexel_def ifmt hw clampS8_range)
  have ld: "evalExpr (?m1\<lparr>texels := (texels ?m1)(img \<mapsto> ?ys)\<rparr>) ?load = Some (IVec ?ys)"
    by (simp add: loadTexel_def i(1))
  show ?thesis
    using storeThenLoad_general [OF fs pc cp up e q st] ld by simp
qed

lemma storeThenLoad_unsigned_native:
  assumes fs: "findStore (mImages t) p = Some img"
      and pc: "mGlobalPixelCoord t = Some pc"
      and img: "createPLSImageReplacement t p = Some img"
      and fmt: "imageInternalFormat (layoutQualifier (getType p)) = EiifRGBA8UI"
      and pk: "\<not> needsR32Packing t"
      and v: "vars m val = Some (UVec [r, g, b, a])"
      and hw: "\<And>x. x \<le> 255 \<Longrightarrow> conv EiifRGBA8UI x = x"
  shows "storeThenLoad conv t p val m = Some (UVec [clampU8 r, clampU8 g, clampU8 b, clampU8 a])"
proof -
  let ?load = "TIntermAggregate (EOpCallBuiltInFunction ''imageLoad'')
                 [TIntermSymbol img, TIntermSymbol pc]"
  let ?ys = "[clampU8 r, clampU8 g, clampU8 b, clampU8 a]"
  let ?m1 = "m\<lparr>vars := (vars m)(val \<mapsto> UVec ?ys)\<rparr>"
  note i = createPLSImageReplacement_RGBA8UI [OF img fmt]
  have ifmt: "imageInternalFormat (layoutQualifier (getType img)) = EiifRGBA8UI"
    using i(2) pk by simp
  note cp = clampAndPack_unsigned_native [OF fmt ifmt, of val t]
  have up: "unpackImageDataIfNecessary t ?load p img = Some ?load"
    by (rule unpack_native) (simp add: fmt ifmt)
  have e: "execStmts conv [minStatement val] m = Some ?m1"
    by (simp only: execStmts.simps exec_minStatement [OF v] option.case)
  have q: "evalExpr ?m1 (TIntermSymbol val) = Some (UVec ?ys)" by simp
  have st: "storeTexel conv img (UVec ?ys) = Some ?ys"
    by (simp add: storeTexel_def ifmt hw clampU8_le)
  have ld: "evalExpr (?m1\<lparr>texels := (texels ?m1)(img \<mapsto> ?ys)\<rparr>) ?load = Some (UVec ?ys)"
    by (simp add: loadTexel_def i(1))
  show ?thesis
    using storeThenLoad_general [OF fs pc cp up e q st] ld by simp
qed

lemmas example_defs =
  exampleImagesTraverser_def exampleOptions_def exampleCompiler_def examplePLS_def
  exampleValue_def exampleMachine_def RewritePLSTraverser_new_def TType_new_def
  TLayoutQualifier_Create_def TMemoryQualifier_Create_def

lemma example_images_declaration:
  "\<exists>t. RewritePLSToImagesTraverser_visitPLSDeclaration (examplePLS 10 ''plsA'' ty 0 fmt)
         (exampleImagesTraverser kind) = Some t"
  if "IsPixelLocal ty" "fmt = EiifRGBA8I \<or> fmt = EiifRGBA8UI"
  using that
  by (auto simp: RewritePLSToImagesTraverser_visitPLSDeclaration_def example_defs
        ensureGlobalPixelCoordDeclared_def createPLSImageReplacement_def insertNew_def
        CreateTempVariable_def Let_def insertStatementInParentBlock_def
        insertStatementsInParentBlock_def)

lemma example_image_replacement:
  "\<exists>img. createPLSImageReplacement (exampleImagesTraverser kind)
            (examplePLS 10 ''plsA'' ty 0 fmt) = Some img"
  if "IsPixelLocal ty" "fmt = EiifRGBA8I \<or> fmt = EiifRGBA8UI"
  using that by (auto simp: createPLSImageReplacement_def example_defs Let_def)

section \<open>The attachment locations\<close>

lemma intSub_exact:
  assumes "- 2147483648 \<le> a - b" and "a - b \<le> 2147483647"
  shows "intSub a b = a - b"
proof -
  have "word_of_int a - word_of_int b = (word_of_int (a - b) :: 32 word)" by simp
  then have "intSub a b = sint (word_of_int (a - b) :: 32 word)" by (simp only: intSub_def)
  also have "\<dots> = signed_take_bit 31 (a - b)" by (simp only: sint_sbintrunc') simp
  also have "\<dots> = a - b" using assms by (simp add: signed_take_bit_int_eq_self)
  finally show ?thesis .
qed

lemma PLSAttachment_new_location_wrapped:
  "PLSAttachment_new compiler symbolTable compileOptions plsVar = Some (a, symbolTable') \<Longrightarrow>
   location (layoutQualifier (getType (fragmentVar a))) =
     intSub (intSub (MaxCombinedDrawBuffersAndPixelLocalStoragePlanes compiler)
               (binding (layoutQualifier (getType plsVar)))) 1"
  by (auto simp: PLSAttachment_new_def Let_def CreateTempVariable_def
           split: if_splits Option.bind_splits)

lemma PLSAttachment_new_location:
  assumes "PLSAttachment_new compiler symbolTable compileOptions plsVar = Some (a, symbolTable')"
    and "0 \<le> MaxCombinedDrawBuffersAndPixelLocalStoragePlanes compiler"
    and "MaxCombinedDrawBuffersAndPixelLocalStoragePlanes compiler \<le> 2147483647"
    and "0 \<le> binding (layoutQualifier (getType plsVar))"
    and "binding (layoutQualifier (getType plsVar)) \<le> 2147483647"
  shows "location (layoutQualifier (getType (fragmentVar a))) =
           MaxCombinedDrawBuffersAndPixelLocalStoragePlanes compiler
             - binding (layoutQualifier (getType plsVar)) - 1"
proof -
  have "intSub (MaxCombinedDrawBuffersAndPixelLocalStoragePlanes compiler)
          (binding (layoutQualifier (getType plsVar))) =
        MaxCombinedDrawBuffersAndPixelLocalStoragePlanes compiler
          - binding (layoutQualifier (getType plsVar))"
    using assms(2-5) by (intro intSub_exact) simp_all
  moreover have "intSub (MaxCombinedDrawBuffersAndPixelLocalStoragePlanes compiler
          - binding (layoutQualifier (getType plsVar))) 1 =
        MaxCombinedDrawBuffersAndPixelLocalStoragePlanes compiler
          - binding (layoutQualifier (getType plsVar)) - 1"
    using assms(2-5) by (intro intSub_exact) simp_all
  ultimately show ?thesis
    using PLSAttachment_new_location_wrapped [OF assms(1)] by simp
qed

text \<open>
  Claim C6. Under the framebuffer-fetch strategy the output location of the attachment of a
  binding is the platform's maximum combined count of draw buffers and pixel local storage
  planes, minus the binding, minus 1, for a maximum and bindings that are non-negative
  C++ \<^verbatim>\<open>int\<close>s (at most 2147483647), where the subtractions of the source do not
  overflow. So two attachments have the same location exactly when their bindings are
  equal, a larger binding has a smaller location, and binding 0 has the highest location,
  the maximum minus 1.
\<close>

theorem attachment_location_reverse_order:
  assumes "PLSAttachment_new compiler symbolTable1 compileOptions plsVar1 = Some (a1, symbolTable1')"
      and "PLSAttachment_new compiler symbolTable2 compileOptions plsVar2 = Some (a2, symbolTable2')"
      and "0 \<le> MaxCombinedDrawBuffersAndPixelLocalStoragePlanes compiler"
      and "MaxCombinedDrawBuffersAndPixelLocalStoragePlanes compiler \<le> 2147483647"
      and "0 \<le> binding (layoutQualifier (getType plsVar1))"
      and "binding (layoutQualifier (getType plsVar1)) \<le> 2147483647"
      and "0 \<le> binding (layoutQualifier (getType plsVar2))"
      and "binding (layoutQualifier (getType plsVar2)) \<le> 2147483647"
  shows "location (layoutQualifier (getType (fragmentVar a1))) =
           MaxCombinedDrawBuffersAndPixelLocalStoragePlanes compiler
             - binding (layoutQualifier (getType plsVar1)) - 1
       \<and> (location (layoutQualifier (getType (fragmentVar a1))) =
            location (layoutQualifier (getType (fragmentVar a2)))
           \<longleftrightarrow> binding (layoutQualifier (getType plsVar1)) = binding (layoutQualifier (getType plsVar2)))
       \<and> (binding (layoutQualifier (getType plsVar1)) < binding (layoutQualifier (getType plsVar2))
           \<longleftrightarrow> location (layoutQualifier (getType (fragmentVar a2)))
                 < location (layoutQualifier (getType (fragmentVar a1))))
       \<and> (binding (layoutQualifier (getType plsVar1)) = 0
           \<longleftrightarrow> location (layoutQualifier (getType (fragmentVar a1)))
                 = MaxCombinedDrawBuffersAndPixelLocalStoragePlanes compiler - 1)"
  using PLSAttachment_new_location [OF assms(1) assms(3,4) assms(5,6)]
        PLSAttachment_new_location [OF assms(2) assms(3,4) assms(7,8)]
  by auto

theorem attachment_location_reverse_order_witness:
  "\<exists>a1 a2 s1 s2.
     PLSAttachment_new exampleCompiler 100 (exampleOptions FramebufferFetch NotSupported)
        (examplePLS 10 ''plsA'' EbtPixelLocalANGLE 0 EiifRGBA8) = Some (a1, s1)
   \<and> PLSAttachment_new exampleCompiler 101 (exampleOptions FramebufferFetch NotSupported)
        (examplePLS 11 ''plsB'' EbtUPixelLocalANGLE 3 EiifR32UI) = Some (a2, s2)
   \<and> location (layoutQualifier (getType (fragmentVar a1))) = 7
   \<and> location (layoutQualifier (getType (fragmentVar a2)))
       < location (layoutQualifier (getType (fragmentVar a1)))"
proof -
  obtain a1 s1 where 1: "PLSAttachment_new exampleCompiler 100 (exampleOptions FramebufferFetch NotSupported)
        (examplePLS 10 ''plsA'' EbtPixelLocalANGLE 0 EiifRGBA8) = Some (a1, s1)"
    by (simp add: PLSAttachment_new_def examplePLS_def TType_new_def TType_basic_def CreateTempVariable_def Let_def)
  obtain a2 s2 where 2: "PLSAttachment_new exampleCompiler 101 (exampleOptions FramebufferFetch NotSupported)
        (examplePLS 11 ''plsB'' EbtUPixelLocalANGLE 3 EiifR32UI) = Some (a2, s2)"
    by (simp add: PLSAttachment_new_def examplePLS_def TType_new_def TType_basic_def CreateTempVariable_def Let_def)
  have "0 \<le> MaxCombinedDrawBuffersAndPixelLocalStoragePlanes exampleCompiler"
    "MaxCombinedDrawBuffersAndPixelLocalStoragePlanes exampleCompiler \<le> 2147483647"
    "0 \<le> binding (layoutQualifier (getType (examplePLS 10 ''plsA'' EbtPixelLocalANGLE 0 EiifRGBA8)))"
    "binding (layoutQualifier (getType (examplePLS 10 ''plsA'' EbtPixelLocalANGLE 0 EiifRGBA8))) \<le> 2147483647"
    "0 \<le> binding (layoutQualifier (getType (examplePLS 11 ''plsB'' EbtUPixelLocalANGLE 3 EiifR32UI)))"
    "binding (layoutQualifier (getType (examplePLS 11 ''plsB'' EbtUPixelLocalANGLE 3 EiifR32UI))) \<le> 2147483647"
    by (simp_all add: exampleCompiler_def examplePLS_def TType_new_def TLayoutQualifier_Create_def)
  from attachment_location_reverse_order [OF 1 2 this] 1 2 show ?thesis
    by (simp add: exampleCompiler_def examplePLS_def TType_new_def TLayoutQualifier_Create_def)
qed

section \<open>The critical section of the image strategy\<close>

text \<open>
  Claim C8. Under the image strategy the setup injection marks the program as requiring
  early fragment tests and puts a begin intrinsic at the start of the body of main exactly
  for the three interlock mechanisms (NV interlock, INTEL ordering, ARB interlock), and
  nothing for rasterizer ordered views or no synchronization; the finalize injection
  appends the matching end intrinsic exactly for the NV and the ARB interlock.
\<close>

theorem image_interlock_injection:
  assumes "fragmentSynchronizationType (pls compileOptions) = sync" and "sync \<noteq> InvalidEnum"
  shows "RewritePLSToImagesTraverser_injectSetupCode compiler symbolTable compileOptions mainBody 0 =
           Some (compiler\<lparr>isEarlyFragmentTestsSpecified := True\<rparr>,
             (case sync of
                FragmentShaderInterlock_NV_GL \<Rightarrow>
                  [CreateBuiltInFunctionCallNode ''beginInvocationInterlockNV'' [] symbolTable
                     kESSLInternalBackendBuiltIns]
              | FragmentShaderOrdering_INTEL_GL \<Rightarrow>
                  [CreateBuiltInFunctionCallNode ''beginFragmentShaderOrderingINTEL'' [] symbolTable
                     kESSLInternalBackendBuiltIns]
              | FragmentShaderInterlock_ARB_GL \<Rightarrow>
                  [CreateBuiltInFunctionCallNode ''beginInvocationInterlockARB'' [] symbolTable
                     kESSLInternalBackendBuiltIns]
              | _ \<Rightarrow> []) @ mainBody)
       \<and> RewritePLSToImagesTraverser_injectFinalizeCode compiler' symbolTable compileOptions body
            (length body) =
           Some (body @
             (case sync of
                FragmentShaderInterlock_NV_GL \<Rightarrow>
                  [CreateBuiltInFunctionCallNode ''endInvocationInterlockNV'' [] symbolTable
                     kESSLInternalBackendBuiltIns]
              | FragmentShaderInterlock_ARB_GL \<Rightarrow>
                  [CreateBuiltInFunctionCallNode ''endInvocationInterlockARB'' [] symbolTable
                     kESSLInternalBackendBuiltIns]
              | _ \<Rightarrow> []))"
  using assms
  by (cases sync)
     (simp_all add: RewritePLSToImagesTraverser_injectSetupCode_def
        RewritePLSToImagesTraverser_injectFinalizeCode_def specifyEarlyFragmentTests_def
        insertStatement_def insertStatements_def)

theorem image_interlock_injection_witness:
  "RewritePLSToImagesTraverser_injectSetupCode exampleCompiler 100
      (exampleOptions ImageStoreNativeFormats FragmentShaderOrdering_INTEL_GL)
      [TIntermConstantUnion [iConst 1]] 0 =
     Some (exampleCompiler\<lparr>isEarlyFragmentTestsSpecified := True\<rparr>,
           [TIntermAggregate (EOpCallBuiltInFunction ''beginFragmentShaderOrderingINTEL'') [],
            TIntermConstantUnion [iConst 1]])
   \<and> RewritePLSToImagesTraverser_injectFinalizeCode exampleCompiler 100
      (exampleOptions ImageStoreNativeFormats FragmentShaderOrdering_INTEL_GL)
      [TIntermConstantUnion [iConst 1]] (length [TIntermConstantUnion [iConst 1]]) =
     Some [TIntermConstantUnion [iConst 1]]"
  using image_interlock_injection [of "exampleOptions ImageStoreNativeFormats FragmentShaderOrdering_INTEL_GL"
      FragmentShaderOrdering_INTEL_GL exampleCompiler 100 "[TIntermConstantUnion [iConst 1]]"
      exampleCompiler "[TIntermConstantUnion [iConst 1]]"]
  by (simp add: exampleOptions_def CreateBuiltInFunctionCallNode_def)

section \<open>The round trip through a packed 32-bit image\<close>

text \<open>
  Claim C3. Under the image strategy with R32 packing, take a 4-component vector whose
  components are in the 8-bit range: signed values from -128 to 127 for the signed 4x8-bit
  format, unsigned values up to 255 for the unsigned one. The statements the store hook
  inserts (the clamp, and for the signed format the mask with 0xff) run, and the packed
  expression (the OR of the channels shifted left by 0, 8, 16 and 24) evaluates to one
  32-bit word \<open>w\<close> in every component. Applied to any data whose first component is \<open>w\<close>,
  the unpacking of the load hook (the word in 4 copies, shifted left by 24, 16, 8 and 0,
  then right by 24, arithmetically for the signed format) evaluates to the original
  vector, signs included, on exact 32-bit two's complement words.
\<close>

theorem r32_pack_unpack_roundtrip:
  assumes pk: "needsR32Packing t"
      and img: "createPLSImageReplacement t p = Some img"
  shows "(imageInternalFormat (layoutQualifier (getType p)) = EiifRGBA8I
          \<and> vars m val = Some (IVec [r, g, b, a])
          \<and> list_all (\<lambda>x. - 128 \<le> sint x \<and> sint x \<le> 127) [r, g, b, a]
          \<longrightarrow> (\<exists>packed t1 m1 w unpacked.
                clampAndPackPLSDataIfNecessary val p img t = Some (packed, t1)
              \<and> execStmts conv (drop (length (mInsertionsBefore t)) (mInsertionsBefore t1)) m
                  = Some m1
              \<and> evalExpr m1 packed = Some (IVec [w, w, w, w])
              \<and> unpackImageDataIfNecessary t data p img = Some unpacked
              \<and> (\<forall>m2 x y z. evalExpr m2 data = Some (IVec [w, x, y, z]) \<longrightarrow>
                    evalExpr m2 unpacked = Some (IVec [r, g, b, a]))))
       \<and> (imageInternalFormat (layoutQualifier (getType p)) = EiifRGBA8UI
          \<and> vars m val = Some (UVec [r, g, b, a])
          \<and> list_all (\<lambda>x. x \<le> 255) [r, g, b, a]
          \<longrightarrow> (\<exists>packed t1 m1 w unpacked.
                clampAndPackPLSDataIfNecessary val p img t = Some (packed, t1)
              \<and> execStmts conv (drop (length (mInsertionsBefore t)) (mInsertionsBefore t1)) m
                  = Some m1
              \<and> evalExpr m1 packed = Some (UVec [w, w, w, w])
              \<and> unpackImageDataIfNecessary t data p img = Some unpacked
              \<and> (\<forall>m2 x y z. evalExpr m2 data = Some (UVec [w, x, y, z]) \<longrightarrow>
                    evalExpr m2 unpacked = Some (UVec [r, g, b, a]))))"
proof (intro conjI impI)
  assume a: "imageInternalFormat (layoutQualifier (getType p)) = EiifRGBA8I
          \<and> vars m val = Some (IVec [r, g, b, a])
          \<and> list_all (\<lambda>x. - 128 \<le> sint x \<and> sint x \<le> 127) [r, g, b, a]"
  then have fmt: "imageInternalFormat (layoutQualifier (getType p)) = EiifRGBA8I"
    and v: "vars m val = Some (IVec [r, g, b, a])"
    and rng: "- 128 \<le> sint r" "sint r \<le> 127" "- 128 \<le> sint g" "sint g \<le> 127"
             "- 128 \<le> sint b" "sint b \<le> 127" "- 128 \<le> sint a" "sint a \<le> 127"
    by simp_all
  note i = createPLSImageReplacement_RGBA8I [OF img fmt]
  have ifmt: "imageInternalFormat (layoutQualifier (getType img)) = EiifR32I"
    using i(2) pk by simp
  have id: "clampS8 r = r" "clampS8 g = g" "clampS8 b = b" "clampS8 a = a"
    using rng by (simp_all add: clampS8_id)
  note cp = clampAndPack_signed_packed [OF pk fmt i(1) ifmt, of val]
  have up: "unpackImageDataIfNecessary t data p img = Some (unpackExpression data)"
    by (rule unpack_packed [OF pk]) (simp_all add: fmt ifmt)
  from pack_unpack_signed [OF v, of conv data] obtain m1 w where
    e: "execStmts conv [clampStatement val, maskStatement val] m = Some m1" and
    q: "evalExpr m1 (TIntermAggregate (EOpConstruct (TType_basic EbtInt 4))
                [packExpression val]) = Some (IVec [w, w, w, w])" and
    u: "\<forall>m2 x y z. evalExpr m2 data = Some (IVec [w, x, y, z]) \<longrightarrow>
                 evalExpr m2 (unpackExpression data) =
                   Some (IVec [clampS8 r, clampS8 g, clampS8 b, clampS8 a])"
    by blast
  have d: "drop (length (mInsertionsBefore t))
             (mInsertionsBefore (t\<lparr>mInsertionsBefore := mInsertionsBefore t @
                [clampStatement val, maskStatement val]\<rparr>))
           = [clampStatement val, maskStatement val]"
    by simp
  show "\<exists>packed t1 m1 w unpacked.
                clampAndPackPLSDataIfNecessary val p img t = Some (packed, t1)
              \<and> execStmts conv (drop (length (mInsertionsBefore t)) (mInsertionsBefore t1)) m
                  = Some m1
              \<and> evalExpr m1 packed = Some (IVec [w, w, w, w])
              \<and> unpackImageDataIfNecessary t data p img = Some unpacked
              \<and> (\<forall>m2 x y z. evalExpr m2 data = Some (IVec [w, x, y, z]) \<longrightarrow>
                    evalExpr m2 unpacked = Some (IVec [r, g, b, a]))"
    using cp up e q u d unfolding id by metis
next
  assume a: "imageInternalFormat (layoutQualifier (getType p)) = EiifRGBA8UI
          \<and> vars m val = Some (UVec [r, g, b, a])
          \<and> list_all (\<lambda>x. x \<le> 255) [r, g, b, a]"
  then have fmt: "imageInternalFormat (layoutQualifier (getType p)) = EiifRGBA8UI"
    and v: "vars m val = Some (UVec [r, g, b, a])"
    and rng: "r \<le> 255" "g \<le> 255" "b \<le> 255" "a \<le> 255"
    by simp_all
  note i = createPLSImageReplacement_RGBA8UI [OF img fmt]
  have ifmt: "imageInternalFormat (layoutQualifier (getType img)) = EiifR32UI"
    using i(2) pk by simp
  have id: "clampU8 r = r" "clampU8 g = g" "clampU8 b = b" "clampU8 a = a"
    using rng by (simp_all add: clampU8_id)
  note cp = clampAndPack_unsigned_packed [OF pk fmt i(1) ifmt, of val]
  have up: "unpackImageDataIfNecessary t data p img = Some (unpackExpression data)"
    by (rule unpack_packed [OF pk]) (simp_all add: fmt ifmt)
  from pack_unpack_unsigned [OF v, of conv data] obtain m1 w where
    e: "execStmts conv [minStatement val] m = Some m1" and
    q: "evalExpr m1 (TIntermAggregate (EOpConstruct (TType_basic EbtUInt 4))
                [packExpression val]) = Some (UVec [w, w, w, w])" and
    u: "\<forall>m2 x y z. evalExpr m2 data = Some (UVec [w, x, y, z]) \<longrightarrow>
                 evalExpr m2 (unpackExpression data) =
                   Some (UVec [clampU8 r, clampU8 g, clampU8 b, clampU8 a])"
    by blast
  have d: "drop (length (mInsertionsBefore t))
             (mInsertionsBefore (t\<lparr>mInsertionsBefore := mInsertionsBefore t @
                [minStatement val]\<rparr>))
           = [minStatement val]"
    by simp
  show "\<exists>packed t1 m1 w unpacked.
                clampAndPackPLSDataIfNecessary val p img t = Some (packed, t1)
              \<and> execStmts conv (drop (length (mInsertionsBefore t)) (mInsertionsBefore t1)) m
                  = Some m1
              \<and> evalExpr m1 packed = Some (UVec [w, w, w, w])
              \<and> unpackImageDataIfNecessary t data p img = Some unpacked
              \<and> (\<forall>m2 x y z. evalExpr m2 data = Some (UVec [w, x, y, z]) \<longrightarrow>
                    evalExpr m2 unpacked = Some (UVec [r, g, b, a]))"
    using cp up e q u d unfolding id by metis
qed

theorem r32_pack_unpack_roundtrip_witness:
  "(\<exists>packed t1 m1 w unpacked.
      clampAndPackPLSDataIfNecessary (exampleValue EbtInt)
        (examplePLS 10 ''plsA'' EbtIPixelLocalANGLE 0 EiifRGBA8I)
        (the (createPLSImageReplacement (exampleImagesTraverser ImageStoreR32PackedFormats)
                (examplePLS 10 ''plsA'' EbtIPixelLocalANGLE 0 EiifRGBA8I)))
        (exampleImagesTraverser ImageStoreR32PackedFormats) = Some (packed, t1)
    \<and> execStmts (\<lambda>fmt x. x)
        (drop (length (mInsertionsBefore (exampleImagesTraverser ImageStoreR32PackedFormats)))
           (mInsertionsBefore t1))
        (exampleMachine (exampleValue EbtInt) (IVec [- 128, 127, - 1, 5])) = Some m1
    \<and> evalExpr m1 packed = Some (IVec [w, w, w, w])
    \<and> unpackImageDataIfNecessary (exampleImagesTraverser ImageStoreR32PackedFormats)
        (TIntermSymbol gl_FragCoord)
        (examplePLS 10 ''plsA'' EbtIPixelLocalANGLE 0 EiifRGBA8I)
        (the (createPLSImageReplacement (exampleImagesTraverser ImageStoreR32PackedFormats)
                (examplePLS 10 ''plsA'' EbtIPixelLocalANGLE 0 EiifRGBA8I))) = Some unpacked
    \<and> (\<forall>m2 x y z. evalExpr m2 (TIntermSymbol gl_FragCoord) = Some (IVec [w, x, y, z]) \<longrightarrow>
          evalExpr m2 unpacked = Some (IVec [- 128, 127, - 1, 5])))
 \<and> (\<exists>packed t1 m1 w unpacked.
      clampAndPackPLSDataIfNecessary (exampleValue EbtUInt)
        (examplePLS 10 ''plsA'' EbtUPixelLocalANGLE 0 EiifRGBA8UI)
        (the (createPLSImageReplacement (exampleImagesTraverser ImageStoreR32PackedFormats)
                (examplePLS 10 ''plsA'' EbtUPixelLocalANGLE 0 EiifRGBA8UI)))
        (exampleImagesTraverser ImageStoreR32PackedFormats) = Some (packed, t1)
    \<and> execStmts (\<lambda>fmt x. x)
        (drop (length (mInsertionsBefore (exampleImagesTraverser ImageStoreR32PackedFormats)))
           (mInsertionsBefore t1))
        (exampleMachine (exampleValue EbtUInt) (UVec [0, 255, 128, 7])) = Some m1
    \<and> evalExpr m1 packed = Some (UVec [w, w, w, w])
    \<and> unpackImageDataIfNecessary (exampleImagesTraverser ImageStoreR32PackedFormats)
        (TIntermSymbol gl_FragCoord)
        (examplePLS 10 ''plsA'' EbtUPixelLocalANGLE 0 EiifRGBA8UI)
        (the (createPLSImageReplacement (exampleImagesTraverser ImageStoreR32PackedFormats)
                (examplePLS 10 ''plsA'' EbtUPixelLocalANGLE 0 EiifRGBA8UI))) = Some unpacked
    \<and> (\<forall>m2 x y z. evalExpr m2 (TIntermSymbol gl_FragCoord) = Some (UVec [w, x, y, z]) \<longrightarrow>
          evalExpr m2 unpacked = Some (UVec [0, 255, 128, 7])))"
proof -
  let ?t = "exampleImagesTraverser ImageStoreR32PackedFormats"
  let ?pI = "examplePLS 10 ''plsA'' EbtIPixelLocalANGLE 0 EiifRGBA8I"
  let ?pU = "examplePLS 10 ''plsA'' EbtUPixelLocalANGLE 0 EiifRGBA8UI"
  have pk: "needsR32Packing ?t"
    by (simp add: needsR32Packing_def example_defs)
  obtain imgI where iI: "createPLSImageReplacement ?t ?pI = Some imgI"
    using example_image_replacement [of EbtIPixelLocalANGLE EiifRGBA8I]
    by (auto simp: IsPixelLocal_def)
  obtain imgU where iU: "createPLSImageReplacement ?t ?pU = Some imgU"
    using example_image_replacement [of EbtUPixelLocalANGLE EiifRGBA8UI]
    by (auto simp: IsPixelLocal_def)
  have fI: "imageInternalFormat (layoutQualifier (getType ?pI)) = EiifRGBA8I"
    and fU: "imageInternalFormat (layoutQualifier (getType ?pU)) = EiifRGBA8UI"
    by (simp_all add: examplePLS_def)
  have vI: "vars (exampleMachine (exampleValue EbtInt) (IVec [- 128, 127, - 1, 5])) (exampleValue EbtInt)
              = Some (IVec [- 128, 127, - 1, 5])"
    and vU: "vars (exampleMachine (exampleValue EbtUInt) (UVec [0, 255, 128, 7])) (exampleValue EbtUInt)
              = Some (UVec [0, 255, 128, 7])"
    by (simp_all add: exampleMachine_def)
  have rI: "list_all (\<lambda>x :: 32 word. - 128 \<le> sint x \<and> sint x \<le> 127) [- 128, 127, - 1, 5]"
    and rU: "list_all (\<lambda>x :: 32 word. x \<le> 255) [0, 255, 128, 7]"
    by simp_all
  note 1 = r32_pack_unpack_roundtrip [OF pk iI, of
      "exampleMachine (exampleValue EbtInt) (IVec [- 128, 127, - 1, 5])" "exampleValue EbtInt"
      "- 128" 127 "- 1" 5 "\<lambda>fmt x. x" "TIntermSymbol gl_FragCoord", THEN conjunct1, rule_format,
      OF conjI [OF fI conjI [OF vI rI]]]
  note 2 = r32_pack_unpack_roundtrip [OF pk iU, of
      "exampleMachine (exampleValue EbtUInt) (UVec [0, 255, 128, 7])" "exampleValue EbtUInt"
      0 255 128 7 "\<lambda>fmt x. x" "TIntermSymbol gl_FragCoord", THEN conjunct2, rule_format,
      OF conjI [OF fU conjI [OF vU rU]]]
  from 1 2 show ?thesis by (simp only: iI iU option.sel) 
qed

section \<open>Clamping before packing\<close>

text \<open>
  Claim C2. Under the image strategy, once the declaration of a binding has been visited,
  a store to it followed by a load yields, for the signed 4x8-bit integer format, each
  component clamped to the range from -128 to 127 (storing 200 yields 127, storing -200
  yields -128), and for the unsigned 4x8-bit integer format each component clamped to at
  most 255 (storing 300 yields 255). This holds with and without R32 packing, whatever
  the hardware does to components it cannot represent: what is masked, packed and
  written is the clamped value.
\<close>

theorem image_store_clamps_before_packing:
  assumes decl: "RewritePLSToImagesTraverser_visitPLSDeclaration p t0 = Some t"
      and hw: "\<forall>x. (- 128 \<le> sint x \<and> sint x \<le> 127 \<longrightarrow> conv EiifRGBA8I x = x)
                 \<and> (x \<le> 255 \<longrightarrow> conv EiifRGBA8UI x = x)"
  shows "(imageInternalFormat (layoutQualifier (getType p)) = EiifRGBA8I
          \<and> vars m val = Some (IVec [r, g, b, a])
          \<longrightarrow> (\<exists>ys. storeThenLoad conv t p val m = Some (IVec ys)
                 \<and> map sint ys = map (\<lambda>x. max (- 128) (min 127 (sint x))) [r, g, b, a]))
       \<and> (imageInternalFormat (layoutQualifier (getType p)) = EiifRGBA8UI
          \<and> vars m val = Some (UVec [r, g, b, a])
          \<longrightarrow> (\<exists>ys. storeThenLoad conv t p val m = Some (UVec ys)
                 \<and> map unat ys = map (\<lambda>x. min 255 (unat x)) [r, g, b, a]))"
proof -
  from images_visitPLSDeclaration_registers [OF decl] obtain img pc where
    fs: "findStore (mImages t) p = Some img" and
    img: "createPLSImageReplacement t p = Some img" and
    pc: "mGlobalPixelCoord t = Some pc"
    by blast
  have hwS: "conv EiifRGBA8I x = x" if "- 128 \<le> sint x" "sint x \<le> 127" for x
    using hw that by blast
  have hwU: "conv EiifRGBA8UI x = x" if "x \<le> 255" for x
    using hw that by blast
  have S: "storeThenLoad conv t p val m = Some (IVec [clampS8 r, clampS8 g, clampS8 b, clampS8 a])"
    if f: "imageInternalFormat (layoutQualifier (getType p)) = EiifRGBA8I"
       and v: "vars m val = Some (IVec [r, g, b, a])"
  proof (cases "needsR32Packing t")
    case True
    show ?thesis by (rule storeThenLoad_signed_packed [OF fs pc img f True v])
  next
    case False
    show ?thesis by (rule storeThenLoad_signed_native [OF fs pc img f False v]) (rule hwS)
  qed
  have U: "storeThenLoad conv t p val m = Some (UVec [clampU8 r, clampU8 g, clampU8 b, clampU8 a])"
    if f: "imageInternalFormat (layoutQualifier (getType p)) = EiifRGBA8UI"
       and v: "vars m val = Some (UVec [r, g, b, a])"
  proof (cases "needsR32Packing t")
    case True
    show ?thesis by (rule storeThenLoad_unsigned_packed [OF fs pc img f True v])
  next
    case False
    show ?thesis by (rule storeThenLoad_unsigned_native [OF fs pc img f False v]) (rule hwU)
  qed
  show ?thesis
  proof (intro conjI impI)
    assume "imageInternalFormat (layoutQualifier (getType p)) = EiifRGBA8I
            \<and> vars m val = Some (IVec [r, g, b, a])"
    then have "storeThenLoad conv t p val m =
                 Some (IVec [clampS8 r, clampS8 g, clampS8 b, clampS8 a])"
      using S by blast
    moreover have "map sint [clampS8 r, clampS8 g, clampS8 b, clampS8 a] =
                     map (\<lambda>x. max (- 128) (min 127 (sint x))) [r, g, b, a]"
      by (simp add: clampS8_def sint_clamp)
    ultimately show "\<exists>ys. storeThenLoad conv t p val m = Some (IVec ys)
                 \<and> map sint ys = map (\<lambda>x. max (- 128) (min 127 (sint x))) [r, g, b, a]"
      by blast
  next
    assume "imageInternalFormat (layoutQualifier (getType p)) = EiifRGBA8UI
            \<and> vars m val = Some (UVec [r, g, b, a])"
    then have "storeThenLoad conv t p val m =
                 Some (UVec [clampU8 r, clampU8 g, clampU8 b, clampU8 a])"
      using U by blast
    moreover have "map unat [clampU8 r, clampU8 g, clampU8 b, clampU8 a] =
                     map (\<lambda>x. min 255 (unat x)) [r, g, b, a]"
      by (simp add: clampU8_def unat_umin_255)
    ultimately show "\<exists>ys. storeThenLoad conv t p val m = Some (UVec ys)
                 \<and> map unat ys = map (\<lambda>x. min 255 (unat x)) [r, g, b, a]"
      by blast
  qed
qed

theorem image_store_clamps_before_packing_witness:
  "(\<exists>ys. storeThenLoad (\<lambda>fmt x. x)
            (the (RewritePLSToImagesTraverser_visitPLSDeclaration
                    (examplePLS 10 ''plsA'' EbtIPixelLocalANGLE 0 EiifRGBA8I)
                    (exampleImagesTraverser ImageStoreR32PackedFormats)))
            (examplePLS 10 ''plsA'' EbtIPixelLocalANGLE 0 EiifRGBA8I) (exampleValue EbtInt)
            (exampleMachine (exampleValue EbtInt) (IVec [200, - 200, 5, - 5])) = Some (IVec ys)
        \<and> map sint ys = [127, - 128, 5, - 5])
 \<and> (\<exists>ys. storeThenLoad (\<lambda>fmt x. x)
            (the (RewritePLSToImagesTraverser_visitPLSDeclaration
                    (examplePLS 10 ''plsA'' EbtUPixelLocalANGLE 0 EiifRGBA8UI)
                    (exampleImagesTraverser ImageStoreNativeFormats)))
            (examplePLS 10 ''plsA'' EbtUPixelLocalANGLE 0 EiifRGBA8UI) (exampleValue EbtUInt)
            (exampleMachine (exampleValue EbtUInt) (UVec [300, 0, 255, 7])) = Some (UVec ys)
        \<and> map unat ys = [255, 0, 255, 7])"
proof -
  let ?pI = "examplePLS 10 ''plsA'' EbtIPixelLocalANGLE 0 EiifRGBA8I"
  let ?pU = "examplePLS 10 ''plsA'' EbtUPixelLocalANGLE 0 EiifRGBA8UI"
  obtain tI where tI: "RewritePLSToImagesTraverser_visitPLSDeclaration ?pI
         (exampleImagesTraverser ImageStoreR32PackedFormats) = Some tI"
    using example_images_declaration [of EbtIPixelLocalANGLE EiifRGBA8I]
    by (auto simp: IsPixelLocal_def)
  obtain tU where tU: "RewritePLSToImagesTraverser_visitPLSDeclaration ?pU
         (exampleImagesTraverser ImageStoreNativeFormats) = Some tU"
    using example_images_declaration [of EbtUPixelLocalANGLE EiifRGBA8UI]
    by (auto simp: IsPixelLocal_def)
  have hw: "\<forall>x :: 32 word. (- 128 \<le> sint x \<and> sint x \<le> 127 \<longrightarrow> (\<lambda>fmt x. x) EiifRGBA8I x = x)
                 \<and> (x \<le> 255 \<longrightarrow> (\<lambda>fmt x. x) EiifRGBA8UI x = x)"
    by simp
  have fI: "imageInternalFormat (layoutQualifier (getType ?pI)) = EiifRGBA8I"
    and fU: "imageInternalFormat (layoutQualifier (getType ?pU)) = EiifRGBA8UI"
    by (simp_all add: examplePLS_def)
  have vI: "vars (exampleMachine (exampleValue EbtInt) (IVec [200, - 200, 5, - 5])) (exampleValue EbtInt)
              = Some (IVec [200, - 200, 5, - 5])"
    and vU: "vars (exampleMachine (exampleValue EbtUInt) (UVec [300, 0, 255, 7])) (exampleValue EbtUInt)
              = Some (UVec [300, 0, 255, 7])"
    by (simp_all add: exampleMachine_def)
  from image_store_clamps_before_packing [OF tI hw, of
      "exampleMachine (exampleValue EbtInt) (IVec [200, - 200, 5, - 5])" "exampleValue EbtInt"
      200 "- 200" 5 "- 5"] fI vI
  have 1: "\<exists>ys. storeThenLoad (\<lambda>fmt x. x) tI ?pI (exampleValue EbtInt)
            (exampleMachine (exampleValue EbtInt) (IVec [200, - 200, 5, - 5])) = Some (IVec ys)
        \<and> map sint ys = [127, - 128, 5, - 5]"
    by simp
  from image_store_clamps_before_packing [OF tU hw, of
      "exampleMachine (exampleValue EbtUInt) (UVec [300, 0, 255, 7])" "exampleValue EbtUInt"
      300 0 255 7] fU vU
  have 2: "\<exists>ys. storeThenLoad (\<lambda>fmt x. x) tU ?pU (exampleValue EbtUInt)
            (exampleMachine (exampleValue EbtUInt) (UVec [300, 0, 255, 7])) = Some (UVec ys)
        \<and> map unat ys = [255, 0, 255, 7]"
    by simp
  from 1 2 show ?thesis by (simp only: tI tU option.sel)
qed

section \<open>Reasoning about the traversal\<close>

declare visitAggregate.simps [simp del]

text \<open>
  Induction over the successful runs of the traversal: a property of the four functions
  holds of every run that returns, when each equation of the traversal preserves it.
\<close>

lemma traverse_run_induct:
  assumes Symbol: "\<And>v t. P (TIntermSymbol v) t
        (fst (takeReplacement (TIntermSymbol v) (visitSymbol v (t\<lparr>mReplacement := None\<rparr>))))
        (snd (takeReplacement (TIntermSymbol v) (visitSymbol v (t\<lparr>mReplacement := None\<rparr>))))"
    and Constant: "\<And>c t. P (TIntermConstantUnion c) t (TIntermConstantUnion c) t"
    and Swizzle: "\<And>n offsets t n' t1.
        \<lbrakk>traverse n t = Some (n', t1); P n t n' t1\<rbrakk>
        \<Longrightarrow> P (TIntermSwizzle n offsets) t (TIntermSwizzle n' offsets) t1"
    and Binary: "\<And>op l r t l' t1 r' t2.
        \<lbrakk>traverse l t = Some (l', t1); P l t l' t1; traverse r t1 = Some (r', t2); P r t1 r' t2\<rbrakk>
        \<Longrightarrow> P (TIntermBinary op l r) t (TIntermBinary op l' r') t2"
    and AggregateVisit: "\<And>op args t t1 args' t2.
        \<lbrakk>visitAggregate op args (t\<lparr>mReplacement := None\<rparr>) = Some (True, t1);
         S op args (t\<lparr>mReplacement := None\<rparr>) True t1;
         traverseSequence args t1 = Some (args', t2); Q args t1 args' t2\<rbrakk>
        \<Longrightarrow> P (TIntermAggregate op args) t (TIntermAggregate op args') t2"
    and AggregateSkip: "\<And>op args t t1.
        \<lbrakk>visitAggregate op args (t\<lparr>mReplacement := None\<rparr>) = Some (False, t1);
         S op args (t\<lparr>mReplacement := None\<rparr>) False t1\<rbrakk>
        \<Longrightarrow> P (TIntermAggregate op args) t
              (fst (takeReplacement (TIntermAggregate op args) t1))
              (snd (takeReplacement (TIntermAggregate op args) t1))"
    and DeclarationVisit: "\<And>sequence t t1 sequence' t2.
        \<lbrakk>visitDeclaration sequence (t\<lparr>mReplacement := None\<rparr>) = Some (True, t1);
         traverseSequence sequence t1 = Some (sequence', t2); Q sequence t1 sequence' t2\<rbrakk>
        \<Longrightarrow> P (TIntermDeclaration sequence) t (TIntermDeclaration sequence') t2"
    and DeclarationSkip: "\<And>sequence t t1.
        visitDeclaration sequence (t\<lparr>mReplacement := None\<rparr>) = Some (False, t1)
        \<Longrightarrow> P (TIntermDeclaration sequence) t
              (fst (takeReplacement (TIntermDeclaration sequence) t1))
              (snd (takeReplacement (TIntermDeclaration sequence) t1))"
    and Block: "\<And>sequence t sequence' t1.
        \<lbrakk>traverseBlockSequence sequence t = Some (sequence', t1); R sequence t sequence' t1\<rbrakk>
        \<Longrightarrow> P (TIntermBlock sequence) t (TIntermBlock sequence')
              (t1\<lparr>mInsertionsBefore := mInsertionsBefore t,
                  mInsertionsAfter := mInsertionsAfter t\<rparr>)"
    and FunctionDefinition: "\<And>f body t body' t1.
        \<lbrakk>traverse body t = Some (body', t1); P body t body' t1\<rbrakk>
        \<Longrightarrow> P (TIntermFunctionDefinition f body) t (TIntermFunctionDefinition f body') t1"
    and Other: "\<And>c sequence t sequence' t1.
        \<lbrakk>traverseSequence sequence t = Some (sequence', t1); Q sequence t sequence' t1\<rbrakk>
        \<Longrightarrow> P (TIntermOther c sequence) t (TIntermOther c sequence') t1"
    and SequenceNil: "\<And>t. Q [] t [] t"
    and SequenceCons: "\<And>child children t child' t1 children' t2.
        \<lbrakk>traverse child t = Some (child', t1); P child t child' t1;
         traverseSequence children t1 = Some (children', t2); Q children t1 children' t2\<rbrakk>
        \<Longrightarrow> Q (child # children) t (child' # children') t2"
    and BlockNil: "\<And>t. R [] t [] t"
    and BlockCons: "\<And>child children t child' t1 children' t2.
        \<lbrakk>traverse child (t\<lparr>mInsertionsBefore := [], mInsertionsAfter := []\<rparr>) = Some (child', t1);
         P child (t\<lparr>mInsertionsBefore := [], mInsertionsAfter := []\<rparr>) child' t1;
         traverseBlockSequence children t1 = Some (children', t2); R children t1 children' t2\<rbrakk>
        \<Longrightarrow> R (child # children) t
              (mInsertionsBefore t1 @ [child'] @ mInsertionsAfter t1 @ children') t2"
    and NoOperation: "\<And>op args t. \<not> BuiltInGroup_IsPixelLocal op \<Longrightarrow> S op args t True t"
    and Load: "\<And>args t plsSymbol t1.
        \<lbrakk>1 \<le> length args; getAsSymbolNode (args ! 0) = Some plsSymbol;
         visitPLSLoad plsSymbol t = Some t1\<rbrakk>
        \<Longrightarrow> S EOpPixelLocalLoadANGLE args t False t1"
    and Store: "\<And>args t plsSymbol valueBasicType valueType valueVar valueDecl valueDecl' t1 t3.
        \<lbrakk>1 < length args; getAsSymbolNode (args ! 0) = Some plsSymbol;
         DataTypeOfPLSType (basicType (getType plsSymbol)) = Some valueBasicType;
         valueType = TType_new valueBasicType (precision (getType plsSymbol)) EvqTemporary 4;
         valueVar = fst (CreateTempVariable (mSymbolTable t) valueType);
         valueDecl = CreateTempInitDeclarationNode valueVar (args ! 1);
         traverse valueDecl
           (t\<lparr>mSymbolTable := snd (CreateTempVariable (mSymbolTable t) valueType)\<rparr>) =
           Some (valueDecl', t1);
         P valueDecl (t\<lparr>mSymbolTable := snd (CreateTempVariable (mSymbolTable t) valueType)\<rparr>)
           valueDecl' t1;
         visitPLSStore plsSymbol valueVar (insertStatementInParentBlock valueDecl' t1) = Some t3\<rbrakk>
        \<Longrightarrow> S EOpPixelLocalStoreANGLE args t False t3"
  shows "(traverse n t = Some (n', t') \<longrightarrow> P n t n' t') \<and>
         (traverseSequence ns t = Some (ns', t') \<longrightarrow> Q ns t ns' t') \<and>
         (traverseBlockSequence bs t = Some (bs', t') \<longrightarrow> R bs t bs' t') \<and>
         (visitAggregate op args t = Some (b, t') \<longrightarrow> S op args t b t')"
proof -
  have "traverse n t = Some (n', t') \<Longrightarrow> P n t n' t'"
    and "traverseSequence ns t = Some (ns', t') \<Longrightarrow> Q ns t ns' t'"
    and "traverseBlockSequence bs t = Some (bs', t') \<Longrightarrow> R bs t bs' t'"
    and "visitAggregate op args t = Some (b, t') \<Longrightarrow> S op args t b t'"
    for n t n' t' ns ns' bs bs' op args b
proof (induction n t and ns t and bs t and op args t
       arbitrary: n' t' and ns' t' and bs' t' and b t'
       rule: traverse_traverseSequence_traverseBlockSequence_visitAggregate.induct)
  case (1 v t)
  then show ?case using Symbol [of v t] by auto
next
  case (2 c t)
  then show ?case using Constant by auto
next
  case (3 n offsets t)
  from 3(2) obtain m t1 where a: "traverse n t = Some (m, t1)"
    and b: "n' = TIntermSwizzle m offsets" "t' = t1"
    by (auto split: Option.bind_splits)
  show ?case unfolding b by (rule Swizzle [OF a 3(1) [OF a]])
next
  case (4 op l r t)
  from 4(3) obtain l' t1 r' where a: "traverse l t = Some (l', t1)"
    and b: "traverse r t1 = Some (r', t')" and c: "n' = TIntermBinary op l' r'"
    by (auto split: Option.bind_splits)
  show ?case unfolding c by (rule Binary [OF a 4(1) [OF a] b 4(2) [OF a refl b]])
next
  case (5 op args t)
  from 5(3) obtain visit t1 where a: "visitAggregate op args (t\<lparr>mReplacement := None\<rparr>) = Some (visit, t1)"
    and b: "(if visit then do { (args', t2) \<leftarrow> traverseSequence args t1;
                                 Some (TIntermAggregate op args', t2) }
             else Some (takeReplacement (TIntermAggregate op args) t1)) = Some (n', t')"
    by (auto split: Option.bind_splits)
  show ?case
  proof (cases visit)
    case True
    with b obtain args' where c: "traverseSequence args t1 = Some (args', t')"
      and d: "n' = TIntermAggregate op args'"
      by (auto split: Option.bind_splits)
    from a True have a': "visitAggregate op args (t\<lparr>mReplacement := None\<rparr>) = Some (True, t1)" by simp
    show ?thesis unfolding d
      by (rule AggregateVisit [OF a' 5(1) [OF a'] c 5(2) [OF a' refl _ c]]) simp
  next
    case False
    from a False have a': "visitAggregate op args (t\<lparr>mReplacement := None\<rparr>) = Some (False, t1)" by simp
    from b False have "n' = fst (takeReplacement (TIntermAggregate op args) t1)"
      "t' = snd (takeReplacement (TIntermAggregate op args) t1)"
      by (auto simp: fst_def snd_def split: prod.splits)
    then show ?thesis using AggregateSkip [OF a' 5(1) [OF a']] by simp
  qed
next
  case (6 sequence t)
  from 6(2) obtain visit t1 where a: "visitDeclaration sequence (t\<lparr>mReplacement := None\<rparr>) = Some (visit, t1)"
    and b: "(if visit then do { (sequence', t2) \<leftarrow> traverseSequence sequence t1;
                                 Some (TIntermDeclaration sequence', t2) }
             else Some (takeReplacement (TIntermDeclaration sequence) t1)) = Some (n', t')"
    by (auto split: Option.bind_splits)
  show ?case
  proof (cases visit)
    case True
    with b obtain sequence' where c: "traverseSequence sequence t1 = Some (sequence', t')"
      and d: "n' = TIntermDeclaration sequence'"
      by (auto split: Option.bind_splits)
    from a True have a': "visitDeclaration sequence (t\<lparr>mReplacement := None\<rparr>) = Some (True, t1)" by simp
    show ?thesis unfolding d
      by (rule DeclarationVisit [OF a' c 6(1) [OF a' refl _ c]]) simp
  next
    case False
    from a False have a': "visitDeclaration sequence (t\<lparr>mReplacement := None\<rparr>) = Some (False, t1)" by simp
    from b False have "n' = fst (takeReplacement (TIntermDeclaration sequence) t1)"
      "t' = snd (takeReplacement (TIntermDeclaration sequence) t1)"
      by (auto simp: fst_def snd_def split: prod.splits)
    then show ?thesis using DeclarationSkip [OF a'] by simp
  qed
next
  case (7 sequence t)
  from 7(2) obtain sequence' t1 where a: "traverseBlockSequence sequence t = Some (sequence', t1)"
    and b: "n' = TIntermBlock sequence'"
      "t' = t1\<lparr>mInsertionsBefore := mInsertionsBefore t, mInsertionsAfter := mInsertionsAfter t\<rparr>"
    by (auto split: Option.bind_splits)
  show ?case unfolding b by (rule Block [OF a 7(1) [OF a]])
next
  case (8 f body t)
  from 8(2) obtain body' where a: "traverse body t = Some (body', t')"
    and b: "n' = TIntermFunctionDefinition f body'"
    by (auto split: Option.bind_splits)
  show ?case unfolding b by (rule FunctionDefinition [OF a 8(1) [OF a]])
next
  case (9 c sequence t)
  from 9(2) obtain sequence' where a: "traverseSequence sequence t = Some (sequence', t')"
    and b: "n' = TIntermOther c sequence'"
    by (auto split: Option.bind_splits)
  show ?case unfolding b by (rule Other [OF a 9(1) [OF a]])
next
  case (10 t)
  then show ?case using SequenceNil by auto
next
  case (11 child children t)
  from 11(3) obtain child' t1 children' where a: "traverse child t = Some (child', t1)"
    and b: "traverseSequence children t1 = Some (children', t')" and c: "ns' = child' # children'"
    by (auto split: Option.bind_splits)
  show ?case unfolding c by (rule SequenceCons [OF a 11(1) [OF a] b 11(2) [OF a refl b]])
next
  case (12 t)
  then show ?case using BlockNil by auto
next
  case (13 child children t)
  from 13(3) obtain child' t1 children' where
    a: "traverse child (t\<lparr>mInsertionsBefore := [], mInsertionsAfter := []\<rparr>) = Some (child', t1)"
    and b: "traverseBlockSequence children t1 = Some (children', t')"
    and c: "bs' = mInsertionsBefore t1 @ [child'] @ mInsertionsAfter t1 @ children'"
    by (auto split: Option.bind_splits)
  show ?case unfolding c by (rule BlockCons [OF a 13(1) [OF a] b 13(2) [OF a refl b]])
next
  case (14 op args t)
  note run = 14(2) [unfolded visitAggregate.simps [of op args t]]
  show ?case
  proof (cases "BuiltInGroup_IsPixelLocal op")
    case False
    with run have "b = True" "t' = t" by auto
    then show ?thesis using NoOperation [OF False] by simp
  next
    case True
    with run obtain plsSymbol where len: "1 \<le> length args"
      and sym: "getAsSymbolNode (args ! 0) = Some plsSymbol"
      by (auto split: if_splits Option.bind_splits)
    show ?thesis
    proof (cases "op = EOpPixelLocalLoadANGLE")
      case load: True
      with run len sym have "b = False" "visitPLSLoad plsSymbol t = Some t'"
        by (auto simp: BuiltInGroup_IsPixelLocal_def split: if_splits Option.bind_splits)
      then show ?thesis using Load [OF len sym] load by simp
    next
      case noload: False
      with True have store: "op = EOpPixelLocalStoreANGLE"
        by (simp add: BuiltInGroup_IsPixelLocal_def)
      from run store len sym obtain vbt valueDecl' t1 where len2: "1 < length args"
        and vbt: "DataTypeOfPLSType (basicType (getType plsSymbol)) = Some vbt"
        and tr: "traverse
            (CreateTempInitDeclarationNode
               (fst (CreateTempVariable (mSymbolTable t)
                  (TType_new vbt (precision (getType plsSymbol)) EvqTemporary 4))) (args ! 1))
            (t\<lparr>mSymbolTable := snd (CreateTempVariable (mSymbolTable t)
                  (TType_new vbt (precision (getType plsSymbol)) EvqTemporary 4))\<rparr>) =
            Some (valueDecl', t1)"
        and st: "visitPLSStore plsSymbol
            (fst (CreateTempVariable (mSymbolTable t)
               (TType_new vbt (precision (getType plsSymbol)) EvqTemporary 4)))
            (insertStatementInParentBlock valueDecl' t1) = Some t'"
        and b: "b = False"
        by (auto simp: BuiltInGroup_IsPixelLocal_def Let_def split: if_splits Option.bind_splits)
      have ih: "P (CreateTempInitDeclarationNode
               (fst (CreateTempVariable (mSymbolTable t)
                  (TType_new vbt (precision (getType plsSymbol)) EvqTemporary 4))) (args ! 1))
            (t\<lparr>mSymbolTable := snd (CreateTempVariable (mSymbolTable t)
                  (TType_new vbt (precision (getType plsSymbol)) EvqTemporary 4))\<rparr>)
            valueDecl' t1"
        by (rule 14(1) [OF _ _ sym noload store _ vbt refl refl refl tr])
           (use True len len2 in simp_all)
      show ?thesis unfolding b store
        by (rule Store [OF len2 sym vbt refl refl refl tr ih st])
    qed
  qed
qed
  then show ?thesis by blast
qed

subsection \<open>What the hooks do to the traverser\<close>

lemma emitted_simps [simp]:
  "emitted (TIntermSymbol v)"
  "emitted (TIntermConstantUnion c)"
  "emitted (TIntermSwizzle n offsets) = emitted n"
  "emitted (TIntermBinary op l r) = (emitted l \<and> emitted r)"
  "emitted (TIntermAggregate op args) = (\<not> BuiltInGroup_IsPixelLocal op \<and> list_all emitted args)"
  "emitted (CreateTempInitDeclarationNode v e) = (\<not> IsPixelLocal (basicType (getType v)) \<and> emitted e)"
  by (auto simp: emitted_def CreateTempInitDeclarationNode_def list_all_iff)

lemma emitted_helpers [simp]:
  "emitted (CreateBuiltInFunctionCallNode f args st ver) = list_all emitted args"
  "emitted (CreateConstructor ty args) = list_all emitted args"
  "emitted (CreateTempAssignmentNode v e) = emitted e"
  "emitted (CreateIndexNode i)"
  "emitted (CreateUIntNode u)"
  "emitted (CreateUVecNode us k p)"
  "emitted (CreateFloatNode x p)"
  "emitted (CreateSwizzle n offsets) = emitted n"
  "emitted (shiftComponent v k)"
  by (simp_all add: CreateBuiltInFunctionCallNode_def CreateConstructor_def
        CreateTempAssignmentNode_def CreateIndexNode_def CreateUIntNode_def CreateUVecNode_def
        CreateFloatNode_def CreateSwizzle_def shiftComponent_def BuiltInGroup_IsPixelLocal_def)

lemma clampAndPack_effect:
  assumes "clampAndPackPLSDataIfNecessary val p img t = Some (e, t')"
  shows "\<exists>bs. onlyInserts t t' bs [] \<and> mReplacement t' = mReplacement t
           \<and> emitted e \<and> list_all emitted bs"
  using assms
  by (auto simp: clampAndPackPLSDataIfNecessary_def Let_def CreateTempVariable_def
        insertStatementInParentBlock_def insertStatementsInParentBlock_def TType_new_def
        IsPixelLocal_def onlyInserts_def sameConfig_def
        split: if_splits Option.bind_splits prod.splits)

lemma images_visitPLSStore_effect:
  assumes "RewritePLSToImagesTraverser_visitPLSStore p val t = Some t'"
  shows "\<exists>r bs as. onlyInserts t t' bs as \<and> mReplacement t' = Some r
           \<and> emitted r \<and> list_all emitted bs \<and> list_all emitted as
           \<and> getTypeOfDeclarator r = None"
proof -
  from assms obtain img e t1 pc where
    cp: "clampAndPackPLSDataIfNecessary val p img t = Some (e, t1)" and
    t': "t' = t1\<lparr>mInsertionsBefore := mInsertionsBefore t1 @
                    [TIntermAggregate (EOpCallBuiltInFunction ''memoryBarrierImage'') []],
                mInsertionsAfter := mInsertionsAfter t1 @
                    [TIntermAggregate (EOpCallBuiltInFunction ''memoryBarrierImage'') []],
                mReplacement := Some (TIntermAggregate (EOpCallBuiltInFunction ''imageStore'')
                    [TIntermSymbol img, TIntermSymbol pc, e])\<rparr>"
    by (auto simp: RewritePLSToImagesTraverser_visitPLSStore_def Let_def
          CreateBuiltInFunctionCallNode_def queueReplacement_def
          insertStatementsInParentBlock_def
          split: Option.bind_splits)
  from clampAndPack_effect [OF cp] obtain bs where
    a: "onlyInserts t t1 bs []" and b: "emitted e" and c: "list_all emitted bs"
    by blast
  have "onlyInserts t t' (bs @ [TIntermAggregate (EOpCallBuiltInFunction ''memoryBarrierImage'') []])
          [TIntermAggregate (EOpCallBuiltInFunction ''memoryBarrierImage'') []]"
    using a unfolding t' by (simp add: onlyInserts_def sameConfig_def)
  moreover have "mReplacement t' = Some (TIntermAggregate (EOpCallBuiltInFunction ''imageStore'')
                    [TIntermSymbol img, TIntermSymbol pc, e])"
    unfolding t' by simp
  moreover have "emitted (TIntermAggregate (EOpCallBuiltInFunction ''imageStore'')
                    [TIntermSymbol img, TIntermSymbol pc, e])"
    using b by (simp add: BuiltInGroup_IsPixelLocal_def)
  moreover have "list_all emitted (bs @ [TIntermAggregate (EOpCallBuiltInFunction ''memoryBarrierImage'') []])"
    using c by (simp add: BuiltInGroup_IsPixelLocal_def)
  moreover have "list_all emitted [TIntermAggregate (EOpCallBuiltInFunction ''memoryBarrierImage'') []]"
    by (simp add: BuiltInGroup_IsPixelLocal_def)
  ultimately show ?thesis by fastforce
qed

lemma unpack_emitted:
  "unpackImageDataIfNecessary t data p img = Some e \<Longrightarrow> emitted data \<Longrightarrow> emitted e"
  by (auto simp: unpackImageDataIfNecessary_def Let_def split: if_splits)

lemma unpack_no_declarator:
  "unpackImageDataIfNecessary t data p img = Some e \<Longrightarrow> getTypeOfDeclarator data = None
   \<Longrightarrow> getTypeOfDeclarator e = None"
  by (auto simp: unpackImageDataIfNecessary_def Let_def CreateBuiltInFunctionCallNode_def
        CreateSwizzle_def split: if_splits)

lemma images_visitPLSLoad_effect:
  assumes "RewritePLSToImagesTraverser_visitPLSLoad p t = Some t'"
  shows "\<exists>r. onlyInserts t t' [] [] \<and> mReplacement t' = Some r \<and> emitted r
           \<and> getTypeOfDeclarator r = None"
proof -
  from assms obtain img pc r where
    u: "unpackImageDataIfNecessary t
          (TIntermAggregate (EOpCallBuiltInFunction ''imageLoad'') [TIntermSymbol img, TIntermSymbol pc])
          p img = Some r" and
    t': "t' = t\<lparr>mReplacement := Some r\<rparr>"
    by (auto simp: RewritePLSToImagesTraverser_visitPLSLoad_def Let_def
          CreateBuiltInFunctionCallNode_def queueReplacement_def
          split: Option.bind_splits)
  have "emitted r"
    by (rule unpack_emitted [OF u]) (simp add: BuiltInGroup_IsPixelLocal_def)
  moreover have "getTypeOfDeclarator r = None"
    by (rule unpack_no_declarator [OF u]) simp
  moreover have "onlyInserts t t' [] []" "mReplacement t' = Some r"
    unfolding t' by (simp_all add: onlyInserts_def sameConfig_def)
  ultimately show ?thesis by blast
qed


lemma findStore_in_set: "findStore m p = Some a \<Longrightarrow> a \<in> snd ` set m"
  by (auto simp: findStore_def Let_def split: if_splits dest!: map_of_SomeD intro: rev_image_eqI)

lemma expandAccessVar_emitted: "expandAccessVar a = Some e \<Longrightarrow> emitted e"
  by (auto simp: expandAccessVar_def Let_def CreateConstructor_def BuiltInGroup_IsPixelLocal_def
        split: if_splits)

lemma expandAccessVar_declarator:
  "expandAccessVar a = Some e \<Longrightarrow> getTypeOfDeclarator e = None \<or> e = TIntermSymbol (accessVar a)"
  by (auto simp: expandAccessVar_def Let_def CreateConstructor_def split: if_splits)

lemma swizzle_emitted: "swizzle a v = Some e \<Longrightarrow> emitted e"
  by (auto simp: swizzle_def Let_def split: if_splits)

lemma visitPLSLoad_effect:
  assumes "visitPLSLoad p t = Some t'"
  shows "\<exists>r. onlyInserts t t' [] [] \<and> mReplacement t' = Some r \<and> emitted r
           \<and> (getTypeOfDeclarator r = None
                \<or> (\<exists>a \<in> snd ` set (mPLSAttachments t). r = TIntermSymbol (accessVar a)))"
proof (cases "mClass t")
  case RewritePLSToImagesTraverser
  with assms images_visitPLSLoad_effect [of p t t'] show ?thesis
    by (auto simp: visitPLSLoad_def)
next
  case RewritePLSToFramebufferFetchTraverser
  with assms obtain a e where a: "findStore (mPLSAttachments t) p = Some a"
    and e: "expandAccessVar a = Some e" and t': "t' = t\<lparr>mReplacement := Some e\<rparr>"
    by (auto simp: visitPLSLoad_def RewritePLSToFramebufferFetchTraverser_visitPLSLoad_def
          queueReplacement_def split: Option.bind_splits)
  have "onlyInserts t t' [] []" "mReplacement t' = Some e"
    unfolding t' by (simp_all add: onlyInserts_def sameConfig_def)
  with expandAccessVar_emitted [OF e] expandAccessVar_declarator [OF e] findStore_in_set [OF a]
  show ?thesis by blast
qed

lemma visitPLSStore_effect:
  assumes "visitPLSStore p val t = Some t'"
  shows "\<exists>r bs as. onlyInserts t t' bs as \<and> mReplacement t' = Some r
           \<and> emitted r \<and> list_all emitted bs \<and> list_all emitted as
           \<and> getTypeOfDeclarator r = None"
proof (cases "mClass t")
  case RewritePLSToImagesTraverser
  with assms images_visitPLSStore_effect [of p val t t'] show ?thesis
    by (auto simp: visitPLSStore_def)
next
  case RewritePLSToFramebufferFetchTraverser
  with assms obtain a e where a: "findStore (mPLSAttachments t) p = Some a"
    and e: "swizzle a val = Some e"
    and t': "t' = t\<lparr>mReplacement := Some (TIntermBinary EOpAssign (TIntermSymbol (accessVar a)) e)\<rparr>"
    by (auto simp: visitPLSStore_def RewritePLSToFramebufferFetchTraverser_visitPLSStore_def
          queueReplacement_def CreateTempAssignmentNode_def split: Option.bind_splits)
  have "onlyInserts t t' [] []"
    "mReplacement t' = Some (TIntermBinary EOpAssign (TIntermSymbol (accessVar a)) e)"
    unfolding t' by (simp_all add: onlyInserts_def sameConfig_def)
  moreover have "emitted (TIntermBinary EOpAssign (TIntermSymbol (accessVar a)) e)"
    using swizzle_emitted [OF e] by simp
  moreover have "getTypeOfDeclarator (TIntermBinary EOpAssign (TIntermSymbol (accessVar a)) e) = None"
    by simp
  moreover have "list_all emitted []" by simp
  ultimately show ?thesis by blast
qed

subsection \<open>The configuration is never changed\<close>

lemma sameConfig_refl: "sameConfig t t"
  by (simp add: sameConfig_def)

lemma sameConfig_trans: "sameConfig t t1 \<Longrightarrow> sameConfig t1 t2 \<Longrightarrow> sameConfig t t2"
  by (simp add: sameConfig_def)

lemma sameConfig_updates [simp]:
  "sameConfig t (t'\<lparr>mReplacement := r\<rparr>) = sameConfig t t'"
  "sameConfig t (t'\<lparr>mInsertionsBefore := bs\<rparr>) = sameConfig t t'"
  "sameConfig t (t'\<lparr>mInsertionsAfter := as\<rparr>) = sameConfig t t'"
  "sameConfig t (t'\<lparr>mSymbolTable := s\<rparr>) = sameConfig t t'"
  "sameConfig t (t'\<lparr>mGlobalPixelCoord := g\<rparr>) = sameConfig t t'"
  "sameConfig t (t'\<lparr>mImages := i\<rparr>) = sameConfig t t'"
  "sameConfig t (t'\<lparr>mPLSAttachments := pa\<rparr>) = sameConfig t t'"
  "sameConfig t (t'\<lparr>mRewrittenOutputs := ro\<rparr>) = sameConfig t t'"
  "sameConfig (t\<lparr>mReplacement := r\<rparr>) t' = sameConfig t t'"
  "sameConfig (t\<lparr>mInsertionsBefore := bs\<rparr>) t' = sameConfig t t'"
  "sameConfig (t\<lparr>mInsertionsAfter := as\<rparr>) t' = sameConfig t t'"
  "sameConfig (t\<lparr>mSymbolTable := s\<rparr>) t' = sameConfig t t'"
  by (simp_all add: sameConfig_def)

lemma sameConfig_takeReplacement [simp]:
  "sameConfig t (snd (takeReplacement n t')) = sameConfig t t'"
  by (simp add: takeReplacement_def split: option.split)

lemma sameConfig_visitSymbol [simp]: "sameConfig t (visitSymbol v t') = sameConfig t t'"
  by (simp add: visitSymbol_def RewritePLSToFramebufferFetchTraverser_visitSymbol_def
        queueReplacement_def split: TraverserClass.split option.split)

lemma sameConfig_ensure [simp]:
  "sameConfig t (ensureGlobalPixelCoordDeclared t') = sameConfig t t'"
  by (simp add: ensureGlobalPixelCoordDeclared_def Let_def CreateTempVariable_def
        insertStatementInParentBlock_def insertStatementsInParentBlock_def split: option.split)

lemma sameConfig_visitPLSDeclaration:
  "visitPLSDeclaration p t = Some t' \<Longrightarrow> sameConfig t t'"
  by (auto simp: visitPLSDeclaration_def RewritePLSToImagesTraverser_visitPLSDeclaration_def
        RewritePLSToFramebufferFetchTraverser_visitPLSDeclaration_def Let_def
        queueReplacement_def insertStatementInParentBlock_def insertStatementsInParentBlock_def
        sameConfig_refl
        split: TraverserClass.splits Option.bind_splits)

lemma sameConfig_base_visitDeclaration:
  "RewritePLSTraverser_visitDeclaration sequence t = Some (b, t') \<Longrightarrow> sameConfig t t'"
  by (auto simp: RewritePLSTraverser_visitDeclaration_def sameConfig_refl
        dest!: sameConfig_visitPLSDeclaration
        split: list.splits if_splits Option.bind_splits)

lemma sameConfig_visitDeclaration:
  "visitDeclaration sequence t = Some (b, t') \<Longrightarrow> sameConfig t t'"
  by (auto simp: visitDeclaration_def RewritePLSToFramebufferFetchTraverser_visitDeclaration_def
        Let_def queueReplacement_def
        dest!: sameConfig_base_visitDeclaration
        split: TraverserClass.splits if_splits Option.bind_splits)

lemma onlyInserts_sameConfig: "onlyInserts t t' bs as \<Longrightarrow> sameConfig t t'"
  by (simp add: onlyInserts_def)

lemma traverse_sameConfig_all:
  "(traverse n t = Some (n', t') \<longrightarrow> sameConfig t t') \<and>
   (traverseSequence ns t = Some (ns', t') \<longrightarrow> sameConfig t t') \<and>
   (traverseBlockSequence bs t = Some (bs', t') \<longrightarrow> sameConfig t t') \<and>
   (visitAggregate op args t = Some (b, t') \<longrightarrow> sameConfig t t')"
proof (rule traverse_run_induct
    [where P = "\<lambda>n t n' t'. sameConfig t t'" and Q = "\<lambda>n t n' t'. sameConfig t t'"
       and R = "\<lambda>n t n' t'. sameConfig t t'" and S = "\<lambda>op n t b t'. sameConfig t t'"],
    goal_cases)
  case (1 v t) show ?case by (simp add: sameConfig_refl)
next
  case (2 c t) show ?case by (simp add: sameConfig_refl)
next
  case 3 then show ?case by simp
next
  case 4 then show ?case by (blast intro: sameConfig_trans)
next
  case 5 then show ?case using sameConfig_trans by fastforce
next
  case 6 then show ?case by simp
next
  case 7 then show ?case
    using sameConfig_visitDeclaration sameConfig_trans by fastforce
next
  case 8 then show ?case using sameConfig_visitDeclaration by fastforce
next
  case 9 then show ?case by simp
next
  case 10 then show ?case by simp
next
  case 11 then show ?case by simp
next
  case 12 show ?case by (simp add: sameConfig_refl)
next
  case 13 then show ?case by (blast intro: sameConfig_trans)
next
  case 14 show ?case by (simp add: sameConfig_refl)
next
  case 15 then show ?case using sameConfig_trans by fastforce
next
  case 16 show ?case by (simp add: sameConfig_refl)
next
  case 17 then show ?case using visitPLSLoad_effect onlyInserts_sameConfig by blast
next
  case (18 args t plsSymbol valueBasicType valueType valueVar valueDecl valueDecl' t1 t3)
  from visitPLSStore_effect [OF 18(9)] have "sameConfig (insertStatementInParentBlock valueDecl' t1) t3"
    using onlyInserts_sameConfig by blast
  then have "sameConfig t1 t3"
    by (simp add: insertStatementInParentBlock_def insertStatementsInParentBlock_def)
  with 18(8) show ?case using sameConfig_trans by fastforce
qed

subsection \<open>The lowered tree holds no pixel local storage\<close>

lemma plsFree_iff:
  "plsFree n = list_all (\<lambda>m. \<not> isPLSOperation m \<and> plsDeclarators m = []) (subnodes n)"
  by (auto simp: plsFree_def plsOperations_def plsDeclarations_def filter_empty_conv list_all_iff)

lemma list_all_concat: "list_all P (concat xss) = list_all (list_all P) xss"
  by (induction xss) auto

lemma plsFree_simps [simp]:
  "plsFree (TIntermSymbol v)"
  "plsFree (TIntermConstantUnion c)"
  "plsFree (TIntermSwizzle n offsets) = plsFree n"
  "plsFree (TIntermBinary op l r) = (plsFree l \<and> plsFree r)"
  "plsFree (TIntermAggregate op args) = (\<not> BuiltInGroup_IsPixelLocal op \<and> list_all plsFree args)"
  "plsFree (TIntermDeclaration sequence) =
     (list_all (\<lambda>d. \<not> isPLSDeclarator d) sequence \<and> list_all plsFree sequence)"
  "plsFree (TIntermBlock sequence) = list_all plsFree sequence"
  "plsFree (TIntermFunctionDefinition f body) = plsFree body"
  "plsFree (TIntermOther cl sequence) = list_all plsFree sequence"
  by (auto simp: plsFree_iff list_all_concat filter_empty_conv list_all_iff)



lemma wellFormed_simps [simp]:
  "wellFormed (TIntermSymbol v)"
  "wellFormed (TIntermConstantUnion c)"
  "wellFormed (TIntermSwizzle n offsets) = wellFormed n"
  "wellFormed (TIntermBinary op l r) = (wellFormed l \<and> wellFormed r)"
  "wellFormed (TIntermAggregate op args) =
     (wellFormedNode (TIntermAggregate op args) \<and> list_all wellFormed args)"
  "wellFormed (TIntermDeclaration sequence) = (length sequence = 1 \<and> list_all wellFormed sequence)"
  "wellFormed (TIntermBlock sequence) = list_all wellFormed sequence"
  "wellFormed (TIntermFunctionDefinition f body) = wellFormed body"
  "wellFormed (TIntermOther cl sequence) = list_all wellFormed sequence"
  by (auto simp: wellFormed_def list_all_concat list_all_iff)

lemma traverse_symbol:
  "takeReplacement (TIntermSymbol v) (visitSymbol v (t\<lparr>mReplacement := None\<rparr>)) =
     (TIntermSymbol (currentVariable t v), t\<lparr>mReplacement := None\<rparr>)"
  by (simp add: takeReplacement_def visitSymbol_def currentVariable_def
        RewritePLSToFramebufferFetchTraverser_visitSymbol_def queueReplacement_def
        split: TraverserClass.split option.split)

subsection \<open>What the visit functions of declarations do\<close>









lemma cleanState_updates [simp]:
  "cleanState (t\<lparr>mReplacement := r\<rparr>) = cleanState t"
  "cleanState (t\<lparr>mSymbolTable := s\<rparr>) = cleanState t"
  "cleanState (t\<lparr>mGlobalPixelCoord := g\<rparr>) = cleanState t"
  "cleanState (t\<lparr>mImages := i\<rparr>) = cleanState t"
  by (simp_all add: cleanState_def)

lemma cleanState_insertions:
  "cleanState t \<Longrightarrow> list_all plsFree bs \<Longrightarrow> list_all plsFree as
   \<Longrightarrow> cleanState (t\<lparr>mInsertionsBefore := bs, mInsertionsAfter := as\<rparr>)"
  by (simp add: cleanState_def)






lemma relocated_type [simp]:
  "basicType (getType (relocated v)) = basicType (getType v)"
  "qualifier (getType (relocated v)) = qualifier (getType v)"
  "location (layoutQualifier (getType (relocated v))) = 0"
  "locationsSpecified (layoutQualifier (getType (relocated v))) = 1"
  by (simp_all add: relocated_def)


lemma lowering_refl_symbol: "lowering (TIntermSymbol v) (TIntermSymbol v)"
  by (simp add: lowering_def)



lemma isPLSDeclarator_simps [simp]:
  "isPLSDeclarator (TIntermSymbol v) = IsPixelLocal (basicType (getType v))"
  "\<not> isPLSDeclarator (TIntermConstantUnion c)"
  "\<not> isPLSDeclarator (TIntermSwizzle n offsets)"
  "\<not> isPLSDeclarator (TIntermAggregate op args)"
  "\<not> isPLSDeclarator (TIntermDeclaration sequence)"
  "\<not> isPLSDeclarator (TIntermBlock sequence)"
  "\<not> isPLSDeclarator (TIntermFunctionDefinition f body)"
  "\<not> isPLSDeclarator (TIntermOther cl sequence)"
  by (simp_all add: isPLSDeclarator_def)








subsection \<open>A tree without pixel local storage, under the image strategy\<close>

lemma typedDeclarations_simps [simp]:
  "typedDeclarations (TIntermSymbol v)"
  "typedDeclarations (TIntermConstantUnion c)"
  "typedDeclarations (TIntermSwizzle n offsets) = typedDeclarations n"
  "typedDeclarations (TIntermBinary op l r) = (typedDeclarations l \<and> typedDeclarations r)"
  "typedDeclarations (TIntermAggregate op args) = list_all typedDeclarations args"
  "typedDeclarations (TIntermDeclaration sequence) =
     (sequence \<noteq> [] \<and> getTypeOfDeclarator (hd sequence) \<noteq> None
      \<and> list_all typedDeclarations sequence)"
  "typedDeclarations (TIntermBlock sequence) = list_all typedDeclarations sequence"
  "typedDeclarations (TIntermFunctionDefinition f body) = typedDeclarations body"
  "typedDeclarations (TIntermOther cl sequence) = list_all typedDeclarations sequence"
  by (auto simp: typedDeclarations_def list_all_concat list_all_iff)

lemma no_replacement: "mReplacement t = None \<Longrightarrow> t\<lparr>mReplacement := None\<rparr> = t"
  by simp

lemma images_visitDeclaration_quiet:
  assumes "mClass t = RewritePLSToImagesTraverser"
    and "sequence \<noteq> []" and "getTypeOfDeclarator (hd sequence) \<noteq> None"
    and "\<not> isPLSDeclarator (hd sequence)"
  shows "visitDeclaration sequence t = Some (True, t)"
  using assms
  by (cases sequence)
     (auto simp: visitDeclaration_def RewritePLSTraverser_visitDeclaration_def isPLSDeclarator_def)

lemma traverse_quiet:
  "mClass t = RewritePLSToImagesTraverser \<Longrightarrow> mReplacement t = None \<Longrightarrow> plsFree n
     \<Longrightarrow> typedDeclarations n \<Longrightarrow> traverse n t = Some (n, t)"
  "mClass t = RewritePLSToImagesTraverser \<Longrightarrow> mReplacement t = None \<Longrightarrow> list_all plsFree ns
     \<Longrightarrow> list_all typedDeclarations ns \<Longrightarrow> traverseSequence ns t = Some (ns, t)"
  "mClass t = RewritePLSToImagesTraverser \<Longrightarrow> mReplacement t = None \<Longrightarrow> list_all plsFree bs
     \<Longrightarrow> list_all typedDeclarations bs
     \<Longrightarrow> traverseBlockSequence bs t =
           Some (bs, if bs = [] then t else t\<lparr>mInsertionsBefore := [], mInsertionsAfter := []\<rparr>)"
  "\<not> BuiltInGroup_IsPixelLocal op \<Longrightarrow> visitAggregate op args t = Some (True, t)"
proof (induction n t and ns t and bs t and op args t
       rule: traverse_traverseSequence_traverseBlockSequence_visitAggregate.induct)
  case (1 v t)
  then show ?case by (simp add: traverse_symbol currentVariable_def)
next
  case (2 c t)
  show ?case by simp
next
  case (3 n offsets t)
  then show ?case by simp
next
  case (4 op l r t)
  from 4(1) 4(3-6) have l: "traverse l t = Some (l, t)" by simp
  from 4(2) [OF l refl] 4(3-6) have "traverse r t = Some (r, t)" by simp
  with l show ?case by simp
next
  case (5 op args t)
  from 5(5) have np: "\<not> BuiltInGroup_IsPixelLocal op" and a: "list_all plsFree args" by simp_all
  from 5(6) have ty: "list_all typedDeclarations args" by simp
  from 5(1) [OF np] 5(4) have v: "visitAggregate op args (t\<lparr>mReplacement := None\<rparr>) = Some (True, t)"
    by (simp add: no_replacement)
  from 5(2) [OF v refl _ 5(3) 5(4) a ty] have "traverseSequence args t = Some (args, t)" by simp
  with v show ?case by simp
next
  case (6 sequence t)
  from 6(4) have a: "list_all plsFree sequence" and nd: "list_all (\<lambda>d. \<not> isPLSDeclarator d) sequence"
    by simp_all
  from 6(5) have ne: "sequence \<noteq> []" and ty: "getTypeOfDeclarator (hd sequence) \<noteq> None"
    and tys: "list_all typedDeclarations sequence" by simp_all
  from ne nd have "\<not> isPLSDeclarator (hd sequence)" by (cases sequence) simp_all
  from images_visitDeclaration_quiet [OF 6(2) ne ty this] 6(3)
  have v: "visitDeclaration sequence (t\<lparr>mReplacement := None\<rparr>) = Some (True, t)"
    by (simp add: no_replacement)
  from 6(1) [OF v refl _ 6(2) 6(3) a tys] have "traverseSequence sequence t = Some (sequence, t)"
    by simp
  with v show ?case by simp
next
  case (7 sequence t)
  from 7(1) [OF 7(2) 7(3)] 7(4) 7(5)
  have "traverseBlockSequence sequence t =
          Some (sequence, if sequence = [] then t
                          else t\<lparr>mInsertionsBefore := [], mInsertionsAfter := []\<rparr>)"
    by simp
  then show ?case by simp
next
  case (8 f body t)
  then show ?case by simp
next
  case (9 c sequence t)
  then show ?case by simp
next
  case (10 t)
  show ?case by simp
next
  case (11 child children t)
  from 11(1) 11(3-6) have c: "traverse child t = Some (child, t)" by simp
  from 11(2) [OF c refl] 11(3-6) have "traverseSequence children t = Some (children, t)" by simp
  with c show ?case by simp
next
  case (12 t)
  show ?case by simp
next
  case (13 child children t)
  let ?t0 = "t\<lparr>mInsertionsBefore := [], mInsertionsAfter := []\<rparr>"
  from 13(1) 13(3-6) have c: "traverse child ?t0 = Some (child, ?t0)" by simp
  from 13(2) [OF c refl] 13(3-6)
  have "traverseBlockSequence children ?t0 =
          Some (children, if children = [] then ?t0
                          else ?t0\<lparr>mInsertionsBefore := [], mInsertionsAfter := []\<rparr>)"
    by simp
  then have "traverseBlockSequence children ?t0 = Some (children, ?t0)"
    by (simp split: if_splits)
  with c show ?case by simp
next
  case (14 op args t)
  then show ?case by (simp add: visitAggregate.simps [of op args t])
qed

subsection \<open>The steps of RewritePixelLocalStorage\<close>

lemma images_injectSetupCode:
  assumes "fragmentSynchronizationType (pls opts) \<noteq> InvalidEnum"
  shows "RewritePLSToImagesTraverser_injectSetupCode compiler st opts mainBody 0 =
           Some (compiler\<lparr>isEarlyFragmentTestsSpecified := True\<rparr>,
                 imageSetupStatements (fragmentSynchronizationType (pls opts)) @ mainBody)"
  using assms
  by (cases "fragmentSynchronizationType (pls opts)")
     (simp_all add: RewritePLSToImagesTraverser_injectSetupCode_def imageSetupStatements_def
        specifyEarlyFragmentTests_def insertStatement_def insertStatements_def
        CreateBuiltInFunctionCallNode_def)

lemma images_injectFinalizeCode:
  assumes "fragmentSynchronizationType (pls opts) \<noteq> InvalidEnum"
  shows "RewritePLSToImagesTraverser_injectFinalizeCode compiler st opts mainBody (length mainBody) =
           Some (mainBody @ imageFinalizeStatements (fragmentSynchronizationType (pls opts)))"
  using assms
  by (cases "fragmentSynchronizationType (pls opts)")
     (simp_all add: RewritePLSToImagesTraverser_injectFinalizeCode_def imageFinalizeStatements_def
        insertStatement_def insertStatements_def CreateBuiltInFunctionCallNode_def)

lemma images_injectSetupCode_Some:
  assumes "RewritePLSToImagesTraverser_injectSetupCode compiler st opts mainBody 0 = Some (c', b')"
  shows "c' = compiler\<lparr>isEarlyFragmentTestsSpecified := True\<rparr> \<and>
         b' = imageSetupStatements (fragmentSynchronizationType (pls opts)) @ mainBody \<and>
         fragmentSynchronizationType (pls opts) \<noteq> InvalidEnum"
proof (cases "fragmentSynchronizationType (pls opts) = InvalidEnum")
  case True
  with assms show ?thesis by (simp add: RewritePLSToImagesTraverser_injectSetupCode_def)
next
  case False
  with assms images_injectSetupCode [OF False, of compiler st mainBody] show ?thesis by simp
qed

text \<open>
  The pass, step by step: which traverser it creates, and what it returns once the
  traversal has returned a tree that passes the validation and has a main function.
\<close>

lemma RewritePixelLocalStorage_steps:
  assumes mono: "MonomorphizeUnsupportedFunctions ext root = (True, root1)"
    and cls: "traverserClass (plsType (pls opts)) = Some cls"
    and tr: "traverse root1 (RewritePLSTraverser_new cls compiler st opts ver) = Some (root2, t)"
    and valid: "validateAST ext root2"
    and main: "FindMainBody root2 = Some body"
  shows "RewritePixelLocalStorage ext compiler root st opts ver = do {
           (compiler1, body1) \<leftarrow> injectSetupCode t compiler (mSymbolTable t) opts body 0;
           body2 \<leftarrow> injectFinalizeCode t compiler1 (mSymbolTable t) opts body1 (length body1);
           body3 \<leftarrow> (case mGlobalPixelCoord t of
                       None \<Rightarrow> Some body2
                     | Some pc \<Rightarrow> do {
                         exp \<leftarrow> initGlobalPixelCoord pc (mSymbolTable t) ver;
                         insertStatement 0 exp body2
                       });
           Some (validateAST ext (setMainBody body3 root2), compiler1, setMainBody body3 root2)
         }"
proof -
  have new: "(case plsType (pls opts) of
                ImageStoreR32PackedFormats \<Rightarrow>
                  Some (RewritePLSTraverser_new RewritePLSToImagesTraverser compiler st opts ver)
              | ImageStoreNativeFormats \<Rightarrow>
                  Some (RewritePLSTraverser_new RewritePLSToImagesTraverser compiler st opts ver)
              | FramebufferFetch \<Rightarrow>
                  Some (RewritePLSTraverser_new RewritePLSToFramebufferFetchTraverser compiler
                          st opts ver)
              | PLS_NotSupported \<Rightarrow> None) =
             Some (RewritePLSTraverser_new cls compiler st opts ver)"
    using cls by (cases "plsType (pls opts)") (auto simp: traverserClass_def)
  show ?thesis
    unfolding RewritePixelLocalStorage_def by (simp add: mono new tr valid main Let_def)
qed


lemma FindMainBody_in_setMainBody_in:
  "FindMainBody_in sequence = Some old \<Longrightarrow>
   FindMainBody_in (setMainBody_in body sequence) = Some body"
  by (induction sequence rule: FindMainBody_in.induct) (auto split: if_splits)

lemma FindMainBody_setMainBody:
  "FindMainBody root = Some old \<Longrightarrow> FindMainBody (setMainBody body root) = Some body"
  by (cases root) (auto simp: FindMainBody_in_setMainBody_in)

lemma RewritePLSTraverser_new_simps [simp]:
  "mClass (RewritePLSTraverser_new cls compiler st opts ver) = cls"
  "mCompiler (RewritePLSTraverser_new cls compiler st opts ver) = compiler"
  "mCompileOptions (RewritePLSTraverser_new cls compiler st opts ver) = opts"
  "mShaderVersion (RewritePLSTraverser_new cls compiler st opts ver) = ver"
  "mSymbolTable (RewritePLSTraverser_new cls compiler st opts ver) = st"
  "mGlobalPixelCoord (RewritePLSTraverser_new cls compiler st opts ver) = None"
  "mImages (RewritePLSTraverser_new cls compiler st opts ver) = []"
  "mPLSAttachments (RewritePLSTraverser_new cls compiler st opts ver) = []"
  "mRewrittenOutputs (RewritePLSTraverser_new cls compiler st opts ver) = Map.empty"
  "mReplacement (RewritePLSTraverser_new cls compiler st opts ver) = None"
  "mInsertionsBefore (RewritePLSTraverser_new cls compiler st opts ver) = []"
  "mInsertionsAfter (RewritePLSTraverser_new cls compiler st opts ver) = []"
  by (simp_all add: RewritePLSTraverser_new_def)


subsection \<open>The visit of a store\<close>




subsection \<open>The registry of backing stores\<close>

lemma concat_concat_map: "concat (concat (map f xs)) = concat (map (\<lambda>x. concat (f x)) xs)"
  by (induction xs) auto

lemma plsDeclarations_simps [simp]:
  "plsDeclarations (TIntermSymbol v) = []"
  "plsDeclarations (TIntermConstantUnion c) = []"
  "plsDeclarations (TIntermSwizzle n offsets) = plsDeclarations n"
  "plsDeclarations (TIntermBinary op l r) = plsDeclarations l @ plsDeclarations r"
  "plsDeclarations (TIntermAggregate op args) = concat (map plsDeclarations args)"
  "plsDeclarations (TIntermDeclaration sequence) =
     filter isPLSDeclarator sequence @ concat (map plsDeclarations sequence)"
  "plsDeclarations (TIntermBlock sequence) = concat (map plsDeclarations sequence)"
  "plsDeclarations (TIntermFunctionDefinition f body) = plsDeclarations body"
  "plsDeclarations (TIntermOther cl sequence) = concat (map plsDeclarations sequence)"
  by (simp_all add: plsDeclarations_def [abs_def] map_concat comp_def concat_concat_map)

lemma plsBindings_simps [simp]:
  "plsBindings (TIntermSymbol v) = []"
  "plsBindings (TIntermConstantUnion c) = []"
  "plsBindings (TIntermSwizzle n offsets) = plsBindings n"
  "plsBindings (TIntermBinary op l r) = plsBindings l @ plsBindings r"
  "plsBindings (TIntermAggregate op args) = concat (map plsBindings args)"
  "plsBindings (TIntermBlock sequence) = concat (map plsBindings sequence)"
  "plsBindings (TIntermFunctionDefinition f body) = plsBindings body"
  "plsBindings (TIntermOther cl sequence) = concat (map plsBindings sequence)"
  by (simp_all add: plsBindings_def [abs_def] map_concat comp_def)




lemma registryKeys_updates [simp]:
  "registryKeys (t\<lparr>mReplacement := r\<rparr>) = registryKeys t"
  "registryKeys (t\<lparr>mInsertionsBefore := xs\<rparr>) = registryKeys t"
  "registryKeys (t\<lparr>mInsertionsAfter := ys\<rparr>) = registryKeys t"
  "registryKeys (t\<lparr>mSymbolTable := s\<rparr>) = registryKeys t"
  "registryKeys (t\<lparr>mGlobalPixelCoord := g\<rparr>) = registryKeys t"
  "registryKeys (t\<lparr>mRewrittenOutputs := ro\<rparr>) = registryKeys t"
  by (simp_all add: registryKeys_def split: TraverserClass.split)

lemma registered_updates [simp]:
  "registered t bs (t'\<lparr>mReplacement := r\<rparr>) = registered t bs t'"
  "registered t bs (t'\<lparr>mInsertionsBefore := xs\<rparr>) = registered t bs t'"
  "registered t bs (t'\<lparr>mInsertionsAfter := ys\<rparr>) = registered t bs t'"
  "registered t bs (t'\<lparr>mSymbolTable := s\<rparr>) = registered t bs t'"
  "registered t bs (t'\<lparr>mRewrittenOutputs := ro\<rparr>) = registered t bs t'"
  "registered (t\<lparr>mReplacement := r\<rparr>) bs t' = registered t bs t'"
  "registered (t\<lparr>mInsertionsBefore := xs\<rparr>) bs t' = registered t bs t'"
  "registered (t\<lparr>mInsertionsAfter := ys\<rparr>) bs t' = registered t bs t'"
  "registered (t\<lparr>mSymbolTable := s\<rparr>) bs t' = registered t bs t'"
  by (simp_all add: registered_def)




lemma registryKeys_ensure [simp]:
  "registryKeys (ensureGlobalPixelCoordDeclared t) = registryKeys t"
  by (cases "mGlobalPixelCoord t")
     (simp_all add: ensureGlobalPixelCoordDeclared_def Let_def CreateTempVariable_def
        insertStatementInParentBlock_def insertStatementsInParentBlock_def registryKeys_def
        split: TraverserClass.split)

lemma mClass_ensure [simp]:
  "mClass (ensureGlobalPixelCoordDeclared t) = mClass t"
  by (cases "mGlobalPixelCoord t")
     (simp_all add: ensureGlobalPixelCoordDeclared_def Let_def CreateTempVariable_def
        insertStatementInParentBlock_def insertStatementsInParentBlock_def)

lemma mImages_ensure [simp]:
  "mImages (ensureGlobalPixelCoordDeclared t) = mImages t"
  by (cases "mGlobalPixelCoord t")
     (simp_all add: ensureGlobalPixelCoordDeclared_def Let_def CreateTempVariable_def
        insertStatementInParentBlock_def insertStatementsInParentBlock_def)

lemma insort_sorted_distinct:
  "sorted xs \<Longrightarrow> distinct xs \<Longrightarrow> b \<notin> set xs
   \<Longrightarrow> sorted (insort b xs) \<and> distinct (insort b xs)"
  by (simp add: sorted_insort distinct_insort)




subsection \<open>The global pixel coordinate\<close>



lemma coordStep_updates [simp]:
  "coordStep t bs (t'\<lparr>mReplacement := r\<rparr>) = coordStep t bs t'"
  "coordStep t bs (t'\<lparr>mInsertionsBefore := xs\<rparr>) = coordStep t bs t'"
  "coordStep t bs (t'\<lparr>mInsertionsAfter := ys\<rparr>) = coordStep t bs t'"
  "coordStep t bs (t'\<lparr>mRewrittenOutputs := ro\<rparr>) = coordStep t bs t'"
  "coordStep t bs (t'\<lparr>mImages := im\<rparr>) = coordStep t bs t'"
  "coordStep (t\<lparr>mReplacement := r\<rparr>) bs t' = coordStep t bs t'"
  "coordStep (t\<lparr>mInsertionsBefore := xs\<rparr>) bs t' = coordStep t bs t'"
  "coordStep (t\<lparr>mInsertionsAfter := ys\<rparr>) bs t' = coordStep t bs t'"
  by (simp_all add: coordStep_def split: TraverserClass.split option.split)






subsection \<open>The statements the framebuffer fetch strategy injects\<close>







lemma traverse_sameConfig:
  assumes "traverse n t = Some (n', t')"
  shows "sameConfig t t'"
  using traverse_sameConfig_all [of n t n' t'] assms by simp



section \<open>A program without pixel local storage\<close>

text \<open>
  Claim C10. When the image strategy is selected, a program without pixel local storage
  declarations and operations is returned with the flag of early fragment tests set and
  with the begin and end intrinsics of the configured synchronization mechanism at the
  start and at the end of the body of main, as a program with pixel local storage would
  be; nothing else of the program is changed. The program is one whose declarations
  \<^verbatim>\<open>visitDeclaration\<close> can read the type of, that has a main function, and that passes
  the validation.
\<close>

theorem pls_free_program_still_synchronized:
  assumes "MonomorphizeUnsupportedFunctions ext root = (True, root1)"
      and "plsDeclarations root1 = []" and "plsOperations root1 = []"
      and "typedDeclarations root1"
      and "FindMainBody root1 = Some body"
      and "validateAST ext root1"
      and "plsType (pls opts) = ImageStoreR32PackedFormats
           \<or> plsType (pls opts) = ImageStoreNativeFormats"
      and "fragmentSynchronizationType (pls opts) = sync" and "sync \<noteq> InvalidEnum"
  shows "\<exists>root'.
           RewritePixelLocalStorage ext compiler root st opts ver =
             Some (validateAST ext root', compiler\<lparr>isEarlyFragmentTestsSpecified := True\<rparr>, root')
         \<and> root' = setMainBody
             ((case sync of
                 FragmentShaderInterlock_NV_GL \<Rightarrow>
                   [TIntermAggregate (EOpCallBuiltInFunction ''beginInvocationInterlockNV'') []]
               | FragmentShaderOrdering_INTEL_GL \<Rightarrow>
                   [TIntermAggregate (EOpCallBuiltInFunction ''beginFragmentShaderOrderingINTEL'') []]
               | FragmentShaderInterlock_ARB_GL \<Rightarrow>
                   [TIntermAggregate (EOpCallBuiltInFunction ''beginInvocationInterlockARB'') []]
               | _ \<Rightarrow> [])
              @ body @
              (case sync of
                 FragmentShaderInterlock_NV_GL \<Rightarrow>
                   [TIntermAggregate (EOpCallBuiltInFunction ''endInvocationInterlockNV'') []]
               | FragmentShaderInterlock_ARB_GL \<Rightarrow>
                   [TIntermAggregate (EOpCallBuiltInFunction ''endInvocationInterlockARB'') []]
               | _ \<Rightarrow> [])) root1
         \<and> FindMainBody root' =
             Some ((case sync of
                 FragmentShaderInterlock_NV_GL \<Rightarrow>
                   [TIntermAggregate (EOpCallBuiltInFunction ''beginInvocationInterlockNV'') []]
               | FragmentShaderOrdering_INTEL_GL \<Rightarrow>
                   [TIntermAggregate (EOpCallBuiltInFunction ''beginFragmentShaderOrderingINTEL'') []]
               | FragmentShaderInterlock_ARB_GL \<Rightarrow>
                   [TIntermAggregate (EOpCallBuiltInFunction ''beginInvocationInterlockARB'') []]
               | _ \<Rightarrow> [])
              @ body @
              (case sync of
                 FragmentShaderInterlock_NV_GL \<Rightarrow>
                   [TIntermAggregate (EOpCallBuiltInFunction ''endInvocationInterlockNV'') []]
               | FragmentShaderInterlock_ARB_GL \<Rightarrow>
                   [TIntermAggregate (EOpCallBuiltInFunction ''endInvocationInterlockARB'') []]
               | _ \<Rightarrow> []))"
proof -
  let ?t = "RewritePLSTraverser_new RewritePLSToImagesTraverser compiler st opts ver"
  let ?body = "imageSetupStatements sync @ body @ imageFinalizeStatements sync"
  from assms(7) have cls: "traverserClass (plsType (pls opts)) = Some RewritePLSToImagesTraverser"
    by (auto simp: traverserClass_def)
  have free: "plsFree root1" using assms(2,3) by (simp add: plsFree_def)
  have tr: "traverse root1 ?t = Some (root1, ?t)"
    by (rule traverse_quiet(1) [OF _ _ free assms(4)]) simp_all
  have ok: "fragmentSynchronizationType (pls opts) \<noteq> InvalidEnum" using assms(8,9) by simp
  have run: "RewritePixelLocalStorage ext compiler root st opts ver =
               Some (validateAST ext (setMainBody ?body root1),
                     compiler\<lparr>isEarlyFragmentTestsSpecified := True\<rparr>, setMainBody ?body root1)"
    unfolding RewritePixelLocalStorage_steps [OF assms(1) cls tr assms(6) assms(5)]
    by (simp add: injectSetupCode_def injectFinalizeCode_def images_injectSetupCode [OF ok]
          images_injectFinalizeCode [OF ok, of _ _ "imageSetupStatements sync @ body", simplified]
          assms(8))
  have main: "FindMainBody (setMainBody ?body root1) = Some ?body"
    by (rule FindMainBody_setMainBody [OF assms(5)])
  from run main show ?thesis
    unfolding imageSetupStatements_def imageFinalizeStatements_def by blast
qed

theorem pls_free_program_still_synchronized_witness:
  "RewritePixelLocalStorage exampleCollaborators exampleCompiler examplePlainProgram 100
      (exampleOptions ImageStoreNativeFormats FragmentShaderInterlock_ARB_GL) 310 =
     Some (True, exampleCompiler\<lparr>isEarlyFragmentTestsSpecified := True\<rparr>,
       TIntermBlock
         [TIntermDeclaration [TIntermSymbol exampleColor],
          TIntermFunctionDefinition ''main''
            (TIntermBlock
               [TIntermAggregate (EOpCallBuiltInFunction ''beginInvocationInterlockARB'') [],
                TIntermBinary EOpAssign (TIntermSymbol exampleColor)
                  (TIntermConstantUnion [fConst 1]),
                TIntermAggregate (EOpCallBuiltInFunction ''endInvocationInterlockARB'') []])])"
proof -
  have 1: "MonomorphizeUnsupportedFunctions exampleCollaborators examplePlainProgram =
             (True, examplePlainProgram)"
    by (simp add: exampleCollaborators_def)
  have 2: "plsDeclarations examplePlainProgram = []"
    by (simp add: examplePlainProgram_def plsDeclarations_def isPLSDeclarator_def
          exampleColor_def TType_new_def IsPixelLocal_def)
  have 3: "plsOperations examplePlainProgram = []"
    by (simp add: examplePlainProgram_def plsOperations_def)
  have 4: "typedDeclarations examplePlainProgram"
    by (simp add: examplePlainProgram_def)
  have 5: "FindMainBody examplePlainProgram =
             Some [TIntermBinary EOpAssign (TIntermSymbol exampleColor)
                     (TIntermConstantUnion [fConst 1])]"
    by (simp add: examplePlainProgram_def)
  have 6: "validateAST exampleCollaborators examplePlainProgram"
    by (simp add: exampleCollaborators_def)
  have 7: "plsType (pls (exampleOptions ImageStoreNativeFormats FragmentShaderInterlock_ARB_GL)) =
             ImageStoreR32PackedFormats
           \<or> plsType (pls (exampleOptions ImageStoreNativeFormats FragmentShaderInterlock_ARB_GL)) =
             ImageStoreNativeFormats"
    by (simp add: exampleOptions_def)
  have 8: "fragmentSynchronizationType
             (pls (exampleOptions ImageStoreNativeFormats FragmentShaderInterlock_ARB_GL)) =
           FragmentShaderInterlock_ARB_GL"
    by (simp add: exampleOptions_def)
  from pls_free_program_still_synchronized [OF 1 2 3 4 5 6 7 8, of exampleCompiler 100 310]
  show ?thesis
    by (simp add: examplePlainProgram_def exampleCollaborators_def)
qed

section \<open>The value of a store\<close>



section \<open>Preload and flush of the attachments\<close>



end
